theory Spec2Isabelle
  imports Complex_Main "HOL-Library.Word" "HOL-Library.Signed_Division"
begin

section \<open>Data model shared by jpeg-recompress.c and archive2webp.c\<close>

text \<open>
  Conventions of the embedding.
  \<^item> A C \<open>int\<close> is an \<open>int\<close>; \<open>(min + max) / 2\<close> truncates towards zero and is written
    with \<open>sdiv\<close>. Signed overflow is undefined behaviour in C and is outside the model.
  \<^item> A C \<open>float\<close> (\<open>target\<close>, \<open>metric\<close>, \<open>newDiff\<close>, \<open>bestDiff\<close>) is the real number it
    denotes; \<open>fabs\<close> is \<open>abs\<close>. Rounding, infinities and NaN are outside the model.
  \<^item> Buffers are byte lists; a pointer that may be \<open>NULL\<close> is an option; unsigned sizes
    are naturals.
  \<^item> The codecs, the metrics and the helpers of \<open>src/util.h\<close>, \<open>src/edit.h\<close>, libjpeg and
    libwebp are not part of the two source files. They are the fields of the record
    \<open>collaborators\<close>, so every statement below holds for any behaviour of theirs.
  \<^item> A run ends in an \<open>outcome\<close>: the exit status together with the bytes left in the
    output file (\<open>None\<close> when the output was never opened), or \<open>OutOfBounds\<close> when the
    program reads past the end of a buffer. Opening, writing and closing the output
    succeed, except that \<open>fwrite(p, n, 1, f)\<close> returns 0 when \<open>n\<close> is 0.
\<close>

type_synonym byte = "8 word"

datatype METHOD = UNKNOWN | SSIM | MS_SSIM | SMALLFRY | MPE

datatype QUALITY_PRESET = LOW | MEDIUM | HIGH | VERYHIGH

datatype filetype = FILETYPE_UNKNOWN | FILETYPE_AUTO | FILETYPE_JPEG | FILETYPE_PPM

datatype subsampling = SUBSAMPLE_DEFAULT | SUBSAMPLE_444

datatype outcome = Exit int "byte list option" | OutOfBounds

text \<open>The global variables of the two programs (the second has no \<open>strip\<close>,
  \<open>noProgressive\<close>, \<open>copyFiles\<close>, \<open>accurate\<close> and \<open>subsample\<close>; it leaves them untouched).
  The field \<open>cmp_method\<close> is the global \<open>method\<close>, the comparison method.\<close>

record config =
  cmp_method :: METHOD
  attempts :: int
  target :: real
  preset :: QUALITY_PRESET
  qMin :: int
  qMax :: int
  strip :: bool
  noProgressive :: bool
  defishStrength :: real
  defishZoom :: real
  inputFiletype :: filetype
  copyFiles :: bool
  accurate :: bool
  subsample :: subsampling
  quiet :: bool

record ('img, 'gray) collaborators =
  detectFiletypeFromBuffer :: "byte list \<Rightarrow> filetype"
  decodeFileFromBuffer :: "byte list \<Rightarrow> filetype \<Rightarrow> 'img option"
  defish :: "'img \<Rightarrow> real \<Rightarrow> real \<Rightarrow> 'img"
  grayscale :: "'img \<Rightarrow> 'gray option"
  getMetadata :: "byte list \<Rightarrow> string \<Rightarrow> bool \<times> byte list option"
  encodeJpeg :: "'img \<Rightarrow> int \<Rightarrow> bool \<Rightarrow> bool \<Rightarrow> subsampling \<Rightarrow> byte list"
  decodeJpeg :: "byte list \<Rightarrow> 'gray option"
  checkJpegMagic :: "byte list \<Rightarrow> bool"
  WebPConfigPreset :: bool
  WebPPictureInit :: bool
  WebPPictureImportRGB :: "'img \<Rightarrow> bool"
  WebPEncode :: "'img \<Rightarrow> int \<Rightarrow> byte list option"
  WebPDecodeRGB :: "byte list \<Rightarrow> 'img option"
  iqa_ms_ssim :: "'gray \<Rightarrow> 'gray \<Rightarrow> real"
  smallfry_metric :: "'gray \<Rightarrow> 'gray \<Rightarrow> real"
  meanPixelError :: "'gray \<Rightarrow> 'gray \<Rightarrow> real"
  iqa_ssim :: "'gray \<Rightarrow> 'gray \<Rightarrow> real"

text \<open>The local variables of \<open>main\<close> that the search loop reads and writes. \<open>minQ\<close> and
  \<open>maxQ\<close> are the C variables \<open>min\<close> and \<open>max\<close>; \<open>compressed\<close> is the buffer
  \<open>compressed\<close>/\<open>compressedSize\<close> of jpeg-recompress.c and \<open>wrt.mem\<close>/\<open>wrt.size\<close> of
  archive2webp.c; \<open>totalSize\<close> exists in jpeg-recompress.c only.\<close>

record search_state =
  attempt :: int
  quality :: int
  minQ :: int
  maxQ :: int
  bestDiff :: real
  bestQuality :: int
  compressed :: "byte list option"
  totalSize :: nat

definition FLT_MAX :: real where
  "FLT_MAX = 340282346638528859811704183484516925440"

definition INT_MIN :: int where
  "INT_MIN = - 2147483648"

definition minDelta :: nat where
  "minDelta = 10"

definition COMMENT_jpeg :: string where
  "COMMENT_jpeg = ''Compressed by jpeg-recompress''"

definition bytes_of :: "string \<Rightarrow> byte list" where
  "bytes_of s = map of_char s"

text \<open>The loop variables as \<open>main\<close> initialises them before the \<open>for\<close> statement
  (\<open>attempt = attempts - 1\<close>, \<open>min = qMin\<close>, \<open>max = qMax\<close>).\<close>

definition init_state :: "config \<Rightarrow> search_state" where
  "init_state cfg =
     \<lparr>attempt = attempts cfg - 1, quality = 0, minQ = qMin cfg, maxQ = qMax cfg,
      bestDiff = FLT_MAX, bestQuality = INT_MIN, compressed = None, totalSize = 0\<rparr>"

subsection \<open>The head of one iteration\<close>

text \<open>\<open>quality = (min + max) / 2\<close>.\<close>

definition trialQuality :: "search_state \<Rightarrow> int" where
  "trialQuality s = (minQ s + maxQ s) sdiv 2"

text \<open>The value of \<open>attempt\<close> after the two early-termination tests.\<close>

definition forcedAttempt :: "search_state \<Rightarrow> int" where
  "forcedAttempt s =
     (let a1 = (if trialQuality s = bestQuality s then 0 else attempt s)
      in if minQ s = maxQ s then 0 else a1)"

text \<open>The \<open>switch (method)\<close> that selects the metric; \<open>SSIM\<close> shares the \<open>default\<close> label.\<close>

definition measure_metric ::
  "('img, 'gray) collaborators \<Rightarrow> METHOD \<Rightarrow> 'gray \<Rightarrow> 'gray \<Rightarrow> real" where
  "measure_metric env m originalGray compressedGray =
     (case m of
        MS_SSIM \<Rightarrow> iqa_ms_ssim env originalGray compressedGray
      | SMALLFRY \<Rightarrow> smallfry_metric env originalGray compressedGray
      | MPE \<Rightarrow> meanPixelError env originalGray compressedGray
      | _ \<Rightarrow> iqa_ssim env originalGray compressedGray)"

text \<open>\<open>newDiff = fabs(target - metric); if (newDiff < bestDiff) {...}\<close>.\<close>

definition updateBest :: "real \<Rightarrow> real \<Rightarrow> int \<Rightarrow> search_state \<Rightarrow> search_state" where
  "updateBest tgt metric q s =
     (let newDiff = \<bar>tgt - metric\<bar>
      in if newDiff < bestDiff s then s\<lparr>bestDiff := newDiff, bestQuality := q\<rparr> else s)"

text \<open>The two \<open>switch (method)\<close> statements that move the bounds: the first stands in the
  branch \<open>metric < target\<close>, the second in its \<open>else\<close>. Neither has a case for \<open>UNKNOWN\<close>.\<close>

definition boundsBelow :: "METHOD \<Rightarrow> int \<Rightarrow> search_state \<Rightarrow> search_state" where
  "boundsBelow m q s =
     (case m of
        MPE \<Rightarrow> s\<lparr>maxQ := max (q - 1) (minQ s)\<rparr>
      | UNKNOWN \<Rightarrow> s
      | _ \<Rightarrow> s\<lparr>minQ := min (q + 1) (maxQ s)\<rparr>)"

definition boundsAtLeast :: "METHOD \<Rightarrow> int \<Rightarrow> search_state \<Rightarrow> search_state" where
  "boundsAtLeast m q s =
     (case m of
        MPE \<Rightarrow> s\<lparr>minQ := min (q + 1) (maxQ s)\<rparr>
      | UNKNOWN \<Rightarrow> s
      | _ \<Rightarrow> s\<lparr>maxQ := max (q - 1) (minQ s)\<rparr>)"


section \<open>jpeg-recompress.c: the search loop\<close>

text \<open>\<open>copyFile\<close>: the status it returns and the bytes it leaves in the output file.\<close>

definition copyFile :: "byte list \<Rightarrow> int \<times> byte list" where
  "copyFile buf = (if 0 < length buf then (0, buf) else (1, []))"

text \<open>\<open>metaSizeCOM = strlen(COMMENT) + 4\<close>.\<close>

definition metaSizeCOM :: nat where
  "metaSizeCOM = length COMMENT_jpeg + 4"

text \<open>The call of \<open>encodeJpeg\<close> in the body, with the flags \<open>progressive\<close> and
  \<open>optimize\<close> as the body computes them from \<open>attempt\<close>.\<close>

definition jpeg_candidate ::
  "('img, 'gray) collaborators \<Rightarrow> config \<Rightarrow> 'img \<Rightarrow> search_state \<Rightarrow> byte list" where
  "jpeg_candidate env cfg original s =
     (let att = forcedAttempt s;
          progressive = (if att \<noteq> 0 then False else \<not> noProgressive cfg);
          optimize = (if accurate cfg then True else (if att \<noteq> 0 then False else True))
      in encodeJpeg env original (trialQuality s) progressive optimize (subsample cfg))"

text \<open>One execution of the body of the \<open>for\<close> statement (lines 482 to 596). \<open>Inl\<close> is a
  \<open>return\<close> from \<open>main\<close> inside the body, \<open>Inr\<close> the variables at the end of the body,
  before \<open>--attempt\<close>.\<close>

definition jpeg_body ::
  "('img, 'gray) collaborators \<Rightarrow> config \<Rightarrow> 'img \<Rightarrow> 'gray \<Rightarrow> byte list \<Rightarrow> nat \<Rightarrow>
   search_state \<Rightarrow> outcome + search_state" where
  "jpeg_body env cfg original originalGray buf metaSize s =
     (let q = trialQuality s;
          c = jpeg_candidate env cfg original s;
          s1 = s\<lparr>attempt := forcedAttempt s, quality := q, compressed := Some c\<rparr>
      in case decodeJpeg env c of
           None \<Rightarrow> Inl (Exit 1 None)
         | Some compressedGray \<Rightarrow>
             (let metric = measure_metric env (cmp_method cfg) originalGray compressedGray;
                  s2 = updateBest (target cfg) metric q s1;
                  s3 = s2\<lparr>totalSize := length c + metaSizeCOM + metaSize\<rparr>
              in if metric < target cfg then
                   (if totalSize s3 + minDelta \<ge> length buf then
                      (if copyFiles cfg then Inl (Exit 0 (Some (snd (copyFile buf))))
                       else Inl (Exit 1 None))
                    else Inr (boundsBelow (cmp_method cfg) q s3))
                 else Inr (boundsAtLeast (cmp_method cfg) q s3)))"

text \<open>The score \<open>metric\<close> of the iteration that starts in \<open>s\<close>; \<open>None\<close> when the candidate
  does not decode.\<close>

definition jpeg_score ::
  "('img, 'gray) collaborators \<Rightarrow> config \<Rightarrow> 'img \<Rightarrow> 'gray \<Rightarrow> search_state \<Rightarrow> real option" where
  "jpeg_score env cfg original originalGray s =
     map_option (measure_metric env (cmp_method cfg) originalGray)
       (decodeJpeg env (jpeg_candidate env cfg original s))"

lemma attempt_updateBest: "attempt (updateBest tgt metric q s) = attempt s"
  by (simp add: updateBest_def Let_def)

lemma attempt_boundsBelow: "attempt (boundsBelow m q s) = attempt s"
  by (cases m) (simp_all add: boundsBelow_def)

lemma attempt_boundsAtLeast: "attempt (boundsAtLeast m q s) = attempt s"
  by (cases m) (simp_all add: boundsAtLeast_def)

lemma forcedAttempt_cases: "forcedAttempt s = 0 \<or> forcedAttempt s = attempt s"
  by (simp add: forcedAttempt_def Let_def)

lemma jpeg_body_attempt:
  assumes "jpeg_body env cfg original originalGray buf metaSize s = Inr s'"
  shows "attempt s' = forcedAttempt s"
  using assms
  by (auto simp: jpeg_body_def Let_def attempt_updateBest attempt_boundsBelow
      attempt_boundsAtLeast split: option.splits if_splits)

lemma forcedAttempt_decreases: "0 \<le> attempt s \<Longrightarrow> nat (forcedAttempt s - 1 + 1) < nat (attempt s + 1)"
  using forcedAttempt_cases [of s] by auto

text \<open>The \<open>for\<close> statement: \<open>attempt >= 0\<close> is tested, the body runs, \<open>--attempt\<close> follows.
  \<open>Inr\<close> is the state with which the loop is left.\<close>

function jpeg_search ::
  "('img, 'gray) collaborators \<Rightarrow> config \<Rightarrow> 'img \<Rightarrow> 'gray \<Rightarrow> byte list \<Rightarrow> nat \<Rightarrow>
   search_state \<Rightarrow> outcome + search_state" where
  "jpeg_search env cfg original originalGray buf metaSize s =
     (if 0 \<le> attempt s then
        (case jpeg_body env cfg original originalGray buf metaSize s of
           Inl e \<Rightarrow> Inl e
         | Inr s' \<Rightarrow>
             jpeg_search env cfg original originalGray buf metaSize
               (s'\<lparr>attempt := attempt s' - 1\<rparr>))
      else Inr s)"
  by pat_completeness auto
termination
proof (relation "measure (\<lambda>(env, cfg, original, originalGray, buf, metaSize, s). nat (attempt s + 1))")
  show "wf (measure (\<lambda>(env :: ('img, 'gray) collaborators, cfg :: config, original :: 'img,
      originalGray :: 'gray, buf :: byte list, metaSize :: nat, s :: search_state).
      nat (attempt s + 1)))"
    by simp
next
  fix env :: "('img, 'gray) collaborators" and cfg :: config and original :: 'img
    and originalGray :: 'gray and buf :: "byte list" and metaSize :: nat
    and s s' :: search_state
  assume "0 \<le> attempt s"
    and "jpeg_body env cfg original originalGray buf metaSize s = Inr s'"
  then show "((env, cfg, original, originalGray, buf, metaSize, s'\<lparr>attempt := attempt s' - 1\<rparr>),
             (env, cfg, original, originalGray, buf, metaSize, s))
         \<in> measure (\<lambda>(env, cfg, original, originalGray, buf, metaSize, s). nat (attempt s + 1))"
    using forcedAttempt_decreases [of s] by (simp add: jpeg_body_attempt)
qed

declare jpeg_search.simps [simp del]


text \<open>Two readings of the same loop, for stating properties of every iteration:
  \<open>jpeg_visited\<close> lists the variables at the end of each completed body, in order, and
  \<open>jpeg_cycles\<close> counts the executions of the body.\<close>

function jpeg_visited ::
  "('img, 'gray) collaborators \<Rightarrow> config \<Rightarrow> 'img \<Rightarrow> 'gray \<Rightarrow> byte list \<Rightarrow> nat \<Rightarrow>
   search_state \<Rightarrow> search_state list" where
  "jpeg_visited env cfg original originalGray buf metaSize s =
     (if 0 \<le> attempt s then
        (case jpeg_body env cfg original originalGray buf metaSize s of
           Inl e \<Rightarrow> []
         | Inr s' \<Rightarrow>
             s' # jpeg_visited env cfg original originalGray buf metaSize
               (s'\<lparr>attempt := attempt s' - 1\<rparr>))
      else [])"
  by pat_completeness auto
termination
proof (relation "measure (\<lambda>(env, cfg, original, originalGray, buf, metaSize, s). nat (attempt s + 1))")
  show "wf (measure (\<lambda>(env :: ('img, 'gray) collaborators, cfg :: config, original :: 'img,
      originalGray :: 'gray, buf :: byte list, metaSize :: nat, s :: search_state).
      nat (attempt s + 1)))"
    by simp
next
  fix env :: "('img, 'gray) collaborators" and cfg :: config and original :: 'img
    and originalGray :: 'gray and buf :: "byte list" and metaSize :: nat
    and s s' :: search_state
  assume "0 \<le> attempt s"
    and "jpeg_body env cfg original originalGray buf metaSize s = Inr s'"
  then show "((env, cfg, original, originalGray, buf, metaSize, s'\<lparr>attempt := attempt s' - 1\<rparr>),
             (env, cfg, original, originalGray, buf, metaSize, s))
         \<in> measure (\<lambda>(env, cfg, original, originalGray, buf, metaSize, s). nat (attempt s + 1))"
    using forcedAttempt_decreases [of s] by (simp add: jpeg_body_attempt)
qed

declare jpeg_visited.simps [simp del]

function jpeg_cycles ::
  "('img, 'gray) collaborators \<Rightarrow> config \<Rightarrow> 'img \<Rightarrow> 'gray \<Rightarrow> byte list \<Rightarrow> nat \<Rightarrow>
   search_state \<Rightarrow> nat" where
  "jpeg_cycles env cfg original originalGray buf metaSize s =
     (if 0 \<le> attempt s then
        (case jpeg_body env cfg original originalGray buf metaSize s of
           Inl e \<Rightarrow> 1
         | Inr s' \<Rightarrow>
             1 + jpeg_cycles env cfg original originalGray buf metaSize
               (s'\<lparr>attempt := attempt s' - 1\<rparr>))
      else 0)"
  by pat_completeness auto
termination
proof (relation "measure (\<lambda>(env, cfg, original, originalGray, buf, metaSize, s). nat (attempt s + 1))")
  show "wf (measure (\<lambda>(env :: ('img, 'gray) collaborators, cfg :: config, original :: 'img,
      originalGray :: 'gray, buf :: byte list, metaSize :: nat, s :: search_state).
      nat (attempt s + 1)))"
    by simp
next
  fix env :: "('img, 'gray) collaborators" and cfg :: config and original :: 'img
    and originalGray :: 'gray and buf :: "byte list" and metaSize :: nat
    and s s' :: search_state
  assume "0 \<le> attempt s"
    and "jpeg_body env cfg original originalGray buf metaSize s = Inr s'"
  then show "((env, cfg, original, originalGray, buf, metaSize, s'\<lparr>attempt := attempt s' - 1\<rparr>),
             (env, cfg, original, originalGray, buf, metaSize, s))
         \<in> measure (\<lambda>(env, cfg, original, originalGray, buf, metaSize, s). nat (attempt s + 1))"
    using forcedAttempt_decreases [of s] by (simp add: jpeg_body_attempt)
qed

declare jpeg_cycles.simps [simp del]

section \<open>archive2webp.c: the search loop\<close>

text \<open>One execution of the body of the \<open>for\<close> statement (lines 415 to 526).
  \<open>WebPMemoryWriterClear\<close> empties \<open>wrt\<close> before \<open>WebPEncode\<close> fills it.\<close>

definition webp_body ::
  "('img, 'gray) collaborators \<Rightarrow> config \<Rightarrow> 'img \<Rightarrow> 'gray \<Rightarrow> search_state \<Rightarrow>
   outcome + search_state" where
  "webp_body env cfg pic originalGray s =
     (let q = trialQuality s
      in case WebPEncode env pic q of
           None \<Rightarrow> Inl (Exit 1 None)
         | Some w \<Rightarrow>
             (let s1 = s\<lparr>attempt := forcedAttempt s, quality := q, compressed := Some w\<rparr>
              in case WebPDecodeRGB env w of
                   None \<Rightarrow> Inl (Exit 1 None)
                 | Some decodedImage \<Rightarrow>
                     (case grayscale env decodedImage of
                        None \<Rightarrow> Inl (Exit 1 None)
                      | Some compressedGray \<Rightarrow>
                          (let metric = measure_metric env (cmp_method cfg) originalGray compressedGray;
                               s2 = updateBest (target cfg) metric q s1
                           in if metric < target cfg then Inr (boundsBelow (cmp_method cfg) q s2)
                              else Inr (boundsAtLeast (cmp_method cfg) q s2)))))"

definition webp_score ::
  "('img, 'gray) collaborators \<Rightarrow> config \<Rightarrow> 'img \<Rightarrow> 'gray \<Rightarrow> search_state \<Rightarrow> real option" where
  "webp_score env cfg pic originalGray s =
     (case WebPEncode env pic (trialQuality s) of
        None \<Rightarrow> None
      | Some w \<Rightarrow>
          (case WebPDecodeRGB env w of
             None \<Rightarrow> None
           | Some decodedImage \<Rightarrow>
               map_option (measure_metric env (cmp_method cfg) originalGray)
                 (grayscale env decodedImage)))"

lemma webp_body_attempt:
  assumes "webp_body env cfg pic originalGray s = Inr s'"
  shows "attempt s' = forcedAttempt s"
  using assms
  by (auto simp: webp_body_def Let_def attempt_updateBest attempt_boundsBelow
      attempt_boundsAtLeast split: option.splits if_splits)

function webp_search ::
  "('img, 'gray) collaborators \<Rightarrow> config \<Rightarrow> 'img \<Rightarrow> 'gray \<Rightarrow> search_state \<Rightarrow>
   outcome + search_state" where
  "webp_search env cfg pic originalGray s =
     (if 0 \<le> attempt s then
        (case webp_body env cfg pic originalGray s of
           Inl e \<Rightarrow> Inl e
         | Inr s' \<Rightarrow> webp_search env cfg pic originalGray (s'\<lparr>attempt := attempt s' - 1\<rparr>))
      else Inr s)"
  by pat_completeness auto
termination
proof (relation "measure (\<lambda>(env, cfg, pic, originalGray, s). nat (attempt s + 1))")
  show "wf (measure (\<lambda>(env :: ('img, 'gray) collaborators, cfg :: config, pic :: 'img,
      originalGray :: 'gray, s :: search_state). nat (attempt s + 1)))"
    by simp
next
  fix env :: "('img, 'gray) collaborators" and cfg :: config and pic :: 'img
    and originalGray :: 'gray and s s' :: search_state
  assume "0 \<le> attempt s" and "webp_body env cfg pic originalGray s = Inr s'"
  then show "((env, cfg, pic, originalGray, s'\<lparr>attempt := attempt s' - 1\<rparr>),
             (env, cfg, pic, originalGray, s))
         \<in> measure (\<lambda>(env, cfg, pic, originalGray, s). nat (attempt s + 1))"
    using forcedAttempt_decreases [of s] by (simp add: webp_body_attempt)
qed

declare webp_search.simps [simp del]

function webp_visited ::
  "('img, 'gray) collaborators \<Rightarrow> config \<Rightarrow> 'img \<Rightarrow> 'gray \<Rightarrow> search_state \<Rightarrow>
   search_state list" where
  "webp_visited env cfg pic originalGray s =
     (if 0 \<le> attempt s then
        (case webp_body env cfg pic originalGray s of
           Inl e \<Rightarrow> []
         | Inr s' \<Rightarrow>
             s' # webp_visited env cfg pic originalGray (s'\<lparr>attempt := attempt s' - 1\<rparr>))
      else [])"
  by pat_completeness auto
termination
proof (relation "measure (\<lambda>(env, cfg, pic, originalGray, s). nat (attempt s + 1))")
  show "wf (measure (\<lambda>(env :: ('img, 'gray) collaborators, cfg :: config, pic :: 'img,
      originalGray :: 'gray, s :: search_state). nat (attempt s + 1)))"
    by simp
next
  fix env :: "('img, 'gray) collaborators" and cfg :: config and pic :: 'img
    and originalGray :: 'gray and s s' :: search_state
  assume "0 \<le> attempt s" and "webp_body env cfg pic originalGray s = Inr s'"
  then show "((env, cfg, pic, originalGray, s'\<lparr>attempt := attempt s' - 1\<rparr>),
             (env, cfg, pic, originalGray, s))
         \<in> measure (\<lambda>(env, cfg, pic, originalGray, s). nat (attempt s + 1))"
    using forcedAttempt_decreases [of s] by (simp add: webp_body_attempt)
qed

declare webp_visited.simps [simp del]

function webp_cycles ::
  "('img, 'gray) collaborators \<Rightarrow> config \<Rightarrow> 'img \<Rightarrow> 'gray \<Rightarrow> search_state \<Rightarrow> nat" where
  "webp_cycles env cfg pic originalGray s =
     (if 0 \<le> attempt s then
        (case webp_body env cfg pic originalGray s of
           Inl e \<Rightarrow> 1
         | Inr s' \<Rightarrow>
             1 + webp_cycles env cfg pic originalGray (s'\<lparr>attempt := attempt s' - 1\<rparr>))
      else 0)"
  by pat_completeness auto
termination
proof (relation "measure (\<lambda>(env, cfg, pic, originalGray, s). nat (attempt s + 1))")
  show "wf (measure (\<lambda>(env :: ('img, 'gray) collaborators, cfg :: config, pic :: 'img,
      originalGray :: 'gray, s :: search_state). nat (attempt s + 1)))"
    by simp
next
  fix env :: "('img, 'gray) collaborators" and cfg :: config and pic :: 'img
    and originalGray :: 'gray and s s' :: search_state
  assume "0 \<le> attempt s" and "webp_body env cfg pic originalGray s = Inr s'"
  then show "((env, cfg, pic, originalGray, s'\<lparr>attempt := attempt s' - 1\<rparr>),
             (env, cfg, pic, originalGray, s))
         \<in> measure (\<lambda>(env, cfg, pic, originalGray, s). nat (attempt s + 1))"
    using forcedAttempt_decreases [of s] by (simp add: webp_body_attempt)
qed

declare webp_cycles.simps [simp del]


section \<open>Options and presets\<close>

text \<open>One element per option that \<open>getopt_long\<close> hands to the \<open>switch\<close>. A numeric
  argument is the value \<open>atof\<close> or \<open>atoi\<close> returned for it (0 for text that is not a
  number); the other arguments are the text itself.\<close>

datatype opt =
    Opt_V | Opt_h | Opt_t real | Opt_q string | Opt_n int | Opt_x int | Opt_l int | Opt_a
  | Opt_m string | Opt_s | Opt_d real | Opt_z real | Opt_r | Opt_c | Opt_p | Opt_S string
  | Opt_T string | Opt_Q

definition parseQuality :: "string \<Rightarrow> QUALITY_PRESET" where
  "parseQuality s =
     (if s = ''low'' then LOW
      else if s = ''medium'' then MEDIUM
      else if s = ''high'' then HIGH
      else if s = ''veryhigh'' then VERYHIGH
      else MEDIUM)"

definition parseMethod :: "string \<Rightarrow> METHOD" where
  "parseMethod s =
     (if s = ''ssim'' then SSIM
      else if s = ''ms-ssim'' then MS_SSIM
      else if s = ''smallfry'' then SMALLFRY
      else if s = ''mpe'' then MPE
      else UNKNOWN)"

definition parseInputFiletype :: "string \<Rightarrow> filetype" where
  "parseInputFiletype s =
     (if s = ''auto'' then FILETYPE_AUTO
      else if s = ''jpeg'' then FILETYPE_JPEG
      else if s = ''ppm'' then FILETYPE_PPM
      else FILETYPE_UNKNOWN)"

definition parseSubsampling :: "string \<Rightarrow> subsampling" where
  "parseSubsampling s =
     (if s = ''default'' then SUBSAMPLE_DEFAULT
      else if s = ''disable'' then SUBSAMPLE_444
      else SUBSAMPLE_DEFAULT)"

text \<open>The initial values of the global variables.\<close>

definition defaults :: config where
  "defaults =
     \<lparr>cmp_method = SSIM, attempts = 8, target = 0, preset = MEDIUM, qMin = 1, qMax = 99,
      strip = False, noProgressive = False, defishStrength = 0, defishZoom = 1,
      inputFiletype = FILETYPE_AUTO, copyFiles = True, accurate = False,
      subsample = SUBSAMPLE_DEFAULT, quiet = False\<rparr>"

text \<open>The \<open>while\<close> loop over \<open>getopt_long\<close> in jpeg-recompress.c; \<open>Inl\<close> is a \<open>return\<close>
  inside the \<open>switch\<close>.\<close>

fun jpeg_getopt :: "opt list \<Rightarrow> config \<Rightarrow> outcome + config" where
  "jpeg_getopt [] cfg = Inr cfg"
| "jpeg_getopt (Opt_V # os) cfg = Inl (Exit 0 None)"
| "jpeg_getopt (Opt_h # os) cfg = Inl (Exit 0 None)"
| "jpeg_getopt (Opt_t v # os) cfg = jpeg_getopt os (cfg\<lparr>target := v\<rparr>)"
| "jpeg_getopt (Opt_q a # os) cfg = jpeg_getopt os (cfg\<lparr>preset := parseQuality a\<rparr>)"
| "jpeg_getopt (Opt_n v # os) cfg = jpeg_getopt os (cfg\<lparr>qMin := v\<rparr>)"
| "jpeg_getopt (Opt_x v # os) cfg = jpeg_getopt os (cfg\<lparr>qMax := v\<rparr>)"
| "jpeg_getopt (Opt_l v # os) cfg = jpeg_getopt os (cfg\<lparr>attempts := v\<rparr>)"
| "jpeg_getopt (Opt_a # os) cfg = jpeg_getopt os (cfg\<lparr>accurate := True\<rparr>)"
| "jpeg_getopt (Opt_m a # os) cfg = jpeg_getopt os (cfg\<lparr>cmp_method := parseMethod a\<rparr>)"
| "jpeg_getopt (Opt_s # os) cfg = jpeg_getopt os (cfg\<lparr>strip := True\<rparr>)"
| "jpeg_getopt (Opt_d v # os) cfg = jpeg_getopt os (cfg\<lparr>defishStrength := v\<rparr>)"
| "jpeg_getopt (Opt_z v # os) cfg = jpeg_getopt os (cfg\<lparr>defishZoom := v\<rparr>)"
| "jpeg_getopt (Opt_r # os) cfg = jpeg_getopt os (cfg\<lparr>inputFiletype := FILETYPE_PPM\<rparr>)"
| "jpeg_getopt (Opt_c # os) cfg = jpeg_getopt os (cfg\<lparr>copyFiles := False\<rparr>)"
| "jpeg_getopt (Opt_p # os) cfg = jpeg_getopt os (cfg\<lparr>noProgressive := True\<rparr>)"
| "jpeg_getopt (Opt_S a # os) cfg = jpeg_getopt os (cfg\<lparr>subsample := parseSubsampling a\<rparr>)"
| "jpeg_getopt (Opt_T a # os) cfg =
     (if inputFiletype cfg \<noteq> FILETYPE_AUTO then Inl (Exit 1 None)
      else jpeg_getopt os (cfg\<lparr>inputFiletype := parseInputFiletype a\<rparr>))"
| "jpeg_getopt (Opt_Q # os) cfg = jpeg_getopt os (cfg\<lparr>quiet := True\<rparr>)"

text \<open>The same loop in archive2webp.c. Its option string has no \<open>a\<close>, \<open>s\<close>, \<open>c\<close>, \<open>p\<close> and
  \<open>S\<close>: \<open>getopt_long\<close> answers \<open>'?'\<close> for them and the \<open>switch\<close> has no such case.\<close>

fun webp_getopt :: "opt list \<Rightarrow> config \<Rightarrow> outcome + config" where
  "webp_getopt [] cfg = Inr cfg"
| "webp_getopt (Opt_V # os) cfg = Inl (Exit 0 None)"
| "webp_getopt (Opt_h # os) cfg = Inl (Exit 0 None)"
| "webp_getopt (Opt_t v # os) cfg = webp_getopt os (cfg\<lparr>target := v\<rparr>)"
| "webp_getopt (Opt_q a # os) cfg = webp_getopt os (cfg\<lparr>preset := parseQuality a\<rparr>)"
| "webp_getopt (Opt_n v # os) cfg = webp_getopt os (cfg\<lparr>qMin := v\<rparr>)"
| "webp_getopt (Opt_x v # os) cfg = webp_getopt os (cfg\<lparr>qMax := v\<rparr>)"
| "webp_getopt (Opt_l v # os) cfg = webp_getopt os (cfg\<lparr>attempts := v\<rparr>)"
| "webp_getopt (Opt_m a # os) cfg = webp_getopt os (cfg\<lparr>cmp_method := parseMethod a\<rparr>)"
| "webp_getopt (Opt_d v # os) cfg = webp_getopt os (cfg\<lparr>defishStrength := v\<rparr>)"
| "webp_getopt (Opt_z v # os) cfg = webp_getopt os (cfg\<lparr>defishZoom := v\<rparr>)"
| "webp_getopt (Opt_r # os) cfg = webp_getopt os (cfg\<lparr>inputFiletype := FILETYPE_PPM\<rparr>)"
| "webp_getopt (Opt_T a # os) cfg =
     (if inputFiletype cfg \<noteq> FILETYPE_AUTO then Inl (Exit 1 None)
      else webp_getopt os (cfg\<lparr>inputFiletype := parseInputFiletype a\<rparr>))"
| "webp_getopt (Opt_Q # os) cfg = webp_getopt os (cfg\<lparr>quiet := True\<rparr>)"
| "webp_getopt (_ # os) cfg = webp_getopt os cfg"

text \<open>\<open>setTargetFromPreset\<close> of jpeg-recompress.c. The outer \<open>switch\<close> has no case for
  \<open>UNKNOWN\<close>.\<close>

definition jpeg_setTargetFromPreset :: "config \<Rightarrow> config" where
  "jpeg_setTargetFromPreset cfg =
     (case cmp_method cfg of
        SSIM \<Rightarrow>
          (case preset cfg of
             LOW \<Rightarrow> cfg\<lparr>target := 0.999\<rparr>
           | MEDIUM \<Rightarrow> cfg\<lparr>target := 0.9999\<rparr>
           | HIGH \<Rightarrow> cfg\<lparr>target := 0.99995\<rparr>
           | VERYHIGH \<Rightarrow> cfg\<lparr>target := 0.99999\<rparr>)
      | MS_SSIM \<Rightarrow>
          (case preset cfg of
             LOW \<Rightarrow> cfg\<lparr>target := 0.85\<rparr>
           | MEDIUM \<Rightarrow> cfg\<lparr>target := 0.94\<rparr>
           | HIGH \<Rightarrow> cfg\<lparr>target := 0.96\<rparr>
           | VERYHIGH \<Rightarrow> cfg\<lparr>target := 0.98\<rparr>)
      | SMALLFRY \<Rightarrow>
          (case preset cfg of
             LOW \<Rightarrow> cfg\<lparr>target := 100.75\<rparr>
           | MEDIUM \<Rightarrow> cfg\<lparr>target := 102.25\<rparr>
           | HIGH \<Rightarrow> cfg\<lparr>target := 103.8\<rparr>
           | VERYHIGH \<Rightarrow> cfg\<lparr>target := 105.5\<rparr>)
      | MPE \<Rightarrow>
          (case preset cfg of
             LOW \<Rightarrow> cfg\<lparr>target := 1.5\<rparr>
           | MEDIUM \<Rightarrow> cfg\<lparr>target := 1.0\<rparr>
           | HIGH \<Rightarrow> cfg\<lparr>target := 0.8\<rparr>
           | VERYHIGH \<Rightarrow> cfg\<lparr>target := 0.6\<rparr>)
      | UNKNOWN \<Rightarrow> cfg)"

text \<open>\<open>setTargetFromPreset\<close> of archive2webp.c: other values for SSIM.\<close>

definition webp_setTargetFromPreset :: "config \<Rightarrow> config" where
  "webp_setTargetFromPreset cfg =
     (case cmp_method cfg of
        SSIM \<Rightarrow>
          (case preset cfg of
             LOW \<Rightarrow> cfg\<lparr>target := 0.995\<rparr>
           | MEDIUM \<Rightarrow> cfg\<lparr>target := 0.999\<rparr>
           | HIGH \<Rightarrow> cfg\<lparr>target := 0.9995\<rparr>
           | VERYHIGH \<Rightarrow> cfg\<lparr>target := 0.9999\<rparr>)
      | MS_SSIM \<Rightarrow>
          (case preset cfg of
             LOW \<Rightarrow> cfg\<lparr>target := 0.85\<rparr>
           | MEDIUM \<Rightarrow> cfg\<lparr>target := 0.94\<rparr>
           | HIGH \<Rightarrow> cfg\<lparr>target := 0.96\<rparr>
           | VERYHIGH \<Rightarrow> cfg\<lparr>target := 0.98\<rparr>)
      | SMALLFRY \<Rightarrow>
          (case preset cfg of
             LOW \<Rightarrow> cfg\<lparr>target := 100.75\<rparr>
           | MEDIUM \<Rightarrow> cfg\<lparr>target := 102.25\<rparr>
           | HIGH \<Rightarrow> cfg\<lparr>target := 103.8\<rparr>
           | VERYHIGH \<Rightarrow> cfg\<lparr>target := 105.5\<rparr>)
      | MPE \<Rightarrow>
          (case preset cfg of
             LOW \<Rightarrow> cfg\<lparr>target := 1.5\<rparr>
           | MEDIUM \<Rightarrow> cfg\<lparr>target := 1.0\<rparr>
           | HIGH \<Rightarrow> cfg\<lparr>target := 0.8\<rparr>
           | VERYHIGH \<Rightarrow> cfg\<lparr>target := 0.6\<rparr>)
      | UNKNOWN \<Rightarrow> cfg)"

text \<open>\<open>if (!target) setTargetFromPreset();\<close> in the two programs.\<close>

definition jpeg_resolveTarget :: "config \<Rightarrow> config" where
  "jpeg_resolveTarget cfg = (if target cfg = 0 then jpeg_setTargetFromPreset cfg else cfg)"

definition webp_resolveTarget :: "config \<Rightarrow> config" where
  "webp_resolveTarget cfg = (if target cfg = 0 then webp_setTargetFromPreset cfg else cfg)"


section \<open>jpeg-recompress.c: from the option checks to the output file\<close>

text \<open>\<open>app0_lenP4 = 4 + (compressed[4] << 8) + compressed[5]\<close>.\<close>

definition app0_lenP4 :: "byte list \<Rightarrow> nat" where
  "app0_lenP4 c = 4 + unat (c ! 4) * 256 + unat (c ! 5)"

text \<open>The four \<open>fputc\<close> calls and the \<open>fwrite\<close> of \<open>COMMENT\<close>.\<close>

definition comment_segment :: "byte list" where
  "comment_segment =
     [0xFF, 0xFE, 0x00, of_nat (length COMMENT_jpeg + 2)] @ bytes_of COMMENT_jpeg"

text \<open>The last \<open>fwrite\<close> (image data) and \<open>fclose\<close>; \<open>f\<close> is what the file holds so far and
  \<open>n\<close> is \<open>app0_lenP4\<close>.\<close>

definition jpeg_write_image :: "byte list \<Rightarrow> nat \<Rightarrow> byte list \<Rightarrow> outcome" where
  "jpeg_write_image c n f =
     (if length c - n = 0 then Exit 1 (Some f) else Exit 0 (Some (f @ drop n c)))"

text \<open>Lines 657 to 726: the writes to the opened output file.\<close>

definition jpeg_write :: "byte list \<Rightarrow> byte list option \<Rightarrow> outcome" where
  "jpeg_write c metaBuf =
     (if length c < 6 then OutOfBounds
      else
        (let n = app0_lenP4 c
         in if length c < n then OutOfBounds
            else
              (let f = take n c @ comment_segment
               in case metaBuf of
                    None \<Rightarrow> jpeg_write_image c n f
                  | Some m \<Rightarrow>
                      (if length m = 0 then Exit 1 (Some f)
                       else jpeg_write_image c n (f @ m)))))"

text \<open>Lines 603 to 655: the check after the loop and the two checks of the candidate's
  first bytes. With \<open>compressed == NULL\<close> the size passed to \<open>checkJpegMagic\<close> is 0, and
  a read of \<open>compressed[2]\<close> would be out of bounds.\<close>

definition jpeg_finish ::
  "('img, 'gray) collaborators \<Rightarrow> byte list \<Rightarrow> byte list option \<Rightarrow> search_state \<Rightarrow> outcome" where
  "jpeg_finish env buf metaBuf s =
     (if totalSize s \<ge> length buf then Exit 1 (Some (snd (copyFile buf)))
      else
        (let c = (case compressed s of None \<Rightarrow> [] | Some c \<Rightarrow> c)
         in if \<not> checkJpegMagic env c then Exit 1 None
            else if length c \<le> 2 then OutOfBounds
            else if c ! 2 \<noteq> 0xFF then Exit 1 None
            else if length c \<le> 3 then OutOfBounds
            else if c ! 3 \<noteq> 0xE0 then Exit 1 None
            else jpeg_write c metaBuf))"

text \<open>Lines 463 to 726: strip mode, the search and the output.\<close>

definition jpeg_recompress ::
  "('img, 'gray) collaborators \<Rightarrow> config \<Rightarrow> 'img \<Rightarrow> 'gray \<Rightarrow> byte list \<Rightarrow>
   byte list option \<Rightarrow> outcome" where
  "jpeg_recompress env cfg original originalGray buf metaBuf0 =
     (let metaBuf = (if strip cfg then None else metaBuf0);
          metaSize = (case metaBuf of None \<Rightarrow> 0 | Some m \<Rightarrow> length m)
      in case jpeg_search env cfg original originalGray buf metaSize (init_state cfg) of
           Inl e \<Rightarrow> e
         | Inr s \<Rightarrow> jpeg_finish env buf metaBuf s)"

text \<open>Lines 441 to 461: the test for a file that was processed before. \<open>getMetadata\<close>
  answers with its flag and with what it leaves in \<open>metaBuf\<close> (\<open>None\<close> for \<open>NULL\<close>);
  \<open>metaSize\<close> is the size of that buffer.\<close>

definition jpeg_with_metadata ::
  "('img, 'gray) collaborators \<Rightarrow> config \<Rightarrow> filetype \<Rightarrow> 'img \<Rightarrow> 'gray \<Rightarrow> byte list \<Rightarrow>
   outcome" where
  "jpeg_with_metadata env cfg ft original originalGray buf =
     (if ft = FILETYPE_JPEG then
        (case getMetadata env buf COMMENT_jpeg of
           (found, metaBuf) \<Rightarrow>
             (if found then
                (if copyFiles cfg then Exit 0 (Some (snd (copyFile buf))) else Exit 2 None)
              else jpeg_recompress env cfg original originalGray buf metaBuf))
      else jpeg_recompress env cfg original originalGray buf None)"

text \<open>\<open>if (inputFiletype == FILETYPE_AUTO) inputFiletype = detectFiletypeFromBuffer(...)\<close>
  and \<open>if (defishStrength) {...}\<close>, the same in both programs.\<close>

definition resolveFiletype :: "('img, 'gray) collaborators \<Rightarrow> config \<Rightarrow> byte list \<Rightarrow> filetype" where
  "resolveFiletype env cfg buf =
     (if inputFiletype cfg = FILETYPE_AUTO then detectFiletypeFromBuffer env buf
      else inputFiletype cfg)"

definition applyDefish :: "('img, 'gray) collaborators \<Rightarrow> config \<Rightarrow> 'img \<Rightarrow> 'img" where
  "applyDefish env cfg decoded =
     (if defishStrength cfg \<noteq> 0
      then defish env decoded (defishStrength cfg) (defishZoom cfg) else decoded)"

text \<open>\<open>main\<close> from line 363 on, with the globals \<open>cfg\<close> as the option loop left them,
  \<open>nargs\<close> for \<open>argc - optind\<close> and \<open>buf\<close> for what \<open>readFile\<close> delivers (empty when it
  fails).\<close>

definition jpeg_run ::
  "('img, 'gray) collaborators \<Rightarrow> config \<Rightarrow> nat \<Rightarrow> byte list \<Rightarrow> outcome" where
  "jpeg_run env cfg0 nargs buf =
     (if nargs \<noteq> 2 then Exit 255 None
      else if cmp_method cfg0 = UNKNOWN then Exit 255 None
      else if qMin cfg0 > qMax cfg0 then Exit 1 None
      else
        (let cfg = jpeg_resolveTarget cfg0
         in if length buf = 0 then Exit 1 None
            else
              (let ft = resolveFiletype env cfg buf
               in case decodeFileFromBuffer env buf ft of
                    None \<Rightarrow> Exit 1 None
                  | Some decoded \<Rightarrow>
                      (let original = applyDefish env cfg decoded
                       in case grayscale env original of
                            None \<Rightarrow> Exit 1 None
                          | Some originalGray \<Rightarrow>
                              jpeg_with_metadata env cfg ft original originalGray buf))))"

definition jpeg_main ::
  "('img, 'gray) collaborators \<Rightarrow> opt list \<Rightarrow> nat \<Rightarrow> byte list \<Rightarrow> outcome" where
  "jpeg_main env opts nargs buf =
     (case jpeg_getopt opts defaults of
        Inl e \<Rightarrow> e
      | Inr cfg \<Rightarrow> jpeg_run env cfg nargs buf)"

section \<open>archive2webp.c: from the option checks to the output file\<close>

text \<open>Lines 538 to 566: \<open>fwrite(wrt.mem, wrt.size, 1, file)\<close> into the opened file.\<close>

definition webp_finish :: "search_state \<Rightarrow> outcome" where
  "webp_finish s =
     (let w = (case compressed s of None \<Rightarrow> [] | Some w \<Rightarrow> w)
      in if length w = 0 then Exit 1 (Some []) else Exit 0 (Some w))"

definition webp_run ::
  "('img, 'gray) collaborators \<Rightarrow> config \<Rightarrow> nat \<Rightarrow> byte list \<Rightarrow> outcome" where
  "webp_run env cfg0 nargs buf =
     (if nargs \<noteq> 2 then Exit 255 None
      else if cmp_method cfg0 = UNKNOWN then Exit 255 None
      else if qMin cfg0 > qMax cfg0 then Exit 1 None
      else
        (let cfg = webp_resolveTarget cfg0
         in if \<not> WebPConfigPreset env then Exit 1 None
            else if \<not> WebPPictureInit env then Exit 1 None
            else if length buf = 0 then Exit 1 None
            else
              (let ft = resolveFiletype env cfg buf
               in case decodeFileFromBuffer env buf ft of
                    None \<Rightarrow> Exit 1 None
                  | Some decoded \<Rightarrow>
                      (let original = applyDefish env cfg decoded
                       in if \<not> WebPPictureImportRGB env original then Exit 1 None
                          else
                            (case grayscale env original of
                               None \<Rightarrow> Exit 1 None
                             | Some originalGray \<Rightarrow>
                                 (case webp_search env cfg original originalGray (init_state cfg) of
                                    Inl e \<Rightarrow> e
                                  | Inr s \<Rightarrow> webp_finish s))))))"

definition webp_main ::
  "('img, 'gray) collaborators \<Rightarrow> opt list \<Rightarrow> nat \<Rightarrow> byte list \<Rightarrow> outcome" where
  "webp_main env opts nargs buf =
     (case webp_getopt opts defaults of
        Inl e \<Rightarrow> e
      | Inr cfg \<Rightarrow> webp_run env cfg nargs buf)"

section \<open>The metadata of the input file\<close>

text \<open>Modelled from the spec: \<open>getMetadata\<close> of \<open>src/util.c\<close> is not among the source
  files. The spec (4.5) gives it two duties. Step 1: scan the original file's
  auxiliary-data markers for a previously embedded signature comment unique to this tool.
  Step 2: isolate the byte ranges of the original file containing non-pixel auxiliary
  data (tag blocks), excluding the signature marker slot the tool will itself write, and
  excluding the leading required structural header. A marker segment is read the way
  \<open>main\<close> writes one: two marker bytes, a two-byte big-endian length that counts itself,
  then the payload; \<open>segmentSize\<close> is the number of bytes of the segment at the head of
  \<open>bs\<close>.\<close>

definition segmentSize :: "byte list \<Rightarrow> nat" where
  "segmentSize bs = 2 + (unat (bs ! 2) * 256 + unat (bs ! 3))"

text \<open>Modelled from the spec: the marker segments of a file, in their order, read from
  behind the two-byte start marker. The walk ends at the start of the pixel data (marker
  FF DA) or when fewer than four bytes are left.\<close>

function segmentsOf :: "byte list \<Rightarrow> byte list list" where
  "segmentsOf bs =
     (if length bs < 4 then []
      else if bs ! 0 = 0xFF \<and> bs ! 1 = 0xDA then []
      else take (segmentSize bs) bs # segmentsOf (drop (segmentSize bs) bs))"
  by pat_completeness auto
termination
  by (relation "measure length") (auto simp: segmentSize_def)

declare segmentsOf.simps [simp del]

text \<open>Modelled from the spec: a signature comment is a comment segment (marker FF FE)
  whose payload starts with the signature text.\<close>

definition isSignatureComment :: "byte list \<Rightarrow> byte list \<Rightarrow> bool" where
  "isSignatureComment sig seg =
     (seg ! 0 = 0xFF \<and> seg ! 1 = 0xFE \<and> take (length sig) (drop 4 seg) = sig)"

text \<open>Modelled from the spec: a tag block is an application segment other than the
  leading header segment, that is, one with a marker from FF E1 to FF EF. The header
  segment (FF E0) and the comment slot (FF FE) are excluded, as the spec says.\<close>

definition isTagBlock :: "byte list \<Rightarrow> bool" where
  "isTagBlock seg = (seg ! 0 = 0xFF \<and> 0xE1 \<le> seg ! 1 \<and> seg ! 1 \<le> 0xEF)"

text \<open>Modelled from the spec: the auxiliary data of a file, the bytes of its tag blocks
  in their order.\<close>

definition auxiliaryData :: "byte list \<Rightarrow> byte list" where
  "auxiliaryData buf = concat (filter isTagBlock (segmentsOf (drop 2 buf)))"

text \<open>Modelled from the spec: the flag and the buffer of \<open>getMetadata\<close>. \<open>main\<close> tests
  \<open>metaBuf != NULL\<close>, and the spec does not say whether a file without tag blocks leaves
  \<open>metaBuf\<close> at \<open>NULL\<close> or yields a buffer of size 0; \<open>nullWhenEmpty\<close> covers both.\<close>

definition getMetadata_spec :: "bool \<Rightarrow> byte list \<Rightarrow> string \<Rightarrow> bool \<times> byte list option" where
  "getMetadata_spec nullWhenEmpty buf comment =
     (list_ex (isSignatureComment (bytes_of comment)) (segmentsOf (drop 2 buf)),
      if nullWhenEmpty \<and> auxiliaryData buf = [] then None else Some (auxiliaryData buf))"


section \<open>Notions used in the statements\<close>

text \<open>The \<open>if (metric < target) ... else ...\<close> of either body without the size test
  that jpeg-recompress.c nests in its first branch.\<close>

definition moveBounds :: "METHOD \<Rightarrow> real \<Rightarrow> real \<Rightarrow> int \<Rightarrow> search_state \<Rightarrow> search_state" where
  "moveBounds m tgt metric q s =
     (if metric < tgt then boundsBelow m q s else boundsAtLeast m q s)"

text \<open>\<open>s\<close> holds the variables before an iteration and \<open>s'\<close> those after it.\<close>

definition raisesLowerBound :: "search_state \<Rightarrow> search_state \<Rightarrow> bool" where
  "raisesLowerBound s s' = (minQ s' = min (quality s' + 1) (maxQ s) \<and> maxQ s' = maxQ s)"

definition lowersUpperBound :: "search_state \<Rightarrow> search_state \<Rightarrow> bool" where
  "lowersUpperBound s s' = (maxQ s' = max (quality s' - 1) (minQ s) \<and> minQ s' = minQ s)"

text \<open>\<open>c\<close> holds bytes that the encoder produced at quality \<open>q\<close>, with some setting of the
  two flags in the case of \<open>encodeJpeg\<close>.\<close>

definition jpeg_encodedAt ::
  "('img, 'gray) collaborators \<Rightarrow> config \<Rightarrow> 'img \<Rightarrow> int \<Rightarrow> byte list option \<Rightarrow> bool" where
  "jpeg_encodedAt env cfg original q c =
     (\<exists>progressive \<in> {False, True}. \<exists>optimize \<in> {False, True}.
        c = Some (encodeJpeg env original q progressive optimize (subsample cfg)))"

definition webp_encodedAt ::
  "('img, 'gray) collaborators \<Rightarrow> 'img \<Rightarrow> int \<Rightarrow> byte list option \<Rightarrow> bool" where
  "webp_encodedAt env pic q c = (c \<noteq> None \<and> c = WebPEncode env pic q)"

text \<open>The layout of an assembled file \<open>out\<close> over a candidate \<open>c\<close> and metadata bytes
  \<open>meta\<close>: the start marker that \<open>checkJpegMagic\<close> accepts and the header segment (marker
  FF E0, two length bytes, payload) as the first \<open>app0_lenP4 c\<close> bytes of \<open>c\<close>; the
  comment segment FF FE 00 1F followed by the signature text; \<open>meta\<close>; the rest of \<open>c\<close>.\<close>

definition jpeg_layout ::
  "('img, 'gray) collaborators \<Rightarrow> byte list \<Rightarrow> byte list \<Rightarrow> byte list \<Rightarrow> bool" where
  "jpeg_layout env c meta out =
     (checkJpegMagic env c \<and> 6 \<le> length c \<and> app0_lenP4 c \<le> length c
      \<and> c ! 2 = 0xFF \<and> c ! 3 = 0xE0
      \<and> out = take (app0_lenP4 c) c
              @ [0xFF, 0xFE, 0x00, 0x1F] @ map of_char ''Compressed by jpeg-recompress''
              @ meta @ drop (app0_lenP4 c) c)"

text \<open>The metadata a run of jpeg-recompress.c keeps: what \<open>getMetadata\<close> delivered for a
  JPEG input, nothing for another input or in strip mode.\<close>

definition jpeg_preserved :: "('img, 'gray) collaborators \<Rightarrow> config \<Rightarrow> byte list \<Rightarrow> byte list" where
  "jpeg_preserved env cfg buf =
     (if strip cfg then []
      else if resolveFiletype env cfg buf = FILETYPE_JPEG
      then (case snd (getMetadata env buf COMMENT_jpeg) of None \<Rightarrow> [] | Some m \<Rightarrow> m)
      else [])"

text \<open>The table of claim C3 for an iteration with score \<open>metric\<close>.\<close>

definition movedByTable :: "config \<Rightarrow> real \<Rightarrow> search_state \<Rightarrow> search_state \<Rightarrow> bool" where
  "movedByTable cfg metric s s' =
     (if metric < target cfg
      then (if cmp_method cfg = MPE then lowersUpperBound s s' else raisesLowerBound s s')
      else (if cmp_method cfg = MPE then raisesLowerBound s s' else lowersUpperBound s s'))"

text \<open>The variables at the head of the last iteration of a loop that was left through its
  test, given the start \<open>s0\<close> and the list \<open>visited\<close> of the variables at the end of each
  body: the start when one body ran, otherwise the variables at the end of the body
  before the last one, after \<open>--attempt\<close>.\<close>

definition lastHead :: "search_state \<Rightarrow> search_state list \<Rightarrow> search_state" where
  "lastHead s0 visited =
     last (s0 # map (\<lambda>v. v\<lparr>attempt := attempt v - 1\<rparr>) (butlast visited))"

definition jpeg_lastHead ::
  "('img, 'gray) collaborators \<Rightarrow> config \<Rightarrow> 'img \<Rightarrow> 'gray \<Rightarrow> byte list \<Rightarrow> nat \<Rightarrow>
   search_state \<Rightarrow> search_state" where
  "jpeg_lastHead env cfg original originalGray buf metaSize s0 =
     lastHead s0 (jpeg_visited env cfg original originalGray buf metaSize s0)"

definition webp_lastHead ::
  "('img, 'gray) collaborators \<Rightarrow> config \<Rightarrow> 'img \<Rightarrow> 'gray \<Rightarrow> search_state \<Rightarrow> search_state" where
  "webp_lastHead env cfg pic originalGray s0 =
     lastHead s0 (webp_visited env cfg pic originalGray s0)"

section \<open>A small instance of the collaborators\<close>

text \<open>Concrete collaborators on which the statements below are exercised. A candidate
  carries the quality and the two encoder flags in its body; its score is a hundredth of
  the quality it was encoded at, whatever the metric.\<close>

definition demo_encodeJpeg :: "nat \<Rightarrow> int \<Rightarrow> bool \<Rightarrow> bool \<Rightarrow> subsampling \<Rightarrow> byte list" where
  "demo_encodeJpeg img q progressive optimize sub =
     [0xFF, 0xD8, 0xFF, 0xE0, 0x00, 0x02, of_int q, of_bool progressive + 2 * of_bool optimize]"

definition demo_decodeFile :: "byte list \<Rightarrow> filetype \<Rightarrow> nat option" where
  "demo_decodeFile b ft =
     (if ft = FILETYPE_JPEG \<and> take 2 b = [0xFF, 0xD8] then Some (length b)
      else if ft = FILETYPE_PPM \<and> take 1 b = [0x50] then Some (length b)
      else None)"

definition demo_env :: "(nat, int) collaborators" where
  "demo_env =
     \<lparr>detectFiletypeFromBuffer =
        (\<lambda>b. if take 2 b = [0xFF, 0xD8] then FILETYPE_JPEG else FILETYPE_PPM),
      decodeFileFromBuffer = demo_decodeFile,
      defish = (\<lambda>img strength zoom. img),
      grayscale = (\<lambda>img. Some (int img)),
      getMetadata = (\<lambda>b c. (False, Some [0xFF, 0xE1, 0x00, 0x02])),
      encodeJpeg = demo_encodeJpeg,
      decodeJpeg = (\<lambda>b. if length b = 8 then Some (uint (b ! 6)) else None),
      checkJpegMagic = (\<lambda>c. 2 \<le> length c \<and> c ! 0 = 0xFF \<and> c ! 1 = 0xD8),
      WebPConfigPreset = True,
      WebPPictureInit = True,
      WebPPictureImportRGB = (\<lambda>img. True),
      WebPEncode = (\<lambda>img q. Some [of_int q, 0x57]),
      WebPDecodeRGB = (\<lambda>b. if length b = 2 then Some (unat (b ! 0)) else None),
      iqa_ms_ssim = (\<lambda>g c. real_of_int c / 100),
      smallfry_metric = (\<lambda>g c. real_of_int c / 100),
      meanPixelError = (\<lambda>g c. real_of_int c / 100),
      iqa_ssim = (\<lambda>g c. real_of_int c / 100)\<rparr>"

text \<open>A PPM input of \<open>n + 2\<close> bytes, and a JPEG input of \<open>n + 14\<close> bytes without the
  signature: start marker, header segment, one tag block (FF E1, length 4, payload AA BB)
  and the start of the pixel data.\<close>

definition demo_ppm :: "nat \<Rightarrow> byte list" where
  "demo_ppm n = 0x50 # 0x36 # replicate n 0x20"

definition demo_jpeg :: "nat \<Rightarrow> byte list" where
  "demo_jpeg n =
     [0xFF, 0xD8, 0xFF, 0xE0, 0x00, 0x02, 0xFF, 0xE1, 0x00, 0x04, 0xAA, 0xBB, 0xFF, 0xDA]
     @ replicate n 0x11"


text \<open>Option values used below: a one-point interval, a budget of no attempts, and a
  target of 0.2 with three attempts.\<close>

definition demo_cfg_point :: config where
  "demo_cfg_point = defaults\<lparr>qMin := 50, qMax := 50\<rparr>"

definition demo_cfg_noloop :: config where
  "demo_cfg_noloop = defaults\<lparr>attempts := 0, qMin := 50, qMax := 50\<rparr>"

definition demo_cfg_fifth :: config where
  "demo_cfg_fifth = defaults\<lparr>target := 0.2, attempts := 3\<rparr>"

text \<open>Bounds 1 to 3 with target 0.02, and a single attempt with target 0.005.\<close>

definition demo_cfg_narrow :: config where
  "demo_cfg_narrow = defaults\<lparr>qMin := 1, qMax := 3, target := 0.02\<rparr>"

definition demo_cfg_once :: config where
  "demo_cfg_once = defaults\<lparr>attempts := 1, target := 0.005\<rparr>"

text \<open>The same collaborators with the modelled \<open>getMetadata\<close>, and the file that a run
  under \<open>demo_cfg_narrow\<close> assembles from \<open>demo_jpeg 86\<close>.\<close>

definition demo_env_spec :: "(nat, int) collaborators" where
  "demo_env_spec = demo_env\<lparr>getMetadata := getMetadata_spec False\<rparr>"

definition demo_assembled :: "byte list" where
  "demo_assembled =
     [0xFF, 0xD8, 0xFF, 0xE0, 0x00, 0x02] @ comment_segment
     @ [0xFF, 0xE1, 0x00, 0x04, 0xAA, 0xBB] @ [1, 3]"

text \<open>An encoder whose header segment states the length 0, and the file that a run
  with it assembles from \<open>demo_jpeg 86\<close>.\<close>

definition demo_env_short :: "(nat, int) collaborators" where
  "demo_env_short =
     demo_env_spec\<lparr>encodeJpeg := (\<lambda>img q progressive optimize sub.
        [0xFF, 0xD8, 0xFF, 0xE0, 0x00, 0x00, of_int q,
         of_bool progressive + 2 * of_bool optimize])\<rparr>"

definition demo_assembled_short :: "byte list" where
  "demo_assembled_short =
     [0xFF, 0xD8, 0xFF, 0xE0] @ comment_segment
     @ [0xFF, 0xE1, 0x00, 0x04, 0xAA, 0xBB] @ [0, 0, 1, 3]"

text \<open>The variables with which the two searches under \<open>demo_cfg_narrow\<close> leave the loop,
  and those at the head of their last iteration.\<close>

definition demo_narrow_exit_jpeg :: search_state where
  "demo_narrow_exit_jpeg =
     \<lparr>attempt = - 1, quality = 1, minQ = 1, maxQ = 1, bestDiff = 0, bestQuality = 2,
      compressed = Some [0xFF, 0xD8, 0xFF, 0xE0, 0, 2, 1, 3], totalSize = 41\<rparr>"

definition demo_narrow_exit_webp :: search_state where
  "demo_narrow_exit_webp =
     \<lparr>attempt = - 1, quality = 1, minQ = 1, maxQ = 1, bestDiff = 0, bestQuality = 2,
      compressed = Some [1, 0x57], totalSize = 0\<rparr>"

definition demo_narrow_head_jpeg :: search_state where
  "demo_narrow_head_jpeg =
     \<lparr>attempt = 6, quality = 2, minQ = 1, maxQ = 1, bestDiff = 0, bestQuality = 2,
      compressed = Some [0xFF, 0xD8, 0xFF, 0xE0, 0, 2, 2, 0], totalSize = 41\<rparr>"

definition demo_narrow_head_webp :: search_state where
  "demo_narrow_head_webp =
     \<lparr>attempt = 6, quality = 2, minQ = 1, maxQ = 1, bestDiff = 0, bestQuality = 2,
      compressed = Some [2, 0x57], totalSize = 0\<rparr>"

section \<open>Facts about one iteration\<close>

lemmas demo_defs =
  defaults_def init_state_def demo_env_def demo_encodeJpeg_def demo_decodeFile_def
  demo_ppm_def demo_jpeg_def trialQuality_def forcedAttempt_def measure_metric_def
  updateBest_def boundsBelow_def boundsAtLeast_def metaSizeCOM_def COMMENT_jpeg_def
  minDelta_def INT_MIN_def FLT_MAX_def copyFile_def Let_def

lemmas demo_run_defs =
  jpeg_body_def jpeg_candidate_def jpeg_score_def webp_body_def webp_score_def demo_defs

lemmas demo_main_defs =
  jpeg_run_def webp_run_def jpeg_resolveTarget_def webp_resolveTarget_def resolveFiletype_def
  applyDefish_def jpeg_with_metadata_def jpeg_recompress_def jpeg_finish_def jpeg_write_def
  jpeg_write_image_def webp_finish_def app0_lenP4_def comment_segment_def
  bytes_of_def

lemma jpeg_body_InrD:
  assumes "jpeg_body env cfg original originalGray buf metaSize s = Inr s'"
  shows "\<exists>metric. jpeg_score env cfg original originalGray s = Some metric
     \<and> s' = moveBounds (cmp_method cfg) (target cfg) metric (trialQuality s)
          ((updateBest (target cfg) metric (trialQuality s)
             (s\<lparr>attempt := forcedAttempt s, quality := trialQuality s,
                compressed := Some (jpeg_candidate env cfg original s)\<rparr>))
           \<lparr>totalSize := length (jpeg_candidate env cfg original s) + metaSizeCOM + metaSize\<rparr>)"
  using assms
  by (auto simp: jpeg_body_def jpeg_score_def moveBounds_def Let_def
      split: option.splits if_splits)

lemma webp_body_InrD:
  assumes "webp_body env cfg pic originalGray s = Inr s'"
  shows "\<exists>metric w. webp_score env cfg pic originalGray s = Some metric
     \<and> WebPEncode env pic (trialQuality s) = Some w
     \<and> s' = moveBounds (cmp_method cfg) (target cfg) metric (trialQuality s)
          (updateBest (target cfg) metric (trialQuality s)
             (s\<lparr>attempt := forcedAttempt s, quality := trialQuality s, compressed := Some w\<rparr>))"
  using assms
  by (auto simp: webp_body_def webp_score_def moveBounds_def Let_def
      split: option.splits if_splits)

lemma moveBounds_fields:
  "quality (moveBounds m tgt metric q s) = quality s"
  "attempt (moveBounds m tgt metric q s) = attempt s"
  "bestDiff (moveBounds m tgt metric q s) = bestDiff s"
  "bestQuality (moveBounds m tgt metric q s) = bestQuality s"
  "compressed (moveBounds m tgt metric q s) = compressed s"
  "totalSize (moveBounds m tgt metric q s) = totalSize s"
  by (cases m; simp add: moveBounds_def boundsBelow_def boundsAtLeast_def)+

lemma updateBest_fields:
  "quality (updateBest tgt metric q s) = quality s"
  "attempt (updateBest tgt metric q s) = attempt s"
  "minQ (updateBest tgt metric q s) = minQ s"
  "maxQ (updateBest tgt metric q s) = maxQ s"
  "compressed (updateBest tgt metric q s) = compressed s"
  "totalSize (updateBest tgt metric q s) = totalSize s"
  by (simp_all add: updateBest_def Let_def)

lemma moveBounds_minQ:
  "minQ (moveBounds m tgt metric q s) =
     (if m \<noteq> UNKNOWN \<and> (metric < tgt) \<noteq> (m = MPE) then min (q + 1) (maxQ s) else minQ s)"
  by (cases m) (simp_all add: moveBounds_def boundsBelow_def boundsAtLeast_def)

lemma moveBounds_maxQ:
  "maxQ (moveBounds m tgt metric q s) =
     (if m \<noteq> UNKNOWN \<and> (metric < tgt) = (m = MPE) then max (q - 1) (minQ s) else maxQ s)"
  by (cases m) (simp_all add: moveBounds_def boundsBelow_def boundsAtLeast_def)

lemma jpeg_body_bounds:
  assumes "jpeg_body env cfg original originalGray buf metaSize s = Inr s'"
    and "jpeg_score env cfg original originalGray s = Some metric"
  shows "quality s' = trialQuality s"
    and "minQ s' = (if cmp_method cfg \<noteq> UNKNOWN \<and> (metric < target cfg) \<noteq> (cmp_method cfg = MPE)
                    then min (trialQuality s + 1) (maxQ s) else minQ s)"
    and "maxQ s' = (if cmp_method cfg \<noteq> UNKNOWN \<and> (metric < target cfg) = (cmp_method cfg = MPE)
                    then max (trialQuality s - 1) (minQ s) else maxQ s)"
  using jpeg_body_InrD [OF assms(1)] assms(2)
  by (auto simp: moveBounds_fields updateBest_fields moveBounds_minQ moveBounds_maxQ)

lemma webp_body_bounds:
  assumes "webp_body env cfg pic originalGray s = Inr s'"
    and "webp_score env cfg pic originalGray s = Some metric"
  shows "quality s' = trialQuality s"
    and "minQ s' = (if cmp_method cfg \<noteq> UNKNOWN \<and> (metric < target cfg) \<noteq> (cmp_method cfg = MPE)
                    then min (trialQuality s + 1) (maxQ s) else minQ s)"
    and "maxQ s' = (if cmp_method cfg \<noteq> UNKNOWN \<and> (metric < target cfg) = (cmp_method cfg = MPE)
                    then max (trialQuality s - 1) (minQ s) else maxQ s)"
  using webp_body_InrD [OF assms(1)] assms(2)
  by (auto simp: moveBounds_fields updateBest_fields moveBounds_minQ moveBounds_maxQ)

lemma moveBounds_ordered:
  assumes "minQ s \<le> maxQ s"
  shows "minQ (moveBounds m tgt metric q s) \<le> maxQ (moveBounds m tgt metric q s)"
  using assms by (simp add: moveBounds_minQ moveBounds_maxQ)

lemma jpeg_body_ordered:
  assumes "jpeg_body env cfg original originalGray buf metaSize s = Inr s'"
    and "minQ s \<le> maxQ s"
  shows "minQ s' \<le> maxQ s'"
proof -
  from jpeg_body_InrD [OF assms(1)] obtain metric where
    s': "s' = moveBounds (cmp_method cfg) (target cfg) metric (trialQuality s)
          ((updateBest (target cfg) metric (trialQuality s)
             (s\<lparr>attempt := forcedAttempt s, quality := trialQuality s,
                compressed := Some (jpeg_candidate env cfg original s)\<rparr>))
           \<lparr>totalSize := length (jpeg_candidate env cfg original s) + metaSizeCOM + metaSize\<rparr>)"
    by blast
  show ?thesis
    unfolding s' by (rule moveBounds_ordered) (simp add: updateBest_fields assms(2))
qed

lemma webp_body_ordered:
  assumes "webp_body env cfg pic originalGray s = Inr s'"
    and "minQ s \<le> maxQ s"
  shows "minQ s' \<le> maxQ s'"
proof -
  from webp_body_InrD [OF assms(1)] obtain metric w where
    s': "s' = moveBounds (cmp_method cfg) (target cfg) metric (trialQuality s)
          (updateBest (target cfg) metric (trialQuality s)
             (s\<lparr>attempt := forcedAttempt s, quality := trialQuality s, compressed := Some w\<rparr>))"
    by blast
  show ?thesis
    unfolding s' by (rule moveBounds_ordered) (simp add: updateBest_fields assms(2))
qed

lemma jpeg_visited_ordered:
  "minQ s \<le> maxQ s \<Longrightarrow>
   \<forall>s' \<in> set (jpeg_visited env cfg original originalGray buf metaSize s). minQ s' \<le> maxQ s'"
proof (induction env cfg original originalGray buf metaSize s rule: jpeg_visited.induct)
  case (1 env cfg original originalGray buf metaSize s)
  show ?case
  proof (cases "0 \<le> attempt s")
    case False
    then show ?thesis by (simp add: jpeg_visited.simps [of env cfg original originalGray buf metaSize s])
  next
    case True
    show ?thesis
    proof (cases "jpeg_body env cfg original originalGray buf metaSize s")
      case (Inl e)
      with True show ?thesis
        by (simp add: jpeg_visited.simps [of env cfg original originalGray buf metaSize s])
    next
      case (Inr s')
      have o: "minQ s' \<le> maxQ s'" by (rule jpeg_body_ordered [OF Inr "1.prems"])
      then have "minQ (s'\<lparr>attempt := attempt s' - 1\<rparr>) \<le> maxQ (s'\<lparr>attempt := attempt s' - 1\<rparr>)"
        by simp
      from "1.IH" [OF True Inr this] o True Inr show ?thesis
        by (simp add: jpeg_visited.simps [of env cfg original originalGray buf metaSize s])
    qed
  qed
qed

lemma webp_visited_ordered:
  "minQ s \<le> maxQ s \<Longrightarrow>
   \<forall>s' \<in> set (webp_visited env cfg pic originalGray s). minQ s' \<le> maxQ s'"
proof (induction env cfg pic originalGray s rule: webp_visited.induct)
  case (1 env cfg pic originalGray s)
  show ?case
  proof (cases "0 \<le> attempt s")
    case False
    then show ?thesis by (simp add: webp_visited.simps [of env cfg pic originalGray s])
  next
    case True
    show ?thesis
    proof (cases "webp_body env cfg pic originalGray s")
      case (Inl e)
      with True show ?thesis
        by (simp add: webp_visited.simps [of env cfg pic originalGray s])
    next
      case (Inr s')
      have o: "minQ s' \<le> maxQ s'" by (rule webp_body_ordered [OF Inr "1.prems"])
      then have "minQ (s'\<lparr>attempt := attempt s' - 1\<rparr>) \<le> maxQ (s'\<lparr>attempt := attempt s' - 1\<rparr>)"
        by simp
      from "1.IH" [OF True Inr this] o True Inr show ?thesis
        by (simp add: webp_visited.simps [of env cfg pic originalGray s])
    qed
  qed
qed

lemma forcedAttempt_le: "0 \<le> attempt s \<Longrightarrow> 0 \<le> forcedAttempt s \<and> forcedAttempt s \<le> attempt s"
  using forcedAttempt_cases [of s] by auto

lemma jpeg_cycles_le:
  "jpeg_cycles env cfg original originalGray buf metaSize s \<le> nat (attempt s + 1)"
proof (induction env cfg original originalGray buf metaSize s rule: jpeg_cycles.induct)
  case (1 env cfg original originalGray buf metaSize s)
  show ?case
  proof (cases "0 \<le> attempt s")
    case False
    then show ?thesis by (simp add: jpeg_cycles.simps [of env cfg original originalGray buf metaSize s])
  next
    case True
    show ?thesis
    proof (cases "jpeg_body env cfg original originalGray buf metaSize s")
      case (Inl e)
      with True show ?thesis
        by (simp add: jpeg_cycles.simps [of env cfg original originalGray buf metaSize s])
    next
      case (Inr s')
      let ?n = "jpeg_cycles env cfg original originalGray buf metaSize
                  (s'\<lparr>attempt := attempt s' - 1\<rparr>)"
      have a: "attempt s' = forcedAttempt s" by (rule jpeg_body_attempt [OF Inr])
      have "?n \<le> nat (attempt s')"
        using "1.IH" [OF True Inr] by simp
      then have "1 + ?n \<le> nat (attempt s + 1)"
        using a forcedAttempt_le [OF True] by linarith
      then show ?thesis
        using True Inr
        by (subst jpeg_cycles.simps) simp
    qed
  qed
qed

lemma jpeg_cycles_singleton:
  assumes "0 \<le> attempt s" and "minQ s = maxQ s"
  shows "jpeg_cycles env cfg original originalGray buf metaSize s = 1"
proof (cases "jpeg_body env cfg original originalGray buf metaSize s")
  case (Inl e)
  with assms show ?thesis
    by (simp add: jpeg_cycles.simps [of env cfg original originalGray buf metaSize s])
next
  case (Inr s')
  have a: "attempt s' = 0"
    using jpeg_body_attempt [OF Inr] assms(2) by (simp add: forcedAttempt_def)
  have "jpeg_cycles env cfg original originalGray buf metaSize (s'\<lparr>attempt := attempt s' - 1\<rparr>) = 0"
    using a by (subst jpeg_cycles.simps) simp
  with assms Inr show ?thesis
    by (simp add: jpeg_cycles.simps [of env cfg original originalGray buf metaSize s])
qed


lemma webp_cycles_le:
  "webp_cycles env cfg pic originalGray s \<le> nat (attempt s + 1)"
proof (induction env cfg pic originalGray s rule: webp_cycles.induct)
  case (1 env cfg pic originalGray s)
  show ?case
  proof (cases "0 \<le> attempt s")
    case False
    then show ?thesis by (subst webp_cycles.simps) simp
  next
    case True
    show ?thesis
    proof (cases "webp_body env cfg pic originalGray s")
      case (Inl e)
      with True show ?thesis by (subst webp_cycles.simps) simp
    next
      case (Inr s')
      let ?n = "webp_cycles env cfg pic originalGray (s'\<lparr>attempt := attempt s' - 1\<rparr>)"
      have a: "attempt s' = forcedAttempt s" by (rule webp_body_attempt [OF Inr])
      have "?n \<le> nat (attempt s')"
        using "1.IH" [OF True Inr] by simp
      then have "1 + ?n \<le> nat (attempt s + 1)"
        using a forcedAttempt_le [OF True] by linarith
      then show ?thesis
        using True Inr by (subst webp_cycles.simps) simp
    qed
  qed
qed

lemma webp_cycles_singleton:
  assumes "0 \<le> attempt s" and "minQ s = maxQ s"
  shows "webp_cycles env cfg pic originalGray s = 1"
proof (cases "webp_body env cfg pic originalGray s")
  case (Inl e)
  with assms show ?thesis by (subst webp_cycles.simps) simp
next
  case (Inr s')
  have a: "attempt s' = 0"
    using webp_body_attempt [OF Inr] assms(2) by (simp add: forcedAttempt_def)
  have "webp_cycles env cfg pic originalGray (s'\<lparr>attempt := attempt s' - 1\<rparr>) = 0"
    using a by (subst webp_cycles.simps) simp
  with assms Inr show ?thesis by (subst webp_cycles.simps) simp
qed

lemma updateBest_best:
  "bestDiff (updateBest tgt metric q s) = (if \<bar>tgt - metric\<bar> < bestDiff s then \<bar>tgt - metric\<bar> else bestDiff s)"
  "bestQuality (updateBest tgt metric q s) = (if \<bar>tgt - metric\<bar> < bestDiff s then q else bestQuality s)"
  by (simp_all add: updateBest_def Let_def)

lemma jpeg_body_best:
  assumes "jpeg_body env cfg original originalGray buf metaSize s = Inr s'"
    and "jpeg_score env cfg original originalGray s = Some metric"
  shows "bestDiff s' = (if \<bar>target cfg - metric\<bar> < bestDiff s then \<bar>target cfg - metric\<bar> else bestDiff s)"
    and "bestQuality s' = (if \<bar>target cfg - metric\<bar> < bestDiff s then trialQuality s else bestQuality s)"
  using jpeg_body_InrD [OF assms(1)] assms(2)
  by (auto simp: moveBounds_fields updateBest_best)

lemma webp_body_best:
  assumes "webp_body env cfg pic originalGray s = Inr s'"
    and "webp_score env cfg pic originalGray s = Some metric"
  shows "bestDiff s' = (if \<bar>target cfg - metric\<bar> < bestDiff s then \<bar>target cfg - metric\<bar> else bestDiff s)"
    and "bestQuality s' = (if \<bar>target cfg - metric\<bar> < bestDiff s then trialQuality s else bestQuality s)"
  using webp_body_InrD [OF assms(1)] assms(2)
  by (auto simp: moveBounds_fields updateBest_best)

lemma jpeg_body_bestDiff_le:
  assumes "jpeg_body env cfg original originalGray buf metaSize s = Inr s'"
  shows "bestDiff s' \<le> bestDiff s"
proof -
  from jpeg_body_InrD [OF assms] obtain metric
    where "jpeg_score env cfg original originalGray s = Some metric" by blast
  from jpeg_body_best(1) [OF assms this] show ?thesis by simp
qed

lemma webp_body_bestDiff_le:
  assumes "webp_body env cfg pic originalGray s = Inr s'"
  shows "bestDiff s' \<le> bestDiff s"
proof -
  from webp_body_InrD [OF assms] obtain metric
    where "webp_score env cfg pic originalGray s = Some metric" by blast
  from webp_body_best(1) [OF assms this] show ?thesis by simp
qed

lemma jpeg_visited_bestDiff:
  "(\<forall>x \<in> set (jpeg_visited env cfg original originalGray buf metaSize s). bestDiff x \<le> bestDiff s)
   \<and> sorted_wrt (\<lambda>a b. bestDiff b \<le> bestDiff a)
        (jpeg_visited env cfg original originalGray buf metaSize s)"
proof (induction env cfg original originalGray buf metaSize s rule: jpeg_visited.induct)
  case (1 env cfg original originalGray buf metaSize s)
  show ?case
  proof (cases "0 \<le> attempt s")
    case False
    then show ?thesis by (subst (1 2) jpeg_visited.simps) simp
  next
    case True
    show ?thesis
    proof (cases "jpeg_body env cfg original originalGray buf metaSize s")
      case (Inl e)
      with True show ?thesis by (subst (1 2) jpeg_visited.simps) simp
    next
      case (Inr s')
      let ?rest = "jpeg_visited env cfg original originalGray buf metaSize
                     (s'\<lparr>attempt := attempt s' - 1\<rparr>)"
      have le: "bestDiff s' \<le> bestDiff s" by (rule jpeg_body_bestDiff_le [OF Inr])
      have ih: "(\<forall>x \<in> set ?rest. bestDiff x \<le> bestDiff s') \<and> sorted_wrt (\<lambda>a b. bestDiff b \<le> bestDiff a) ?rest"
        using "1.IH" [OF True Inr] by simp
      have eq: "jpeg_visited env cfg original originalGray buf metaSize s = s' # ?rest"
        using True Inr by (subst jpeg_visited.simps) simp
      show ?thesis
        unfolding eq using ih le by auto
    qed
  qed
qed

lemma webp_visited_bestDiff:
  "(\<forall>x \<in> set (webp_visited env cfg pic originalGray s). bestDiff x \<le> bestDiff s)
   \<and> sorted_wrt (\<lambda>a b. bestDiff b \<le> bestDiff a) (webp_visited env cfg pic originalGray s)"
proof (induction env cfg pic originalGray s rule: webp_visited.induct)
  case (1 env cfg pic originalGray s)
  show ?case
  proof (cases "0 \<le> attempt s")
    case False
    then show ?thesis by (subst (1 2) webp_visited.simps) simp
  next
    case True
    show ?thesis
    proof (cases "webp_body env cfg pic originalGray s")
      case (Inl e)
      with True show ?thesis by (subst (1 2) webp_visited.simps) simp
    next
      case (Inr s')
      let ?rest = "webp_visited env cfg pic originalGray (s'\<lparr>attempt := attempt s' - 1\<rparr>)"
      have le: "bestDiff s' \<le> bestDiff s" by (rule webp_body_bestDiff_le [OF Inr])
      have ih: "(\<forall>x \<in> set ?rest. bestDiff x \<le> bestDiff s') \<and> sorted_wrt (\<lambda>a b. bestDiff b \<le> bestDiff a) ?rest"
        using "1.IH" [OF True Inr] by simp
      have eq: "webp_visited env cfg pic originalGray s = s' # ?rest"
        using True Inr by (subst webp_visited.simps) simp
      show ?thesis
        unfolding eq using ih le by auto
    qed
  qed
qed

lemma jpeg_candidate_encodedAt:
  "jpeg_encodedAt env cfg original (trialQuality s) (Some (jpeg_candidate env cfg original s))"
  by (cases "noProgressive cfg") (simp_all add: jpeg_encodedAt_def jpeg_candidate_def Let_def)

lemma jpeg_body_candidate:
  assumes "jpeg_body env cfg original originalGray buf metaSize s = Inr s'"
  shows "compressed s' = Some (jpeg_candidate env cfg original s)"
    and "totalSize s' = length (jpeg_candidate env cfg original s) + metaSizeCOM + metaSize"
  using jpeg_body_InrD [OF assms]
  by (auto simp: moveBounds_fields updateBest_fields)

lemma webp_body_candidate:
  assumes "webp_body env cfg pic originalGray s = Inr s'"
  shows "compressed s' = WebPEncode env pic (trialQuality s)" and "compressed s' \<noteq> None"
  using webp_body_InrD [OF assms]
  by (auto simp: moveBounds_fields updateBest_fields)

lemma jpeg_body_guard:
  assumes "jpeg_score env cfg original originalGray s = Some metric"
    and "metric < target cfg"
    and "length buf \<le> length (jpeg_candidate env cfg original s) + metaSizeCOM + metaSize + minDelta"
  shows "jpeg_body env cfg original originalGray buf metaSize s =
           Inl (if copyFiles cfg then Exit 0 (Some (snd (copyFile buf))) else Exit 1 None)"
  using assms
  by (auto simp: jpeg_body_def jpeg_score_def Let_def updateBest_fields split: option.splits)

lemma jpeg_body_no_guard:
  assumes "jpeg_score env cfg original originalGray s = Some metric"
    and "\<not> metric < target cfg"
  shows "\<exists>s'. jpeg_body env cfg original originalGray buf metaSize s = Inr s'"
  using assms
  by (auto simp: jpeg_body_def jpeg_score_def Let_def split: option.splits)

section \<open>The three readings of a loop agree\<close>

lemma jpeg_cycles_visited:
  "jpeg_cycles env cfg original originalGray buf metaSize s =
     length (jpeg_visited env cfg original originalGray buf metaSize s)
     + (case jpeg_search env cfg original originalGray buf metaSize s of Inl e \<Rightarrow> 1 | Inr s' \<Rightarrow> 0)"
proof (induction env cfg original originalGray buf metaSize s rule: jpeg_search.induct)
  case (1 env cfg original originalGray buf metaSize s)
  show ?case
  proof (cases "0 \<le> attempt s")
    case False
    then show ?thesis
      by (subst jpeg_cycles.simps, subst jpeg_visited.simps, subst jpeg_search.simps) simp
  next
    case True
    show ?thesis
    proof (cases "jpeg_body env cfg original originalGray buf metaSize s")
      case (Inl e)
      with True show ?thesis
        by (subst jpeg_cycles.simps, subst jpeg_visited.simps, subst jpeg_search.simps) simp
    next
      case (Inr s')
      from "1.IH" [OF True Inr] True Inr show ?thesis
        by (subst jpeg_cycles.simps, subst jpeg_visited.simps, subst jpeg_search.simps) simp
    qed
  qed
qed

lemma webp_cycles_visited:
  "webp_cycles env cfg pic originalGray s =
     length (webp_visited env cfg pic originalGray s)
     + (case webp_search env cfg pic originalGray s of Inl e \<Rightarrow> 1 | Inr s' \<Rightarrow> 0)"
proof (induction env cfg pic originalGray s rule: webp_search.induct)
  case (1 env cfg pic originalGray s)
  show ?case
  proof (cases "0 \<le> attempt s")
    case False
    then show ?thesis
      by (subst webp_cycles.simps, subst webp_visited.simps, subst webp_search.simps) simp
  next
    case True
    show ?thesis
    proof (cases "webp_body env cfg pic originalGray s")
      case (Inl e)
      with True show ?thesis
        by (subst webp_cycles.simps, subst webp_visited.simps, subst webp_search.simps) simp
    next
      case (Inr s')
      from "1.IH" [OF True Inr] True Inr show ?thesis
        by (subst webp_cycles.simps, subst webp_visited.simps, subst webp_search.simps) simp
    qed
  qed
qed

lemma jpeg_search_visited:
  assumes "jpeg_search env cfg original originalGray buf metaSize s0 = Inr s"
    and "0 \<le> attempt s0"
  shows "jpeg_visited env cfg original originalGray buf metaSize s0 \<noteq> []
     \<and> s = (last (jpeg_visited env cfg original originalGray buf metaSize s0))\<lparr>attempt := - 1\<rparr>"
  using assms
proof (induction env cfg original originalGray buf metaSize s0 rule: jpeg_search.induct)
  case (1 env cfg original originalGray buf metaSize s0)
  show ?case
  proof (cases "jpeg_body env cfg original originalGray buf metaSize s0")
    case (Inl e)
    with "1.prems" show ?thesis by (subst (asm) jpeg_search.simps) simp
  next
    case (Inr s')
    let ?n = "s'\<lparr>attempt := attempt s' - 1\<rparr>"
    have nxt: "jpeg_search env cfg original originalGray buf metaSize ?n = Inr s"
      using "1.prems" Inr by (subst (asm) jpeg_search.simps) simp
    have v: "jpeg_visited env cfg original originalGray buf metaSize s0
        = s' # jpeg_visited env cfg original originalGray buf metaSize ?n"
      using "1.prems"(2) Inr by (subst jpeg_visited.simps) simp
    show ?thesis
    proof (cases "0 \<le> attempt ?n")
      case True
      from "1.IH" [OF "1.prems"(2) Inr nxt True] show ?thesis by (simp add: v)
    next
      case False
      then have e: "s = ?n" using nxt by (subst (asm) jpeg_search.simps) simp
      have "jpeg_visited env cfg original originalGray buf metaSize ?n = []"
        using False by (subst jpeg_visited.simps) simp
      moreover have "attempt s' = 0"
        using False jpeg_body_attempt [OF Inr] forcedAttempt_le [OF "1.prems"(2)] by simp
      ultimately show ?thesis by (simp add: v e)
    qed
  qed
qed

section \<open>Facts about the output stage of jpeg-recompress.c\<close>

lemma jpeg_body_Inl:
  assumes "jpeg_body env cfg original originalGray buf metaSize s = Inl e"
  shows "e = Exit 1 None \<or> e = Exit 0 (Some (snd (copyFile buf)))"
  using assms
  by (auto simp: jpeg_body_def Let_def split: option.splits if_splits)

lemma jpeg_search_Inl:
  "jpeg_search env cfg original originalGray buf metaSize s0 = Inl e \<Longrightarrow>
   e = Exit 1 None \<or> e = Exit 0 (Some (snd (copyFile buf)))"
proof (induction env cfg original originalGray buf metaSize s0 rule: jpeg_search.induct)
  case (1 env cfg original originalGray buf metaSize s0)
  show ?case
  proof (cases "0 \<le> attempt s0")
    case False
    with "1.prems" show ?thesis by (subst (asm) jpeg_search.simps) simp
  next
    case True
    show ?thesis
    proof (cases "jpeg_body env cfg original originalGray buf metaSize s0")
      case (Inl e')
      with "1.prems" True have "e' = e" by (subst (asm) jpeg_search.simps) simp
      with jpeg_body_Inl [OF Inl] show ?thesis by simp
    next
      case (Inr s')
      with "1.prems" True
      have "jpeg_search env cfg original originalGray buf metaSize (s'\<lparr>attempt := attempt s' - 1\<rparr>) = Inl e"
        by (subst (asm) jpeg_search.simps) simp
      from "1.IH" [OF True Inr this] show ?thesis .
    qed
  qed
qed

lemma comment_segment_bytes:
  "comment_segment = [0xFF, 0xFE, 0x00, 0x1F] @ map of_char ''Compressed by jpeg-recompress''"
  by (simp add: comment_segment_def COMMENT_jpeg_def bytes_of_def)

lemma jpeg_write_image_ok:
  "jpeg_write_image c n f = Exit 0 (Some out) \<Longrightarrow> out = f @ drop n c"
  by (auto simp: jpeg_write_image_def split: if_splits)

lemma jpeg_write_ok:
  assumes "jpeg_write c metaBuf = Exit 0 (Some out)"
  shows "6 \<le> length c \<and> app0_lenP4 c \<le> length c
     \<and> out = take (app0_lenP4 c) c @ comment_segment
             @ (case metaBuf of None \<Rightarrow> [] | Some m \<Rightarrow> m) @ drop (app0_lenP4 c) c"
  using assms
  by (auto simp: jpeg_write_def Let_def split: if_splits option.splits dest!: jpeg_write_image_ok)

lemma jpeg_finish_ok:
  assumes "jpeg_finish env buf metaBuf s = Exit 0 (Some out)"
  shows "\<exists>c. compressed s = Some c
     \<and> jpeg_layout env c (case metaBuf of None \<Rightarrow> [] | Some m \<Rightarrow> m) out"
proof -
  let ?c = "case compressed s of None \<Rightarrow> [] | Some c \<Rightarrow> c"
  from assms have w: "jpeg_write ?c metaBuf = Exit 0 (Some out)"
    and m: "checkJpegMagic env ?c" and b: "?c ! 2 = 0xFF" "?c ! 3 = 0xE0"
    by (auto simp: jpeg_finish_def Let_def split: if_splits)
  from jpeg_write_ok [OF w] have "compressed s \<noteq> None"
    by (cases "compressed s") auto
  then obtain c where c: "compressed s = Some c" by blast
  with jpeg_write_ok [OF w] m b show ?thesis
    by (simp add: jpeg_layout_def comment_segment_bytes)
qed

lemma jpeg_recompress_ok:
  assumes "jpeg_recompress env cfg original originalGray buf metaBuf0 = Exit 0 (Some out)"
    and "out \<noteq> buf" and "buf \<noteq> []"
    and "meta = (if strip cfg then [] else (case metaBuf0 of None \<Rightarrow> [] | Some m \<Rightarrow> m))"
  shows "\<exists>s c.
      jpeg_search env cfg original originalGray buf (length meta) (init_state cfg) = Inr s
      \<and> compressed s = Some c
      \<and> jpeg_layout env c meta out"
proof -
  let ?metaBuf = "if strip cfg then None else metaBuf0"
  let ?metaSize = "case ?metaBuf of None \<Rightarrow> 0 | Some m \<Rightarrow> length m"
  have cp: "snd (copyFile buf) = buf" using assms(3) by (simp add: copyFile_def)
  have ms: "?metaSize = length meta"
    by (simp add: assms(4) split: option.splits)
  have mb: "(case ?metaBuf of None \<Rightarrow> [] | Some m \<Rightarrow> m) = meta"
    by (simp add: assms(4))
  show ?thesis
  proof (cases "jpeg_search env cfg original originalGray buf (length meta) (init_state cfg)")
    case (Inl e)
    with assms(1) ms have "e = Exit 0 (Some out)"
      by (simp add: jpeg_recompress_def Let_def)
    with jpeg_search_Inl [OF Inl] cp assms(2) show ?thesis by simp
  next
    case (Inr s)
    with assms(1) ms have "jpeg_finish env buf ?metaBuf s = Exit 0 (Some out)"
      by (simp add: jpeg_recompress_def Let_def)
    from jpeg_finish_ok [OF this] obtain c where c: "compressed s = Some c"
      and l: "jpeg_layout env c (case ?metaBuf of None \<Rightarrow> [] | Some m \<Rightarrow> m) out" by blast
    from l mb have "jpeg_layout env c meta out" by simp
    with Inr c show ?thesis by blast
  qed
qed

lemma resolveTarget_fields:
  "strip (jpeg_resolveTarget cfg) = strip cfg"
  "inputFiletype (jpeg_resolveTarget cfg) = inputFiletype cfg"
  "copyFiles (jpeg_resolveTarget cfg) = copyFiles cfg"
  "defishStrength (jpeg_resolveTarget cfg) = defishStrength cfg"
  "defishZoom (jpeg_resolveTarget cfg) = defishZoom cfg"
  "attempts (jpeg_resolveTarget cfg) = attempts cfg"
  by (cases "cmp_method cfg"; cases "preset cfg";
      simp add: jpeg_resolveTarget_def jpeg_setTargetFromPreset_def)+

lemma webp_resolveTarget_fields:
  "inputFiletype (webp_resolveTarget cfg) = inputFiletype cfg"
  "defishStrength (webp_resolveTarget cfg) = defishStrength cfg"
  "defishZoom (webp_resolveTarget cfg) = defishZoom cfg"
  by (cases "cmp_method cfg"; cases "preset cfg";
      simp add: webp_resolveTarget_def webp_setTargetFromPreset_def)+

lemma resolveFiletype_resolveTarget:
  "resolveFiletype env (jpeg_resolveTarget cfg) buf = resolveFiletype env cfg buf"
  "resolveFiletype env (webp_resolveTarget cfg) buf = resolveFiletype env cfg buf"
  by (simp_all add: resolveFiletype_def resolveTarget_fields webp_resolveTarget_fields)

lemma applyDefish_resolveTarget:
  "applyDefish env (jpeg_resolveTarget cfg) decoded = applyDefish env cfg decoded"
  "applyDefish env (webp_resolveTarget cfg) decoded = applyDefish env cfg decoded"
  by (simp_all add: applyDefish_def resolveTarget_fields webp_resolveTarget_fields)

lemma jpeg_with_metadata_ok:
  assumes "jpeg_with_metadata env cfg ft original originalGray buf = Exit 0 (Some out)"
    and "out \<noteq> buf" and "buf \<noteq> []"
    and "meta = (if strip cfg then [] else if ft = FILETYPE_JPEG
                 then (case snd (getMetadata env buf COMMENT_jpeg) of None \<Rightarrow> [] | Some m \<Rightarrow> m)
                 else [])"
  shows "\<exists>s c.
      jpeg_search env cfg original originalGray buf (length meta) (init_state cfg) = Inr s
      \<and> compressed s = Some c
      \<and> jpeg_layout env c meta out"
proof (cases "ft = FILETYPE_JPEG")
  case False
  with assms(1) have r: "jpeg_recompress env cfg original originalGray buf None = Exit 0 (Some out)"
    by (simp add: jpeg_with_metadata_def)
  have "meta = (if strip cfg then [] else (case None :: byte list option of None \<Rightarrow> [] | Some m \<Rightarrow> m))"
    using False by (simp add: assms(4))
  from jpeg_recompress_ok [OF r assms(2,3) this] show ?thesis .
next
  case True
  obtain found metaBuf where g: "getMetadata env buf COMMENT_jpeg = (found, metaBuf)"
    by (cases "getMetadata env buf COMMENT_jpeg")
  have cp: "snd (copyFile buf) = buf" using assms(3) by (simp add: copyFile_def)
  from assms(1,2) True g cp have nf: "\<not> found"
    by (auto simp: jpeg_with_metadata_def split: if_splits)
  with assms(1) True g
  have r: "jpeg_recompress env cfg original originalGray buf metaBuf = Exit 0 (Some out)"
    by (simp add: jpeg_with_metadata_def)
  have "meta = (if strip cfg then [] else (case metaBuf of None \<Rightarrow> [] | Some m \<Rightarrow> m))"
    using True g by (simp add: assms(4))
  from jpeg_recompress_ok [OF r assms(2,3) this] show ?thesis .
qed

lemma jpeg_run_ok:
  assumes "jpeg_run env cfg nargs buf = Exit 0 (Some out)" and "out \<noteq> buf"
  shows "\<exists>decoded originalGray s c.
      decodeFileFromBuffer env buf (resolveFiletype env cfg buf) = Some decoded
      \<and> grayscale env (applyDefish env cfg decoded) = Some originalGray
      \<and> jpeg_search env (jpeg_resolveTarget cfg) (applyDefish env cfg decoded) originalGray buf
          (length (jpeg_preserved env cfg buf)) (init_state (jpeg_resolveTarget cfg)) = Inr s
      \<and> compressed s = Some c
      \<and> jpeg_layout env c (jpeg_preserved env cfg buf) out"
proof -
  let ?cfg = "jpeg_resolveTarget cfg"
  from assms(1) have ne: "buf \<noteq> []"
    by (auto simp: jpeg_run_def Let_def split: if_splits)
  from assms(1) obtain decoded originalGray where
    d: "decodeFileFromBuffer env buf (resolveFiletype env cfg buf) = Some decoded"
    and g: "grayscale env (applyDefish env cfg decoded) = Some originalGray"
    and w: "jpeg_with_metadata env ?cfg (resolveFiletype env cfg buf)
              (applyDefish env cfg decoded) originalGray buf = Exit 0 (Some out)"
    by (auto simp: jpeg_run_def Let_def resolveFiletype_resolveTarget applyDefish_resolveTarget
        split: if_splits option.splits)
  have "jpeg_preserved env cfg buf
      = (if strip ?cfg then [] else if resolveFiletype env cfg buf = FILETYPE_JPEG
         then (case snd (getMetadata env buf COMMENT_jpeg) of None \<Rightarrow> [] | Some m \<Rightarrow> m)
         else [])"
    by (simp add: jpeg_preserved_def resolveTarget_fields)
  from jpeg_with_metadata_ok [OF w assms(2) ne this] d g show ?thesis by blast
qed

section \<open>The head of the last iteration\<close>

lemma lastHead_single: "lastHead s0 [v] = s0"
  by (simp add: lastHead_def)

lemma lastHead_Cons:
  "vs \<noteq> [] \<Longrightarrow> lastHead s0 (v # vs) = lastHead (v\<lparr>attempt := attempt v - 1\<rparr>) vs"
  by (simp add: lastHead_def)

lemma jpeg_search_lastHead:
  assumes "jpeg_search env cfg original originalGray buf metaSize s0 = Inr s"
    and "0 \<le> attempt s0"
  shows "jpeg_body env cfg original originalGray buf metaSize
           (jpeg_lastHead env cfg original originalGray buf metaSize s0)
         = Inr (last (jpeg_visited env cfg original originalGray buf metaSize s0))"
  using assms
proof (induction env cfg original originalGray buf metaSize s0 rule: jpeg_search.induct)
  case (1 env cfg original originalGray buf metaSize s0)
  show ?case
  proof (cases "jpeg_body env cfg original originalGray buf metaSize s0")
    case (Inl e)
    with "1.prems" show ?thesis by (subst (asm) jpeg_search.simps) simp
  next
    case (Inr s')
    let ?n = "s'\<lparr>attempt := attempt s' - 1\<rparr>"
    have nxt: "jpeg_search env cfg original originalGray buf metaSize ?n = Inr s"
      using "1.prems" Inr by (subst (asm) jpeg_search.simps) simp
    have v: "jpeg_visited env cfg original originalGray buf metaSize s0
        = s' # jpeg_visited env cfg original originalGray buf metaSize ?n"
      using "1.prems"(2) Inr by (subst jpeg_visited.simps) simp
    show ?thesis
    proof (cases "0 \<le> attempt ?n")
      case True
      from jpeg_search_visited [OF nxt True]
      have ne: "jpeg_visited env cfg original originalGray buf metaSize ?n \<noteq> []" by simp
      from "1.IH" [OF "1.prems"(2) Inr nxt True] ne show ?thesis
        by (simp add: jpeg_lastHead_def v lastHead_Cons)
    next
      case False
      have "jpeg_visited env cfg original originalGray buf metaSize ?n = []"
        using False by (subst jpeg_visited.simps) simp
      with Inr show ?thesis
        by (simp add: jpeg_lastHead_def v lastHead_single)
    qed
  qed
qed

lemma webp_search_visited:
  assumes "webp_search env cfg pic originalGray s0 = Inr s"
    and "0 \<le> attempt s0"
  shows "webp_visited env cfg pic originalGray s0 \<noteq> []
     \<and> s = (last (webp_visited env cfg pic originalGray s0))\<lparr>attempt := - 1\<rparr>"
  using assms
proof (induction env cfg pic originalGray s0 rule: webp_search.induct)
  case (1 env cfg pic originalGray s0)
  show ?case
  proof (cases "webp_body env cfg pic originalGray s0")
    case (Inl e)
    with "1.prems" show ?thesis by (subst (asm) webp_search.simps) simp
  next
    case (Inr s')
    let ?n = "s'\<lparr>attempt := attempt s' - 1\<rparr>"
    have nxt: "webp_search env cfg pic originalGray ?n = Inr s"
      using "1.prems" Inr by (subst (asm) webp_search.simps) simp
    have v: "webp_visited env cfg pic originalGray s0
        = s' # webp_visited env cfg pic originalGray ?n"
      using "1.prems"(2) Inr by (subst webp_visited.simps) simp
    show ?thesis
    proof (cases "0 \<le> attempt ?n")
      case True
      from "1.IH" [OF "1.prems"(2) Inr nxt True] show ?thesis by (simp add: v)
    next
      case False
      then have e: "s = ?n" using nxt by (subst (asm) webp_search.simps) simp
      have "webp_visited env cfg pic originalGray ?n = []"
        using False by (subst webp_visited.simps) simp
      moreover have "attempt s' = 0"
        using False webp_body_attempt [OF Inr] forcedAttempt_le [OF "1.prems"(2)] by simp
      ultimately show ?thesis by (simp add: v e)
    qed
  qed
qed

lemma webp_search_lastHead:
  assumes "webp_search env cfg pic originalGray s0 = Inr s"
    and "0 \<le> attempt s0"
  shows "webp_body env cfg pic originalGray (webp_lastHead env cfg pic originalGray s0)
         = Inr (last (webp_visited env cfg pic originalGray s0))"
  using assms
proof (induction env cfg pic originalGray s0 rule: webp_search.induct)
  case (1 env cfg pic originalGray s0)
  show ?case
  proof (cases "webp_body env cfg pic originalGray s0")
    case (Inl e)
    with "1.prems" show ?thesis by (subst (asm) webp_search.simps) simp
  next
    case (Inr s')
    let ?n = "s'\<lparr>attempt := attempt s' - 1\<rparr>"
    have nxt: "webp_search env cfg pic originalGray ?n = Inr s"
      using "1.prems" Inr by (subst (asm) webp_search.simps) simp
    have v: "webp_visited env cfg pic originalGray s0
        = s' # webp_visited env cfg pic originalGray ?n"
      using "1.prems"(2) Inr by (subst webp_visited.simps) simp
    show ?thesis
    proof (cases "0 \<le> attempt ?n")
      case True
      from webp_search_visited [OF nxt True]
      have ne: "webp_visited env cfg pic originalGray ?n \<noteq> []" by simp
      from "1.IH" [OF "1.prems"(2) Inr nxt True] ne show ?thesis
        by (simp add: webp_lastHead_def v lastHead_Cons)
    next
      case False
      have "webp_visited env cfg pic originalGray ?n = []"
        using False by (subst webp_visited.simps) simp
      with Inr show ?thesis
        by (simp add: webp_lastHead_def v lastHead_single)
    qed
  qed
qed

text \<open>What a search that was left through the loop test holds, in terms of the head
  \<open>sl\<close> of its last iteration.\<close>

lemma jpeg_search_exit:
  assumes f: "jpeg_search env cfg original originalGray buf metaSize s0 = Inr s"
    and a: "0 \<le> attempt s0"
    and sl: "sl = jpeg_lastHead env cfg original originalGray buf metaSize s0"
  shows "\<exists>metric. jpeg_score env cfg original originalGray sl = Some metric
     \<and> jpeg_body env cfg original originalGray buf metaSize sl
         = Inr (last (jpeg_visited env cfg original originalGray buf metaSize s0))
     \<and> s = (last (jpeg_visited env cfg original originalGray buf metaSize s0))\<lparr>attempt := - 1\<rparr>
     \<and> quality s = trialQuality sl
     \<and> compressed s = Some (jpeg_candidate env cfg original sl)
     \<and> bestQuality s = (if \<bar>target cfg - metric\<bar> < bestDiff sl then trialQuality sl
                         else bestQuality sl)"
proof -
  let ?l = "last (jpeg_visited env cfg original originalGray buf metaSize s0)"
  have b: "jpeg_body env cfg original originalGray buf metaSize sl = Inr ?l"
    unfolding sl by (rule jpeg_search_lastHead [OF f a])
  from jpeg_search_visited [OF f a] have s: "s = ?l\<lparr>attempt := - 1\<rparr>" by simp
  from jpeg_body_InrD [OF b] obtain metric
    where sc: "jpeg_score env cfg original originalGray sl = Some metric" by blast
  have q: "quality s = trialQuality sl"
    using jpeg_body_bounds(1) [OF b sc] s by simp
  have c: "compressed s = Some (jpeg_candidate env cfg original sl)"
    using jpeg_body_candidate(1) [OF b] s by simp
  have bq: "bestQuality s = (if \<bar>target cfg - metric\<bar> < bestDiff sl then trialQuality sl
                             else bestQuality sl)"
    using jpeg_body_best(2) [OF b sc] s by simp
  from sc b s q c bq show ?thesis by blast
qed

lemma webp_search_exit:
  assumes f: "webp_search env cfg pic originalGray s0 = Inr s"
    and a: "0 \<le> attempt s0"
    and sl: "sl = webp_lastHead env cfg pic originalGray s0"
  shows "\<exists>metric. webp_score env cfg pic originalGray sl = Some metric
     \<and> webp_body env cfg pic originalGray sl
         = Inr (last (webp_visited env cfg pic originalGray s0))
     \<and> s = (last (webp_visited env cfg pic originalGray s0))\<lparr>attempt := - 1\<rparr>
     \<and> quality s = trialQuality sl
     \<and> compressed s = WebPEncode env pic (trialQuality sl)
     \<and> compressed s \<noteq> None
     \<and> bestQuality s = (if \<bar>target cfg - metric\<bar> < bestDiff sl then trialQuality sl
                         else bestQuality sl)"
proof -
  let ?l = "last (webp_visited env cfg pic originalGray s0)"
  have b: "webp_body env cfg pic originalGray sl = Inr ?l"
    unfolding sl by (rule webp_search_lastHead [OF f a])
  from webp_search_visited [OF f a] have s: "s = ?l\<lparr>attempt := - 1\<rparr>" by simp
  from webp_body_InrD [OF b] obtain metric
    where sc: "webp_score env cfg pic originalGray sl = Some metric" by blast
  have q: "quality s = trialQuality sl"
    using webp_body_bounds(1) [OF b sc] s by simp
  have c: "compressed s = WebPEncode env pic (trialQuality sl)" "compressed s \<noteq> None"
    using webp_body_candidate [OF b] s by simp_all
  have bq: "bestQuality s = (if \<bar>target cfg - metric\<bar> < bestDiff sl then trialQuality sl
                             else bestQuality sl)"
    using webp_body_best(2) [OF b sc] s by simp
  from sc b s q c bq show ?thesis by blast
qed

section \<open>One iteration, case by case\<close>

lemma jpeg_body_cases:
  assumes "jpeg_score env cfg original originalGray s = Some metric"
  shows "jpeg_body env cfg original originalGray buf metaSize s =
     (if metric < target cfg
         \<and> length buf \<le> length (jpeg_candidate env cfg original s) + metaSizeCOM + metaSize + minDelta
      then Inl (if copyFiles cfg then Exit 0 (Some (snd (copyFile buf))) else Exit 1 None)
      else Inr (moveBounds (cmp_method cfg) (target cfg) metric (trialQuality s)
          ((updateBest (target cfg) metric (trialQuality s)
             (s\<lparr>attempt := forcedAttempt s, quality := trialQuality s,
                compressed := Some (jpeg_candidate env cfg original s)\<rparr>))
           \<lparr>totalSize := length (jpeg_candidate env cfg original s) + metaSizeCOM + metaSize\<rparr>)))"
  using assms
  by (auto simp: jpeg_body_def jpeg_score_def moveBounds_def Let_def updateBest_fields
      split: option.splits)

lemma webp_body_cases:
  assumes "webp_score env cfg pic originalGray s = Some metric"
  shows "\<exists>w. WebPEncode env pic (trialQuality s) = Some w
     \<and> webp_body env cfg pic originalGray s =
       Inr (moveBounds (cmp_method cfg) (target cfg) metric (trialQuality s)
          (updateBest (target cfg) metric (trialQuality s)
             (s\<lparr>attempt := forcedAttempt s, quality := trialQuality s, compressed := Some w\<rparr>)))"
  using assms
  by (auto simp: webp_body_def webp_score_def moveBounds_def Let_def split: option.splits)

lemma jpeg_body_None:
  assumes "jpeg_score env cfg original originalGray s = None"
  shows "jpeg_body env cfg original originalGray buf metaSize s = Inl (Exit 1 None)"
  using assms by (auto simp: jpeg_body_def jpeg_score_def Let_def split: option.splits)

lemma webp_body_None:
  assumes "webp_score env cfg pic originalGray s = None"
  shows "webp_body env cfg pic originalGray s = Inl (Exit 1 None)"
  using assms by (auto simp: webp_body_def webp_score_def Let_def split: option.splits)

lemma movedByTable_moveBounds:
  assumes "cmp_method cfg \<noteq> UNKNOWN" and "minQ t = minQ s" and "maxQ t = maxQ s"
    and "quality t = q"
  shows "movedByTable cfg metric s (moveBounds (cmp_method cfg) (target cfg) metric q t)"
  using assms
  by (simp add: movedByTable_def raisesLowerBound_def lowersUpperBound_def
      moveBounds_minQ moveBounds_maxQ moveBounds_fields)

section \<open>The run of archive2webp.c after its checks\<close>

lemma webp_search_Inl:
  "webp_search env cfg pic originalGray s0 = Inl e \<Longrightarrow> e = Exit 1 None"
proof (induction env cfg pic originalGray s0 rule: webp_search.induct)
  case (1 env cfg pic originalGray s0)
  show ?case
  proof (cases "0 \<le> attempt s0")
    case False
    with "1.prems" show ?thesis by (subst (asm) webp_search.simps) simp
  next
    case True
    show ?thesis
    proof (cases "webp_body env cfg pic originalGray s0")
      case (Inl e')
      then have "e' = Exit 1 None"
        by (auto simp: webp_body_def Let_def split: option.splits if_splits)
      with "1.prems" True Inl show ?thesis by (subst (asm) webp_search.simps) simp
    next
      case (Inr s')
      with "1.prems" True
      have "webp_search env cfg pic originalGray (s'\<lparr>attempt := attempt s' - 1\<rparr>) = Inl e"
        by (subst (asm) webp_search.simps) simp
      from "1.IH" [OF True Inr this] show ?thesis .
    qed
  qed
qed

lemma webp_run_eq:
  assumes "nargs = 2" and "cmp_method cfg \<noteq> UNKNOWN" and "qMin cfg \<le> qMax cfg"
    and "WebPConfigPreset env" and "WebPPictureInit env" and "buf \<noteq> []"
    and "decodeFileFromBuffer env buf (resolveFiletype env cfg buf) = Some decoded"
    and "WebPPictureImportRGB env (applyDefish env cfg decoded)"
    and "grayscale env (applyDefish env cfg decoded) = Some originalGray"
  shows "webp_run env cfg nargs buf =
     (case webp_search env (webp_resolveTarget cfg) (applyDefish env cfg decoded) originalGray
             (init_state (webp_resolveTarget cfg)) of
        Inl e \<Rightarrow> e
      | Inr s \<Rightarrow> webp_finish s)"
  using assms
  by (simp add: webp_run_def Let_def resolveFiletype_resolveTarget applyDefish_resolveTarget)

section \<open>The signature in an assembled file\<close>

lemma segments_comment_segment:
  "\<exists>segs. segmentsOf (comment_segment @ rest) = comment_segment # segs"
proof -
  have l: "length comment_segment = 33"
    by (simp add: comment_segment_def COMMENT_jpeg_def bytes_of_def)
  have n: "(comment_segment @ rest) ! 0 = 0xFF" "(comment_segment @ rest) ! 1 = 0xFE"
    "(comment_segment @ rest) ! 2 = 0x00" "(comment_segment @ rest) ! 3 = 0x1F"
    by (simp_all add: comment_segment_def COMMENT_jpeg_def bytes_of_def)
  have sz: "segmentSize (comment_segment @ rest) = 33"
    by (simp add: segmentSize_def n)
  have "segmentsOf (comment_segment @ rest)
      = take 33 (comment_segment @ rest) # segmentsOf (drop 33 (comment_segment @ rest))"
    using n by (subst segmentsOf.simps) (simp add: l sz)
  then show ?thesis by (simp add: l)
qed

lemma comment_segment_signature:
  "isSignatureComment (bytes_of COMMENT_jpeg) comment_segment"
  by (simp add: isSignatureComment_def comment_segment_def COMMENT_jpeg_def bytes_of_def)

lemma layout_signature:
  assumes l: "jpeg_layout env c meta out" and n6: "6 \<le> app0_lenP4 c"
  shows "list_ex (isSignatureComment (bytes_of COMMENT_jpeg)) (segmentsOf (drop 2 out))"
proof -
  let ?n = "app0_lenP4 c"
  let ?rest = "comment_segment @ meta @ drop ?n c"
  from l have len: "?n \<le> length c" and c2: "c ! 2 = 0xFF" and c3: "c ! 3 = 0xE0"
    and out: "out = take ?n c @ ?rest"
    by (simp_all add: jpeg_layout_def comment_segment_bytes)
  let ?bs = "drop 2 out"
  have bs: "?bs = drop 2 (take ?n c) @ ?rest"
    using out len n6 by simp
  have hl: "length (drop 2 (take ?n c)) = ?n - 2"
    using len by simp
  have g4: "0 < ?n - 2" "1 < ?n - 2" "2 < ?n - 2" "3 < ?n - 2"
    using n6 by simp_all
  have b0: "?bs ! 0 = c ! 2" and b1: "?bs ! 1 = c ! 3" and b2: "?bs ! 2 = c ! 4" and b3: "?bs ! 3 = c ! 5"
    using len g4 by (simp_all add: bs nth_append)
  have long: "\<not> length ?bs < 4"
    using hl n6 by (simp add: bs)
  have skip: "segmentSize ?bs = ?n - 2"
    by (simp add: segmentSize_def b2 b3 app0_lenP4_def)
  have nxt: "drop (?n - 2) ?bs = ?rest"
    using hl by (simp add: bs)
  have "segmentsOf ?bs = take (?n - 2) ?bs # segmentsOf ?rest"
    using long b0 b1 c3 skip nxt
    by (subst segmentsOf.simps) simp
  moreover from segments_comment_segment [of "meta @ drop ?n c"] obtain segs
    where "segmentsOf ?rest = comment_segment # segs" by blast
  ultimately show ?thesis
    by (simp add: comment_segment_signature)
qed

lemma segmentsOf_pieces: "\<exists>rest. bs = concat (segmentsOf bs) @ rest"
proof (induction bs rule: segmentsOf.induct)
  case (1 bs)
  show ?case
  proof (cases "length bs < 4 \<or> (bs ! 0 = 0xFF \<and> bs ! 1 = 0xDA)")
    case True
    then have "segmentsOf bs = []" by (subst segmentsOf.simps) auto
    then show ?thesis by simp
  next
    case False
    then have e: "segmentsOf bs = take (segmentSize bs) bs # segmentsOf (drop (segmentSize bs) bs)"
      by (subst segmentsOf.simps) auto
    from False "1.IH" obtain rest
      where "drop (segmentSize bs) bs = concat (segmentsOf (drop (segmentSize bs) bs)) @ rest"
      by auto
    then have "bs = concat (segmentsOf bs) @ rest"
      unfolding e by (metis append.assoc append_take_drop_id concat.simps(2))
    then show ?thesis by blast
  qed
qed

lemma getMetadata_spec_buffer:
  "(case snd (getMetadata_spec nullWhenEmpty buf comment) of None \<Rightarrow> [] | Some m \<Rightarrow> m)
     = auxiliaryData buf"
  by (simp add: getMetadata_spec_def)

lemma jpeg_run_found:
  assumes "cmp_method cfg \<noteq> UNKNOWN" and "qMin cfg \<le> qMax cfg" and "buf \<noteq> []"
    and "resolveFiletype env cfg buf = FILETYPE_JPEG"
    and "decodeFileFromBuffer env buf FILETYPE_JPEG = Some decoded"
    and "grayscale env (applyDefish env cfg decoded) = Some originalGray"
    and "fst (getMetadata env buf COMMENT_jpeg)"
  shows "jpeg_run env cfg 2 buf = (if copyFiles cfg then Exit 0 (Some buf) else Exit 2 None)"
proof -
  let ?cfg = "jpeg_resolveTarget cfg"
  have d: "applyDefish env ?cfg decoded = applyDefish env cfg decoded"
    by (cases "cmp_method cfg"; cases "preset cfg";
        simp add: applyDefish_def jpeg_resolveTarget_def jpeg_setTargetFromPreset_def)
  obtain metaBuf where g: "getMetadata env buf COMMENT_jpeg = (True, metaBuf)"
    using assms(7) by (cases "getMetadata env buf COMMENT_jpeg") auto
  show ?thesis
    using assms(1-6) g
    by (simp add: jpeg_run_def Let_def resolveFiletype_resolveTarget d jpeg_with_metadata_def
        resolveTarget_fields copyFile_def)
qed


lemma jpeg_finish_not_2: "jpeg_finish env buf metaBuf s \<noteq> Exit 2 x"
  by (auto simp: jpeg_finish_def jpeg_write_def jpeg_write_image_def Let_def
      split: if_splits option.splits)

lemma jpeg_recompress_not_2:
  "jpeg_recompress env cfg original originalGray buf metaBuf0 \<noteq> Exit 2 x"
proof
  assume a: "jpeg_recompress env cfg original originalGray buf metaBuf0 = Exit 2 x"
  let ?metaBuf = "if strip cfg then None else metaBuf0"
  let ?metaSize = "case ?metaBuf of None \<Rightarrow> 0 | Some m \<Rightarrow> length m"
  show False
  proof (cases "jpeg_search env cfg original originalGray buf ?metaSize (init_state cfg)")
    case (Inl e)
    with a have "e = Exit 2 x" by (simp add: jpeg_recompress_def Let_def)
    with jpeg_search_Inl [OF Inl] show False by simp
  next
    case (Inr s)
    with a have "jpeg_finish env buf ?metaBuf s = Exit 2 x"
      by (simp add: jpeg_recompress_def Let_def)
    then show False by (simp add: jpeg_finish_not_2)
  qed
qed

lemma jpeg_run_no_test_no_status_2:
  assumes "resolveFiletype env cfg buf \<noteq> FILETYPE_JPEG"
  shows "jpeg_run env cfg nargs buf \<noteq> Exit 2 x"
  using assms
  by (auto simp: jpeg_run_def Let_def jpeg_with_metadata_def resolveFiletype_resolveTarget
      jpeg_recompress_not_2 split: option.splits)

section \<open>Facts about options and presets\<close>









section \<open>Two evaluated searches\<close>

lemma demo_visited:
  "jpeg_visited demo_env demo_cfg_fifth 100 100 (demo_ppm 98) 0 (init_state demo_cfg_fifth) =
    [\<lparr>attempt = 2, quality = 50, minQ = 1, maxQ = 49, bestDiff = 3 / 10,
     bestQuality = 50, compressed = Some [255, 216, 255, 224, 0, 2, 50, 0],
     totalSize = 41\<rparr>,
  \<lparr>attempt = 1, quality = 25, minQ = 1, maxQ = 24, bestDiff = 1 / 20,
     bestQuality = 25, compressed = Some [255, 216, 255, 224, 0, 2, 25, 0],
     totalSize = 41\<rparr>,
  \<lparr>attempt = 0, quality = 12, minQ = 13, maxQ = 24, bestDiff = 1 / 20,
     bestQuality = 25, compressed = Some [255, 216, 255, 224, 0, 2, 12, 3],
     totalSize = 41\<rparr>]"
  by (simp add: jpeg_visited.simps demo_cfg_fifth_def demo_run_defs)

lemma demo_visited_webp:
  "webp_visited demo_env demo_cfg_fifth 100 100 (init_state demo_cfg_fifth) =
    [\<lparr>attempt = 2, quality = 50, minQ = 1, maxQ = 49, bestDiff = 3 / 10,
     bestQuality = 50, compressed = Some [50, 0x57],
     totalSize = 0\<rparr>,
  \<lparr>attempt = 1, quality = 25, minQ = 1, maxQ = 24, bestDiff = 1 / 20,
     bestQuality = 25, compressed = Some [25, 0x57],
     totalSize = 0\<rparr>,
  \<lparr>attempt = 0, quality = 12, minQ = 13, maxQ = 24, bestDiff = 1 / 20,
     bestQuality = 25, compressed = Some [12, 0x57],
     totalSize = 0\<rparr>]"
  by (simp add: webp_visited.simps demo_cfg_fifth_def demo_run_defs)

lemma demo_narrow_jpeg:
  "jpeg_search demo_env demo_cfg_narrow 100 100 (demo_ppm 98) 0 (init_state demo_cfg_narrow)
     = Inr demo_narrow_exit_jpeg"
  by (simp add: jpeg_search.simps demo_cfg_narrow_def demo_narrow_exit_jpeg_def demo_run_defs)

lemma demo_narrow_webp:
  "webp_search demo_env demo_cfg_narrow 100 100 (init_state demo_cfg_narrow)
     = Inr demo_narrow_exit_webp"
  by (simp add: webp_search.simps demo_cfg_narrow_def demo_narrow_exit_webp_def demo_run_defs)

lemma demo_narrow_run_jpeg:
  "jpeg_run demo_env demo_cfg_narrow 2 (demo_ppm 98) =
     Exit 0 (Some ([0xFF, 0xD8, 0xFF, 0xE0, 0, 2] @ comment_segment @ [1, 3]))"
  by (simp add: demo_main_defs jpeg_search.simps demo_cfg_narrow_def demo_run_defs)

lemma demo_narrow_run_webp:
  "webp_run demo_env demo_cfg_narrow 2 (demo_ppm 98) = Exit 0 (Some [1, 0x57])"
  by (simp add: demo_main_defs webp_search.simps demo_cfg_narrow_def demo_run_defs)

section \<open>A run of jpeg-recompress.c that assembles its output\<close>

lemma jpeg_run_assembled:
  assumes "jpeg_run env cfg nargs buf = Exit 0 (Some out)" and "out \<noteq> buf"
  shows "\<exists>decoded originalGray s c.
      decodeFileFromBuffer env buf (resolveFiletype env cfg buf) = Some decoded
      \<and> grayscale env (applyDefish env cfg decoded) = Some originalGray
      \<and> jpeg_search env (jpeg_resolveTarget cfg) (applyDefish env cfg decoded) originalGray buf
          (length (jpeg_preserved env cfg buf)) (init_state (jpeg_resolveTarget cfg)) = Inr s
      \<and> compressed s = Some c
      \<and> c = jpeg_candidate env (jpeg_resolveTarget cfg) (applyDefish env cfg decoded)
            (jpeg_lastHead env (jpeg_resolveTarget cfg) (applyDefish env cfg decoded)
               originalGray buf (length (jpeg_preserved env cfg buf))
               (init_state (jpeg_resolveTarget cfg)))
      \<and> jpeg_layout env c (jpeg_preserved env cfg buf) out"
proof -
  let ?cfg = "jpeg_resolveTarget cfg"
  from jpeg_run_ok [OF assms] obtain decoded originalGray s c where
    d: "decodeFileFromBuffer env buf (resolveFiletype env cfg buf) = Some decoded"
    and g: "grayscale env (applyDefish env cfg decoded) = Some originalGray"
    and f: "jpeg_search env ?cfg (applyDefish env cfg decoded) originalGray buf
          (length (jpeg_preserved env cfg buf)) (init_state ?cfg) = Inr s"
    and c: "compressed s = Some c"
    and l: "jpeg_layout env c (jpeg_preserved env cfg buf) out"
    by blast
  have a: "0 \<le> attempt (init_state ?cfg)"
  proof (rule ccontr)
    assume "\<not> 0 \<le> attempt (init_state ?cfg)"
    with f have "s = init_state ?cfg" by (subst (asm) jpeg_search.simps) simp
    with c show False by (simp add: init_state_def)
  qed
  from jpeg_search_exit [OF f a refl] c
  have "c = jpeg_candidate env ?cfg (applyDefish env cfg decoded)
            (jpeg_lastHead env ?cfg (applyDefish env cfg decoded)
               originalGray buf (length (jpeg_preserved env cfg buf)) (init_state ?cfg))"
    by auto
  with d g f c l show ?thesis by blast
qed

lemma jpeg_preserved_spec:
  assumes "getMetadata env = getMetadata_spec nullWhenEmpty"
  shows "jpeg_preserved env cfg buf
     = (if strip cfg \<or> resolveFiletype env cfg buf \<noteq> FILETYPE_JPEG then []
        else auxiliaryData buf)"
  by (simp add: jpeg_preserved_def assms getMetadata_spec_buffer)

section \<open>Evaluated runs on JPEG inputs\<close>

lemma demo_jpeg_segments:
  "segmentsOf (drop 2 (demo_jpeg 86))
     = [[0xFF, 0xE0, 0x00, 0x02], [0xFF, 0xE1, 0x00, 0x04, 0xAA, 0xBB]]"
  "segmentsOf (drop 2 (demo_jpeg 36))
     = [[0xFF, 0xE0, 0x00, 0x02], [0xFF, 0xE1, 0x00, 0x04, 0xAA, 0xBB]]"
  by (simp_all add: demo_jpeg_def segmentsOf.simps segmentSize_def)

lemma demo_jpeg_metadata:
  "getMetadata_spec False (demo_jpeg 86) COMMENT_jpeg
     = (False, Some [0xFF, 0xE1, 0x00, 0x04, 0xAA, 0xBB])"
  "getMetadata_spec False (demo_jpeg 36) COMMENT_jpeg
     = (False, Some [0xFF, 0xE1, 0x00, 0x04, 0xAA, 0xBB])"
  by (simp_all add: getMetadata_spec_def auxiliaryData_def demo_jpeg_segments
      isSignatureComment_def isTagBlock_def)

section \<open>The bound updates\<close>

text \<open>
  Claim C3, as amended. An iteration whose candidate decodes, with score \<open>metric\<close>, does
  one of two things. In jpeg-recompress.c, when the score is below the target and the size
  test \<open>totalSize + 10 >= bufSize\<close> holds, it ends the run (copy of the input and exit
  status 0, or exit status 1 when copying is disabled) and moves no bound. In every other
  case, and always in archive2webp.c, it runs to the end of the body with \<open>quality\<close> the
  tried quality and the bounds moved by the table: for SSIM, MS-SSIM and Smallfry a score
  below the target sets \<open>min\<close> to \<open>MIN(quality + 1, max)\<close> and a score at or above the
  target sets \<open>max\<close> to \<open>MAX(quality - 1, min)\<close>; for MPE the two are exchanged. The other
  bound stays.
\<close>

theorem bounds_follow_polarity:
  fixes env :: "('img, 'gray) collaborators"
  assumes "cmp_method cfg \<noteq> UNKNOWN"
  shows "(jpeg_score env cfg original originalGray s = Some metric \<longrightarrow>
           (if metric < target cfg
               \<and> length buf \<le> length (jpeg_candidate env cfg original s) + metaSizeCOM
                                + metaSize + minDelta
            then jpeg_body env cfg original originalGray buf metaSize s
                   = Inl (if copyFiles cfg then Exit 0 (Some (snd (copyFile buf)))
                          else Exit 1 None)
            else (\<exists>s'. jpeg_body env cfg original originalGray buf metaSize s = Inr s'
                    \<and> quality s' = trialQuality s \<and> movedByTable cfg metric s s')))
       \<and> (webp_score env cfg original originalGray s = Some metric \<longrightarrow>
           (\<exists>s'. webp_body env cfg original originalGray s = Inr s'
              \<and> quality s' = trialQuality s \<and> movedByTable cfg metric s s'))"
proof (intro conjI impI)
  assume sc: "jpeg_score env cfg original originalGray s = Some metric"
  let ?guard = "metric < target cfg
               \<and> length buf \<le> length (jpeg_candidate env cfg original s) + metaSizeCOM
                                + metaSize + minDelta"
  let ?t = "(updateBest (target cfg) metric (trialQuality s)
             (s\<lparr>attempt := forcedAttempt s, quality := trialQuality s,
                compressed := Some (jpeg_candidate env cfg original s)\<rparr>))
           \<lparr>totalSize := length (jpeg_candidate env cfg original s) + metaSizeCOM + metaSize\<rparr>"
  let ?s' = "moveBounds (cmp_method cfg) (target cfg) metric (trialQuality s) ?t"
  have t: "minQ ?t = minQ s" "maxQ ?t = maxQ s" "quality ?t = trialQuality s"
    by (simp_all add: updateBest_fields)
  show "if ?guard
        then jpeg_body env cfg original originalGray buf metaSize s
               = Inl (if copyFiles cfg then Exit 0 (Some (snd (copyFile buf))) else Exit 1 None)
        else (\<exists>s'. jpeg_body env cfg original originalGray buf metaSize s = Inr s'
                \<and> quality s' = trialQuality s \<and> movedByTable cfg metric s s')"
  proof (cases ?guard)
    case True
    then show ?thesis
      using jpeg_body_cases [OF sc, of buf metaSize] by simp
  next
    case False
    then have b: "jpeg_body env cfg original originalGray buf metaSize s = Inr ?s'"
      using jpeg_body_cases [OF sc, of buf metaSize] by simp
    have q: "quality ?s' = trialQuality s"
      by (simp add: moveBounds_fields updateBest_fields)
    have m: "movedByTable cfg metric s ?s'"
      by (rule movedByTable_moveBounds [OF assms t])
    from False b q m show ?thesis by auto
  qed
next
  assume sc: "webp_score env cfg original originalGray s = Some metric"
  from webp_body_cases [OF sc] obtain w where
    b: "webp_body env cfg original originalGray s =
       Inr (moveBounds (cmp_method cfg) (target cfg) metric (trialQuality s)
          (updateBest (target cfg) metric (trialQuality s)
             (s\<lparr>attempt := forcedAttempt s, quality := trialQuality s, compressed := Some w\<rparr>)))"
    by blast
  let ?t = "updateBest (target cfg) metric (trialQuality s)
             (s\<lparr>attempt := forcedAttempt s, quality := trialQuality s, compressed := Some w\<rparr>)"
  let ?s' = "moveBounds (cmp_method cfg) (target cfg) metric (trialQuality s) ?t"
  have t: "minQ ?t = minQ s" "maxQ ?t = maxQ s" "quality ?t = trialQuality s"
    by (simp_all add: updateBest_fields)
  have q: "quality ?s' = trialQuality s"
    by (simp add: moveBounds_fields updateBest_fields)
  have m: "movedByTable cfg metric s ?s'"
    by (rule movedByTable_moveBounds [OF assms t])
  from b q m show "\<exists>s'. webp_body env cfg original originalGray s = Inr s'
              \<and> quality s' = trialQuality s \<and> movedByTable cfg metric s s'"
    by blast
qed

text \<open>The theorem at work: with MPE and target 1.0 the first candidate (quality 50,
  score 0.5) is below the target and the upper bound drops to 49; with SSIM and the same
  numbers the lower bound rises to 51.\<close>

theorem bounds_follow_polarity_witness:
  "jpeg_body demo_env (defaults\<lparr>cmp_method := MPE, target := 1\<rparr>) 100 100 (demo_ppm 98) 0
       (init_state defaults)
     = Inr \<lparr>attempt = 7, quality = 50, minQ = 1, maxQ = 49, bestDiff = 1 / 2,
            bestQuality = 50, compressed = Some [0xFF, 0xD8, 0xFF, 0xE0, 0, 2, 50, 0],
            totalSize = 41\<rparr>
   \<and> lowersUpperBound (init_state defaults)
       \<lparr>attempt = 7, quality = 50, minQ = 1, maxQ = 49, bestDiff = 1 / 2, bestQuality = 50,
        compressed = Some [0xFF, 0xD8, 0xFF, 0xE0, 0, 2, 50, 0], totalSize = 41\<rparr>
   \<and> webp_body demo_env (defaults\<lparr>target := 1\<rparr>) 100 100 (init_state defaults)
     = Inr \<lparr>attempt = 7, quality = 50, minQ = 51, maxQ = 99, bestDiff = 1 / 2,
            bestQuality = 50, compressed = Some [50, 0x57], totalSize = 0\<rparr>
   \<and> raisesLowerBound (init_state defaults)
       \<lparr>attempt = 7, quality = 50, minQ = 51, maxQ = 99, bestDiff = 1 / 2, bestQuality = 50,
        compressed = Some [50, 0x57], totalSize = 0\<rparr>"
proof -
  let ?mpe = "defaults\<lparr>cmp_method := MPE, target := 1\<rparr>"
  let ?ssim = "defaults\<lparr>target := 1\<rparr>"
  let ?j = "\<lparr>attempt = 7, quality = 50, minQ = 1, maxQ = 49, bestDiff = 1 / 2,
            bestQuality = 50, compressed = Some [0xFF, 0xD8, 0xFF, 0xE0, 0, 2, 50, 0 :: byte],
            totalSize = 41\<rparr>"
  let ?w = "\<lparr>attempt = 7, quality = 50, minQ = 51, maxQ = 99, bestDiff = 1 / 2,
            bestQuality = 50, compressed = Some [50, 0x57 :: byte], totalSize = 0\<rparr>"
  have m1: "cmp_method ?mpe \<noteq> UNKNOWN" and m2: "cmp_method ?ssim \<noteq> UNKNOWN"
    by (simp_all add: defaults_def)
  have b1: "jpeg_body demo_env ?mpe 100 100 (demo_ppm 98) 0 (init_state defaults) = Inr ?j"
    by (simp add: jpeg_body_def jpeg_candidate_def demo_defs)
  have s1: "jpeg_score demo_env ?mpe 100 100 (init_state defaults) = Some (1 / 2)"
    by (simp add: jpeg_score_def jpeg_candidate_def demo_defs)
  have g1: "\<not> (1 / 2 < target ?mpe
      \<and> length (demo_ppm 98) \<le> length (jpeg_candidate demo_env ?mpe 100 (init_state defaults))
            + metaSizeCOM + 0 + minDelta)"
    by (simp add: jpeg_candidate_def demo_defs)
  have b2: "webp_body demo_env ?ssim 100 100 (init_state defaults) = Inr ?w"
    by (simp add: webp_body_def demo_defs)
  have s2: "webp_score demo_env ?ssim 100 100 (init_state defaults) = Some (1 / 2)"
    by (simp add: webp_score_def demo_defs)
  have t1: "(1 / 2 < target ?mpe) = True" "(cmp_method ?mpe = MPE) = True"
    and t2: "(1 / 2 < target ?ssim) = True" "(cmp_method ?ssim = MPE) = False"
    by (simp_all add: defaults_def)
  from bounds_follow_polarity [OF m1, of demo_env 100 100 "init_state defaults" "1 / 2"
      "demo_ppm 98" 0] s1 g1 b1
  have "movedByTable ?mpe (1 / 2) (init_state defaults) ?j" by simp
  then have l: "lowersUpperBound (init_state defaults) ?j"
    unfolding movedByTable_def t1 by simp
  from bounds_follow_polarity [OF m2, of demo_env 100 100 "init_state defaults" "1 / 2"
      "demo_ppm 98" 0] s2 b2
  have "movedByTable ?ssim (1 / 2) (init_state defaults) ?w" by simp
  then have r: "raisesLowerBound (init_state defaults) ?w"
    unfolding movedByTable_def t2 by simp
  from b1 l b2 r show ?thesis by simp
qed

text \<open>Claim C3 as stated fails in jpeg-recompress.c. A PPM input of 50 bytes under the
  default options (SSIM, target 0.9999 from the preset): the first iteration tries quality
  50 and scores 0.5, below the target, and its 8 + 33 + 10 bytes are not below 50. The
  body returns from \<open>main\<close> with the input copied; the lower bound is not raised to 51,
  no iteration is completed and the search has no variables to go on with.\<close>

theorem bounds_follow_polarity_counterexample:
  "cmp_method (jpeg_resolveTarget defaults) = SSIM
   \<and> jpeg_score demo_env (jpeg_resolveTarget defaults) 50 50
       (init_state (jpeg_resolveTarget defaults)) = Some (1 / 2)
   \<and> 1 / 2 < target (jpeg_resolveTarget defaults)
   \<and> jpeg_body demo_env (jpeg_resolveTarget defaults) 50 50 (demo_ppm 48) 0
       (init_state (jpeg_resolveTarget defaults)) = Inl (Exit 0 (Some (demo_ppm 48)))
   \<and> jpeg_visited demo_env (jpeg_resolveTarget defaults) 50 50 (demo_ppm 48) 0
       (init_state (jpeg_resolveTarget defaults)) = []
   \<and> jpeg_search demo_env (jpeg_resolveTarget defaults) 50 50 (demo_ppm 48) 0
       (init_state (jpeg_resolveTarget defaults)) = Inl (Exit 0 (Some (demo_ppm 48)))"
proof -
  let ?cfg = "jpeg_resolveTarget defaults"
  have b: "jpeg_body demo_env ?cfg 50 50 (demo_ppm 48) 0 (init_state ?cfg)
      = Inl (Exit 0 (Some (demo_ppm 48)))"
    by (simp add: jpeg_resolveTarget_def jpeg_setTargetFromPreset_def demo_run_defs)
  have a: "0 \<le> attempt (init_state ?cfg)"
    by (simp add: jpeg_resolveTarget_def jpeg_setTargetFromPreset_def demo_defs)
  have v: "jpeg_visited demo_env ?cfg 50 50 (demo_ppm 48) 0 (init_state ?cfg) = []"
    using a b by (subst jpeg_visited.simps) simp
  have f: "jpeg_search demo_env ?cfg 50 50 (demo_ppm 48) 0 (init_state ?cfg)
      = Inl (Exit 0 (Some (demo_ppm 48)))"
    using a b by (subst jpeg_search.simps) simp
  have "cmp_method ?cfg = SSIM" "1 / 2 < target ?cfg"
    "jpeg_score demo_env ?cfg 50 50 (init_state ?cfg) = Some (1 / 2)"
    by (simp_all add: jpeg_resolveTarget_def jpeg_setTargetFromPreset_def demo_run_defs)
  with b v f show ?thesis by simp
qed

section \<open>The interval stays well formed\<close>

text \<open>
  Claim C4. When the initial bounds satisfy \<open>qMin \<le> qMax\<close>, which \<open>main\<close> enforces
  before the search, \<open>min \<le> max\<close> holds at the end of every completed iteration of
  either program, whatever the metric and the scores.
\<close>

theorem bounds_stay_ordered:
  fixes env :: "('img, 'gray) collaborators"
  assumes "qMin cfg \<le> qMax cfg"
  shows "(\<forall>s \<in> set (jpeg_visited env cfg original originalGray buf metaSize (init_state cfg)).
            minQ s \<le> maxQ s)
       \<and> (\<forall>s \<in> set (webp_visited env cfg original originalGray (init_state cfg)).
            minQ s \<le> maxQ s)"
proof
  have i: "minQ (init_state cfg) \<le> maxQ (init_state cfg)"
    using assms by (simp add: init_state_def)
  show "\<forall>s \<in> set (jpeg_visited env cfg original originalGray buf metaSize (init_state cfg)).
            minQ s \<le> maxQ s"
    by (rule jpeg_visited_ordered [OF i])
  show "\<forall>s \<in> set (webp_visited env cfg original originalGray (init_state cfg)).
            minQ s \<le> maxQ s"
    by (rule webp_visited_ordered [OF i])
qed


text \<open>The theorem at work on a search of three iterations: the bounds after the last one,
  13 and 24, are in order.\<close>

theorem bounds_stay_ordered_witness:
  "qMin demo_cfg_fifth \<le> qMax demo_cfg_fifth
   \<and> length (jpeg_visited demo_env demo_cfg_fifth 100 100 (demo_ppm 98) 0
               (init_state demo_cfg_fifth)) = 3
   \<and> minQ (last (jpeg_visited demo_env demo_cfg_fifth 100 100 (demo_ppm 98) 0
                  (init_state demo_cfg_fifth)))
     \<le> maxQ (last (jpeg_visited demo_env demo_cfg_fifth 100 100 (demo_ppm 98) 0
                  (init_state demo_cfg_fifth)))
   \<and> length (webp_visited demo_env demo_cfg_fifth 100 100 (init_state demo_cfg_fifth)) = 3
   \<and> minQ (last (webp_visited demo_env demo_cfg_fifth 100 100 (init_state demo_cfg_fifth)))
     \<le> maxQ (last (webp_visited demo_env demo_cfg_fifth 100 100 (init_state demo_cfg_fifth)))"
proof -
  let ?j = "jpeg_visited demo_env demo_cfg_fifth 100 100 (demo_ppm 98) 0 (init_state demo_cfg_fifth)"
  let ?w = "webp_visited demo_env demo_cfg_fifth 100 100 (init_state demo_cfg_fifth)"
  have h: "qMin demo_cfg_fifth \<le> qMax demo_cfg_fifth"
    by (simp add: demo_cfg_fifth_def defaults_def)
  have n: "length ?j = 3" "length ?w = 3"
    by (simp_all only: demo_visited demo_visited_webp) simp_all
  then have "last ?j \<in> set ?j" "last ?w \<in> set ?w"
    by (auto intro: last_in_set)
  with bounds_stay_ordered [OF h, of demo_env 100 100 "demo_ppm 98" 0] h n
  show ?thesis by blast
qed

section \<open>The number of iterations\<close>

text \<open>
  Claim C5, as amended. \<open>jpeg_search\<close> and \<open>webp_search\<close> are total functions: the loop
  ends for every metric, every pair of bounds and every behaviour of the codecs. The body
  runs at most \<open>attempts\<close> times, and not at all when \<open>attempts\<close> is zero or negative.
  When \<open>qMin = qMax\<close> and \<open>attempts\<close> is at least 1 the body runs exactly once.
\<close>

theorem search_cycles_bounded:
  fixes env :: "('img, 'gray) collaborators"
  shows "int (jpeg_cycles env cfg original originalGray buf metaSize (init_state cfg))
           \<le> max 0 (attempts cfg)
       \<and> int (webp_cycles env cfg original originalGray (init_state cfg)) \<le> max 0 (attempts cfg)
       \<and> (1 \<le> attempts cfg \<and> qMin cfg = qMax cfg \<longrightarrow>
            jpeg_cycles env cfg original originalGray buf metaSize (init_state cfg) = 1
            \<and> webp_cycles env cfg original originalGray (init_state cfg) = 1)"
proof (intro conjI impI)
  have a: "attempt (init_state cfg) + 1 = attempts cfg"
    by (simp add: init_state_def)
  show "int (jpeg_cycles env cfg original originalGray buf metaSize (init_state cfg))
           \<le> max 0 (attempts cfg)"
    using jpeg_cycles_le [of env cfg original originalGray buf metaSize "init_state cfg"] a
    by linarith
  show "int (webp_cycles env cfg original originalGray (init_state cfg)) \<le> max 0 (attempts cfg)"
    using webp_cycles_le [of env cfg original originalGray "init_state cfg"] a
    by linarith
next
  assume h: "1 \<le> attempts cfg \<and> qMin cfg = qMax cfg"
  then have 0: "0 \<le> attempt (init_state cfg)" and e: "minQ (init_state cfg) = maxQ (init_state cfg)"
    by (simp_all add: init_state_def)
  show "jpeg_cycles env cfg original originalGray buf metaSize (init_state cfg) = 1"
    by (rule jpeg_cycles_singleton [OF 0 e])
  show "webp_cycles env cfg original originalGray (init_state cfg) = 1"
    by (rule webp_cycles_singleton [OF 0 e])
qed


theorem search_cycles_bounded_witness:
  "1 \<le> attempts demo_cfg_point \<and> qMin demo_cfg_point = qMax demo_cfg_point
   \<and> jpeg_cycles demo_env demo_cfg_point 100 100 (demo_ppm 98) 0 (init_state demo_cfg_point) = 1
   \<and> webp_cycles demo_env demo_cfg_point 100 100 (init_state demo_cfg_point) = 1"
  using search_cycles_bounded [of demo_env demo_cfg_point 100 100 "demo_ppm 98" 0]
  by (simp add: demo_cfg_point_def defaults_def)

text \<open>Claim C5 as stated fails for \<open>--loops 0\<close>: with \<open>qMin = qMax\<close> the body does not run
  once, it does not run.\<close>

theorem search_cycles_counterexample:
  "qMin demo_cfg_noloop = qMax demo_cfg_noloop
   \<and> jpeg_cycles demo_env demo_cfg_noloop 100 100 (demo_ppm 98) 0 (init_state demo_cfg_noloop) = 0
   \<and> webp_cycles demo_env demo_cfg_noloop 100 100 (init_state demo_cfg_noloop) = 0"
  by (simp add: jpeg_cycles.simps webp_cycles.simps demo_cfg_noloop_def defaults_def init_state_def)


section \<open>The best candidate so far\<close>

text \<open>
  Claim C6. In an iteration with score \<open>metric\<close>, \<open>bestDiff\<close> and \<open>bestQuality\<close> change
  only when \<open>|target - metric|\<close> is strictly smaller than \<open>bestDiff\<close>, and then they become
  that difference and the quality just tried; on a tie or a larger difference both stay.
  So \<open>bestDiff\<close> never increases: along the states of a whole search, from any start, it
  is non-increasing.
\<close>

theorem best_only_improves:
  fixes env :: "('img, 'gray) collaborators"
  assumes "(jpeg_body env cfg original originalGray buf metaSize s = Inr s'
            \<and> jpeg_score env cfg original originalGray s = Some metric)
         \<or> (webp_body env cfg original originalGray s = Inr s'
            \<and> webp_score env cfg original originalGray s = Some metric)"
  shows "bestDiff s' \<le> bestDiff s
    \<and> (if \<bar>target cfg - metric\<bar> < bestDiff s
        then bestDiff s' = \<bar>target cfg - metric\<bar> \<and> bestQuality s' = trialQuality s
        else bestDiff s' = bestDiff s \<and> bestQuality s' = bestQuality s)
    \<and> sorted_wrt (\<lambda>a b. bestDiff b \<le> bestDiff a)
         (s0 # jpeg_visited env cfg original originalGray buf metaSize s0)
    \<and> sorted_wrt (\<lambda>a b. bestDiff b \<le> bestDiff a)
         (s0 # webp_visited env cfg original originalGray s0)"
proof -
  have step: "bestDiff s' = (if \<bar>target cfg - metric\<bar> < bestDiff s then \<bar>target cfg - metric\<bar> else bestDiff s)
      \<and> bestQuality s' = (if \<bar>target cfg - metric\<bar> < bestDiff s then trialQuality s else bestQuality s)"
    using assms
  proof (elim disjE conjE)
    assume "jpeg_body env cfg original originalGray buf metaSize s = Inr s'"
      and "jpeg_score env cfg original originalGray s = Some metric"
    then show ?thesis by (simp add: jpeg_body_best)
  next
    assume "webp_body env cfg original originalGray s = Inr s'"
      and "webp_score env cfg original originalGray s = Some metric"
    then show ?thesis by (simp add: webp_body_best)
  qed
  have j: "sorted_wrt (\<lambda>a b. bestDiff b \<le> bestDiff a)
         (s0 # jpeg_visited env cfg original originalGray buf metaSize s0)"
    using jpeg_visited_bestDiff [of env cfg original originalGray buf metaSize s0] by simp
  have w: "sorted_wrt (\<lambda>a b. bestDiff b \<le> bestDiff a)
         (s0 # webp_visited env cfg original originalGray s0)"
    using webp_visited_bestDiff [of env cfg original originalGray s0] by simp
  from step j w show ?thesis by simp
qed

theorem best_only_improves_witness:
  "bestDiff \<lparr>attempt = 2, quality = 50, minQ = 1, maxQ = 49, bestDiff = 3 / 10,
      bestQuality = 50, compressed = Some [0xFF, 0xD8, 0xFF, 0xE0, 0, 2, 50, 0],
      totalSize = 41\<rparr> \<le> bestDiff (init_state demo_cfg_fifth)
   \<and> \<bar>target demo_cfg_fifth - 1 / 2\<bar> < bestDiff (init_state demo_cfg_fifth)
   \<and> sorted_wrt (\<lambda>a b. bestDiff b \<le> bestDiff a)
        (init_state demo_cfg_fifth
         # jpeg_visited demo_env demo_cfg_fifth 100 100 (demo_ppm 98) 0 (init_state demo_cfg_fifth))
   \<and> sorted_wrt (\<lambda>a b. bestDiff b \<le> bestDiff a)
        (init_state demo_cfg_fifth
         # webp_visited demo_env demo_cfg_fifth 100 100 (init_state demo_cfg_fifth))"
proof -
  have b: "jpeg_body demo_env demo_cfg_fifth 100 100 (demo_ppm 98) 0 (init_state demo_cfg_fifth)
      = Inr \<lparr>attempt = 2, quality = 50, minQ = 1, maxQ = 49, bestDiff = 3 / 10,
          bestQuality = 50, compressed = Some [0xFF, 0xD8, 0xFF, 0xE0, 0, 2, 50, 0],
          totalSize = 41\<rparr>"
    by (simp add: demo_cfg_fifth_def demo_run_defs)
  have sc: "jpeg_score demo_env demo_cfg_fifth 100 100 (init_state demo_cfg_fifth) = Some (1 / 2)"
    by (simp add: demo_cfg_fifth_def demo_run_defs)
  have d: "\<bar>target demo_cfg_fifth - 1 / 2\<bar> < bestDiff (init_state demo_cfg_fifth)"
    by (simp add: demo_cfg_fifth_def demo_defs)
  from best_only_improves [OF disjI1 [OF conjI [OF b sc]], of "init_state demo_cfg_fifth"] d
  show ?thesis by simp
qed

section \<open>Which candidate is written\<close>

text \<open>
  Claim C1, as amended. When either loop is left after at least one iteration, the
  candidate it holds, which is the one the output stage writes, is the one encoded in
  the last executed iteration, at that iteration's \<open>quality\<close>. With \<open>sl\<close> the variables
  at the head of that iteration and \<open>metric\<close> its score, \<open>bestQuality\<close> is that quality
  if the iteration scored strictly closer to the target than \<open>bestDiff\<close> of \<open>sl\<close>, and
  otherwise it is \<open>bestQuality\<close> of \<open>sl\<close>, the value it had at the head of the iteration.
  So the written candidate is encoded at \<open>bestQuality\<close> exactly when the last iteration
  improved on all before it or tried \<open>bestQuality\<close> again.
\<close>

theorem emitted_candidate_is_last_trial:
  fixes env :: "('img, 'gray) collaborators"
  assumes "1 \<le> attempts cfg"
    and "jsl = jpeg_lastHead env cfg original originalGray buf metaSize (init_state cfg)"
    and "wsl = webp_lastHead env cfg original originalGray (init_state cfg)"
  shows "(jpeg_search env cfg original originalGray buf metaSize (init_state cfg) = Inr s \<longrightarrow>
           (\<exists>metric. jpeg_score env cfg original originalGray jsl = Some metric
              \<and> jpeg_body env cfg original originalGray buf metaSize jsl
                  = Inr (last (jpeg_visited env cfg original originalGray buf metaSize
                                 (init_state cfg)))
              \<and> s = (last (jpeg_visited env cfg original originalGray buf metaSize
                              (init_state cfg)))\<lparr>attempt := - 1\<rparr>
              \<and> quality s = trialQuality jsl
              \<and> compressed s = Some (jpeg_candidate env cfg original jsl)
              \<and> jpeg_encodedAt env cfg original (quality s) (compressed s)
              \<and> bestQuality s = (if \<bar>target cfg - metric\<bar> < bestDiff jsl then quality s
                                  else bestQuality jsl)
              \<and> (bestQuality s = quality s)
                  = (\<bar>target cfg - metric\<bar> < bestDiff jsl \<or> trialQuality jsl = bestQuality jsl)))
       \<and> (webp_search env cfg original originalGray (init_state cfg) = Inr s \<longrightarrow>
           (\<exists>metric. webp_score env cfg original originalGray wsl = Some metric
              \<and> webp_body env cfg original originalGray wsl
                  = Inr (last (webp_visited env cfg original originalGray (init_state cfg)))
              \<and> s = (last (webp_visited env cfg original originalGray
                              (init_state cfg)))\<lparr>attempt := - 1\<rparr>
              \<and> quality s = trialQuality wsl
              \<and> compressed s = WebPEncode env original (quality s)
              \<and> webp_encodedAt env original (quality s) (compressed s)
              \<and> bestQuality s = (if \<bar>target cfg - metric\<bar> < bestDiff wsl then quality s
                                  else bestQuality wsl)
              \<and> (bestQuality s = quality s)
                  = (\<bar>target cfg - metric\<bar> < bestDiff wsl \<or> trialQuality wsl = bestQuality wsl)))"
proof (intro conjI impI)
  have a: "0 \<le> attempt (init_state cfg)"
    using assms(1) by (simp add: init_state_def)
  {
    assume f: "jpeg_search env cfg original originalGray buf metaSize (init_state cfg) = Inr s"
    let ?l = "last (jpeg_visited env cfg original originalGray buf metaSize (init_state cfg))"
    from jpeg_search_exit [OF f a assms(2)] obtain metric where
      sc: "jpeg_score env cfg original originalGray jsl = Some metric"
      and b: "jpeg_body env cfg original originalGray buf metaSize jsl = Inr ?l"
      and s: "s = ?l\<lparr>attempt := - 1\<rparr>"
      and q: "quality s = trialQuality jsl"
      and c: "compressed s = Some (jpeg_candidate env cfg original jsl)"
      and bq: "bestQuality s = (if \<bar>target cfg - metric\<bar> < bestDiff jsl then trialQuality jsl
                                else bestQuality jsl)"
      by blast
    have e: "jpeg_encodedAt env cfg original (quality s) (compressed s)"
      using jpeg_candidate_encodedAt [of env cfg original jsl] q c by simp
    have bq1: "bestQuality s = (if \<bar>target cfg - metric\<bar> < bestDiff jsl then quality s
                                else bestQuality jsl)"
      using bq q by simp
    have bq2: "(bestQuality s = quality s)
        = (\<bar>target cfg - metric\<bar> < bestDiff jsl \<or> trialQuality jsl = bestQuality jsl)"
      using bq q by auto
    show "\<exists>metric. jpeg_score env cfg original originalGray jsl = Some metric
              \<and> jpeg_body env cfg original originalGray buf metaSize jsl = Inr ?l
              \<and> s = ?l\<lparr>attempt := - 1\<rparr>
              \<and> quality s = trialQuality jsl
              \<and> compressed s = Some (jpeg_candidate env cfg original jsl)
              \<and> jpeg_encodedAt env cfg original (quality s) (compressed s)
              \<and> bestQuality s = (if \<bar>target cfg - metric\<bar> < bestDiff jsl then quality s
                                  else bestQuality jsl)
              \<and> (bestQuality s = quality s)
                  = (\<bar>target cfg - metric\<bar> < bestDiff jsl \<or> trialQuality jsl = bestQuality jsl)"
      using sc b s q c e bq1 bq2 by (intro exI [of _ metric] conjI)
  }
  {
    assume f: "webp_search env cfg original originalGray (init_state cfg) = Inr s"
    let ?l = "last (webp_visited env cfg original originalGray (init_state cfg))"
    from webp_search_exit [OF f a assms(3)] obtain metric where
      sc: "webp_score env cfg original originalGray wsl = Some metric"
      and b: "webp_body env cfg original originalGray wsl = Inr ?l"
      and s: "s = ?l\<lparr>attempt := - 1\<rparr>"
      and q: "quality s = trialQuality wsl"
      and c: "compressed s = WebPEncode env original (trialQuality wsl)"
      and cn: "compressed s \<noteq> None"
      and bq: "bestQuality s = (if \<bar>target cfg - metric\<bar> < bestDiff wsl then trialQuality wsl
                                else bestQuality wsl)"
      by blast
    have c1: "compressed s = WebPEncode env original (quality s)"
      using c q by simp
    have e: "webp_encodedAt env original (quality s) (compressed s)"
      using c1 cn by (simp add: webp_encodedAt_def)
    have bq1: "bestQuality s = (if \<bar>target cfg - metric\<bar> < bestDiff wsl then quality s
                                else bestQuality wsl)"
      using bq q by simp
    have bq2: "(bestQuality s = quality s)
        = (\<bar>target cfg - metric\<bar> < bestDiff wsl \<or> trialQuality wsl = bestQuality wsl)"
      using bq q by auto
    show "\<exists>metric. webp_score env cfg original originalGray wsl = Some metric
              \<and> webp_body env cfg original originalGray wsl = Inr ?l
              \<and> s = ?l\<lparr>attempt := - 1\<rparr>
              \<and> quality s = trialQuality wsl
              \<and> compressed s = WebPEncode env original (quality s)
              \<and> webp_encodedAt env original (quality s) (compressed s)
              \<and> bestQuality s = (if \<bar>target cfg - metric\<bar> < bestDiff wsl then quality s
                                  else bestQuality wsl)
              \<and> (bestQuality s = quality s)
                  = (\<bar>target cfg - metric\<bar> < bestDiff wsl \<or> trialQuality wsl = bestQuality wsl)"
      using sc b s q c1 e bq1 bq2 by (intro exI [of _ metric] conjI)
  }
qed

text \<open>The theorem at work on the two searches under \<open>demo_cfg_narrow\<close>: the last
  iteration starts with \<open>bestQuality = 2\<close> and \<open>bestDiff = 0\<close>, tries quality 1 and scores
  0.01; the loop is left with the candidate of quality 1 and \<open>bestQuality = 2\<close>.\<close>

theorem emitted_candidate_is_last_trial_witness:
  "1 \<le> attempts demo_cfg_narrow
   \<and> jpeg_search demo_env demo_cfg_narrow 100 100 (demo_ppm 98) 0 (init_state demo_cfg_narrow)
       = Inr demo_narrow_exit_jpeg
   \<and> jpeg_lastHead demo_env demo_cfg_narrow 100 100 (demo_ppm 98) 0 (init_state demo_cfg_narrow)
       = demo_narrow_head_jpeg
   \<and> jpeg_score demo_env demo_cfg_narrow 100 100 demo_narrow_head_jpeg = Some (1 / 100)
   \<and> quality demo_narrow_exit_jpeg = trialQuality demo_narrow_head_jpeg
   \<and> compressed demo_narrow_exit_jpeg
       = Some (jpeg_candidate demo_env demo_cfg_narrow 100 demo_narrow_head_jpeg)
   \<and> bestQuality demo_narrow_exit_jpeg = bestQuality demo_narrow_head_jpeg
   \<and> bestQuality demo_narrow_exit_jpeg \<noteq> quality demo_narrow_exit_jpeg
   \<and> webp_search demo_env demo_cfg_narrow 100 100 (init_state demo_cfg_narrow)
       = Inr demo_narrow_exit_webp
   \<and> webp_lastHead demo_env demo_cfg_narrow 100 100 (init_state demo_cfg_narrow)
       = demo_narrow_head_webp
   \<and> webp_score demo_env demo_cfg_narrow 100 100 demo_narrow_head_webp = Some (1 / 100)
   \<and> quality demo_narrow_exit_webp = trialQuality demo_narrow_head_webp
   \<and> compressed demo_narrow_exit_webp = WebPEncode demo_env 100 (quality demo_narrow_exit_webp)
   \<and> bestQuality demo_narrow_exit_webp = bestQuality demo_narrow_head_webp
   \<and> bestQuality demo_narrow_exit_webp \<noteq> quality demo_narrow_exit_webp"
proof -
  have h: "1 \<le> attempts demo_cfg_narrow"
    by (simp add: demo_cfg_narrow_def defaults_def)
  have jh: "demo_narrow_head_jpeg
      = jpeg_lastHead demo_env demo_cfg_narrow 100 100 (demo_ppm 98) 0 (init_state demo_cfg_narrow)"
    by (simp add: jpeg_lastHead_def lastHead_def jpeg_visited.simps demo_cfg_narrow_def
        demo_narrow_head_jpeg_def demo_run_defs)
  have wh: "demo_narrow_head_webp
      = webp_lastHead demo_env demo_cfg_narrow 100 100 (init_state demo_cfg_narrow)"
    by (simp add: webp_lastHead_def lastHead_def webp_visited.simps demo_cfg_narrow_def
        demo_narrow_head_webp_def demo_run_defs)
  have js: "jpeg_score demo_env demo_cfg_narrow 100 100 demo_narrow_head_jpeg = Some (1 / 100)"
    by (simp add: demo_narrow_head_jpeg_def demo_cfg_narrow_def demo_run_defs)
  have ws: "webp_score demo_env demo_cfg_narrow 100 100 demo_narrow_head_webp = Some (1 / 100)"
    by (simp add: demo_narrow_head_webp_def demo_cfg_narrow_def demo_run_defs)
  have nj: "(\<bar>target demo_cfg_narrow - 1 / 100\<bar> < bestDiff demo_narrow_head_jpeg) = False"
    "(trialQuality demo_narrow_head_jpeg = bestQuality demo_narrow_head_jpeg) = False"
    by (simp_all add: demo_narrow_head_jpeg_def demo_cfg_narrow_def trialQuality_def defaults_def)
  have nw: "(\<bar>target demo_cfg_narrow - 1 / 100\<bar> < bestDiff demo_narrow_head_webp) = False"
    "(trialQuality demo_narrow_head_webp = bestQuality demo_narrow_head_webp) = False"
    by (simp_all add: demo_narrow_head_webp_def demo_cfg_narrow_def trialQuality_def defaults_def)
  note t = emitted_candidate_is_last_trial [OF h jh wh]
  from t [of demo_narrow_exit_jpeg, THEN conjunct1, THEN mp, OF demo_narrow_jpeg]
  obtain mj where
    j1: "jpeg_score demo_env demo_cfg_narrow 100 100 demo_narrow_head_jpeg = Some mj"
    and j2: "quality demo_narrow_exit_jpeg = trialQuality demo_narrow_head_jpeg"
    and j3: "compressed demo_narrow_exit_jpeg
          = Some (jpeg_candidate demo_env demo_cfg_narrow 100 demo_narrow_head_jpeg)"
    and j4: "bestQuality demo_narrow_exit_jpeg
          = (if \<bar>target demo_cfg_narrow - mj\<bar> < bestDiff demo_narrow_head_jpeg
             then quality demo_narrow_exit_jpeg else bestQuality demo_narrow_head_jpeg)"
    and j5: "(bestQuality demo_narrow_exit_jpeg = quality demo_narrow_exit_jpeg)
          = (\<bar>target demo_cfg_narrow - mj\<bar> < bestDiff demo_narrow_head_jpeg
             \<or> trialQuality demo_narrow_head_jpeg = bestQuality demo_narrow_head_jpeg)"
    by (elim exE conjE)
  from j1 js have mj: "mj = 1 / 100" by simp
  have j6: "bestQuality demo_narrow_exit_jpeg = bestQuality demo_narrow_head_jpeg"
    using j4 unfolding mj nj by simp
  have j7: "bestQuality demo_narrow_exit_jpeg \<noteq> quality demo_narrow_exit_jpeg"
    using j5 unfolding mj nj by simp
  from t [of demo_narrow_exit_webp, THEN conjunct2, THEN mp, OF demo_narrow_webp]
  obtain mw where
    w1: "webp_score demo_env demo_cfg_narrow 100 100 demo_narrow_head_webp = Some mw"
    and w2: "quality demo_narrow_exit_webp = trialQuality demo_narrow_head_webp"
    and w3: "compressed demo_narrow_exit_webp
          = WebPEncode demo_env 100 (quality demo_narrow_exit_webp)"
    and w4: "bestQuality demo_narrow_exit_webp
          = (if \<bar>target demo_cfg_narrow - mw\<bar> < bestDiff demo_narrow_head_webp
             then quality demo_narrow_exit_webp else bestQuality demo_narrow_head_webp)"
    and w5: "(bestQuality demo_narrow_exit_webp = quality demo_narrow_exit_webp)
          = (\<bar>target demo_cfg_narrow - mw\<bar> < bestDiff demo_narrow_head_webp
             \<or> trialQuality demo_narrow_head_webp = bestQuality demo_narrow_head_webp)"
    by (elim exE conjE)
  from w1 ws have mw: "mw = 1 / 100" by simp
  have w6: "bestQuality demo_narrow_exit_webp = bestQuality demo_narrow_head_webp"
    using w4 unfolding mw nw by simp
  have w7: "bestQuality demo_narrow_exit_webp \<noteq> quality demo_narrow_exit_webp"
    using w5 unfolding mw nw by simp
  show ?thesis
    by (intro conjI h demo_narrow_jpeg jh [symmetric] js j2 j3 j6 j7
        demo_narrow_webp wh [symmetric] ws w2 w3 w6 w7)
qed

text \<open>Claim C1 as stated fails. With bounds 1 to 3 and target 0.02 the first iteration
  tries quality 2 and scores exactly the target, so \<open>bestQuality = 2\<close>; the interval
  collapses to 1, the final iteration encodes at quality 1 and scores worse. Both programs
  write the bytes encoded at quality 1, which are not bytes encoded at \<open>bestQuality\<close>.\<close>

theorem emitted_candidate_counterexample:
  "jpeg_search demo_env demo_cfg_narrow 100 100 (demo_ppm 98) 0 (init_state demo_cfg_narrow)
     = Inr demo_narrow_exit_jpeg
   \<and> bestQuality demo_narrow_exit_jpeg = 2
   \<and> compressed demo_narrow_exit_jpeg = Some [0xFF, 0xD8, 0xFF, 0xE0, 0, 2, 1, 3]
   \<and> \<not> jpeg_encodedAt demo_env demo_cfg_narrow 100 2 (Some [0xFF, 0xD8, 0xFF, 0xE0, 0, 2, 1, 3])
   \<and> jpeg_run demo_env demo_cfg_narrow 2 (demo_ppm 98)
     = Exit 0 (Some ([0xFF, 0xD8, 0xFF, 0xE0, 0, 2] @ comment_segment @ [1, 3]))
   \<and> webp_search demo_env demo_cfg_narrow 100 100 (init_state demo_cfg_narrow)
     = Inr demo_narrow_exit_webp
   \<and> bestQuality demo_narrow_exit_webp = 2
   \<and> compressed demo_narrow_exit_webp = Some [1, 0x57]
   \<and> \<not> webp_encodedAt demo_env 100 2 (Some [1, 0x57])
   \<and> webp_run demo_env demo_cfg_narrow 2 (demo_ppm 98) = Exit 0 (Some [1, 0x57])"
proof -
  have "\<not> jpeg_encodedAt demo_env demo_cfg_narrow 100 2 (Some [0xFF, 0xD8, 0xFF, 0xE0, 0, 2, 1, 3])"
    by (simp add: jpeg_encodedAt_def demo_env_def demo_encodeJpeg_def)
  moreover have "\<not> webp_encodedAt demo_env 100 2 (Some [1, 0x57])"
    by (simp add: webp_encodedAt_def demo_env_def)
  ultimately show ?thesis
    using demo_narrow_jpeg demo_narrow_webp demo_narrow_run_jpeg demo_narrow_run_webp
    by (simp add: demo_narrow_exit_jpeg_def demo_narrow_exit_webp_def)
qed

section \<open>The size test\<close>

text \<open>
  Claim C2, as amended. In jpeg-recompress.c the size test stands inside the search loop,
  in the branch \<open>metric < target\<close>: in every iteration whose score is below the target,
  with \<open>totalSize\<close> = size of that iteration's candidate + 33 + size of the kept metadata,
  \<open>totalSize + 10 >= bufSize\<close> ends the run at once, with exit status 0 and the input bytes
  as output when copying is enabled, and with exit status 1 and no output otherwise. An
  iteration that scores at or above the target passes no size test in the loop.
  archive2webp.c has no size test. Its loop body does not depend on the input bytes and
  every iteration whose candidate is scored runs to the end of the body. Once the input
  is decoded and imported, the run is the search followed by the write of the candidate
  the search holds: if the search is left through the loop test with a non-empty
  candidate, the run exits with status 0 and has written that candidate, whatever the
  sizes of the candidate and of the input.
\<close>

theorem size_test_inside_loop:
  fixes env :: "('img, 'gray) collaborators"
  shows "(0 \<le> attempt s \<and> jpeg_score env cfg original originalGray s = Some metric
          \<and> metric < target cfg \<and> buf \<noteq> []
          \<and> length buf \<le> length (jpeg_candidate env cfg original s) + metaSizeCOM + metaSize + minDelta
          \<longrightarrow> jpeg_search env cfg original originalGray buf metaSize s =
                Inl (if copyFiles cfg then Exit 0 (Some buf) else Exit 1 None))
       \<and> (jpeg_score env cfg original originalGray s = Some metric \<and> \<not> metric < target cfg
          \<longrightarrow> (\<exists>s'. jpeg_body env cfg original originalGray buf metaSize s = Inr s'))
       \<and> (webp_score env cfg original originalGray s = Some metric
          \<longrightarrow> (\<exists>s'. webp_body env cfg original originalGray s = Inr s'))
       \<and> (nargs = 2 \<and> cmp_method cfg \<noteq> UNKNOWN \<and> qMin cfg \<le> qMax cfg
          \<and> WebPConfigPreset env \<and> WebPPictureInit env \<and> buf \<noteq> []
          \<and> decodeFileFromBuffer env buf (resolveFiletype env cfg buf) = Some decoded
          \<and> WebPPictureImportRGB env (applyDefish env cfg decoded)
          \<and> grayscale env (applyDefish env cfg decoded) = Some gray
          \<longrightarrow> webp_run env cfg nargs buf =
                (case webp_search env (webp_resolveTarget cfg) (applyDefish env cfg decoded) gray
                        (init_state (webp_resolveTarget cfg)) of
                   Inl e \<Rightarrow> Exit 1 None
                 | Inr s' \<Rightarrow>
                     (case compressed s' of
                        None \<Rightarrow> Exit 1 (Some [])
                      | Some w \<Rightarrow> if w = [] then Exit 1 (Some []) else Exit 0 (Some w))))"
proof (intro conjI impI)
  assume h: "0 \<le> attempt s \<and> jpeg_score env cfg original originalGray s = Some metric
          \<and> metric < target cfg \<and> buf \<noteq> []
          \<and> length buf \<le> length (jpeg_candidate env cfg original s) + metaSizeCOM + metaSize + minDelta"
  then have "jpeg_body env cfg original originalGray buf metaSize s =
           Inl (if copyFiles cfg then Exit 0 (Some (snd (copyFile buf))) else Exit 1 None)"
    using jpeg_body_guard [of env cfg original originalGray s metric buf metaSize] by simp
  moreover have "snd (copyFile buf) = buf"
    using h by (simp add: copyFile_def)
  ultimately show "jpeg_search env cfg original originalGray buf metaSize s =
                Inl (if copyFiles cfg then Exit 0 (Some buf) else Exit 1 None)"
    using h by (subst jpeg_search.simps) simp
next
  assume "jpeg_score env cfg original originalGray s = Some metric \<and> \<not> metric < target cfg"
  then show "\<exists>s'. jpeg_body env cfg original originalGray buf metaSize s = Inr s'"
    using jpeg_body_no_guard [of env cfg original originalGray s metric buf metaSize] by simp
next
  assume "webp_score env cfg original originalGray s = Some metric"
  from webp_body_cases [OF this]
  show "\<exists>s'. webp_body env cfg original originalGray s = Inr s'" by blast
next
  assume h: "nargs = 2 \<and> cmp_method cfg \<noteq> UNKNOWN \<and> qMin cfg \<le> qMax cfg
          \<and> WebPConfigPreset env \<and> WebPPictureInit env \<and> buf \<noteq> []
          \<and> decodeFileFromBuffer env buf (resolveFiletype env cfg buf) = Some decoded
          \<and> WebPPictureImportRGB env (applyDefish env cfg decoded)
          \<and> grayscale env (applyDefish env cfg decoded) = Some gray"
  let ?search = "webp_search env (webp_resolveTarget cfg) (applyDefish env cfg decoded) gray
                        (init_state (webp_resolveTarget cfg))"
  have r: "webp_run env cfg nargs buf = (case ?search of Inl e \<Rightarrow> e | Inr s \<Rightarrow> webp_finish s)"
    using h by (intro webp_run_eq) simp_all
  show "webp_run env cfg nargs buf =
                (case ?search of
                   Inl e \<Rightarrow> Exit 1 None
                 | Inr s' \<Rightarrow>
                     (case compressed s' of
                        None \<Rightarrow> Exit 1 (Some [])
                      | Some w \<Rightarrow> if w = [] then Exit 1 (Some []) else Exit 0 (Some w)))"
  proof (cases ?search)
    case (Inl e)
    from webp_search_Inl [OF Inl] Inl r show ?thesis by simp
  next
    case (Inr s')
    with r show ?thesis
      by (simp add: webp_finish_def Let_def split: option.splits)
  qed
qed

text \<open>The theorem at work. A PPM input of 50 bytes with the default options of
  jpeg-recompress.c (target 0.9999 from the preset): the first candidate scores 0.5 and
  its 8 + 33 + 10 bytes are not below 50, so the input is copied. With a target of 0.005
  the same candidate is at or above the target and passes. archive2webp.c on a PPM input
  of 2 bytes under \<open>demo_cfg_narrow\<close>: the search holds a candidate of 2 bytes, not
  smaller than the input, and the run writes it and exits with status 0.\<close>

theorem size_test_inside_loop_witness:
  "jpeg_search demo_env (jpeg_resolveTarget defaults) 50 50 (demo_ppm 48) 0
      (init_state (jpeg_resolveTarget defaults)) = Inl (Exit 0 (Some (demo_ppm 48)))
   \<and> (\<exists>s'. jpeg_body demo_env demo_cfg_once 50 50 (demo_ppm 48) 0 (init_state demo_cfg_once) = Inr s')
   \<and> (\<exists>s'. webp_body demo_env demo_cfg_once 50 50 (init_state demo_cfg_once) = Inr s')
   \<and> length (demo_ppm 0) = 2
   \<and> webp_search demo_env (webp_resolveTarget demo_cfg_narrow) 2 2
       (init_state (webp_resolveTarget demo_cfg_narrow))
     = Inr \<lparr>attempt = - 1, quality = 1, minQ = 1, maxQ = 1, bestDiff = 0, bestQuality = 2,
            compressed = Some [1, 0x57], totalSize = 0\<rparr>
   \<and> webp_run demo_env demo_cfg_narrow 2 (demo_ppm 0) = Exit 0 (Some [1, 0x57])"
proof -
  let ?cfg = "jpeg_resolveTarget defaults"
  let ?x = "\<lparr>attempt = - 1, quality = 1, minQ = 1, maxQ = 1, bestDiff = 0, bestQuality = 2,
            compressed = Some [1, 0x57 :: byte], totalSize = 0\<rparr>"
  have c: "copyFiles ?cfg" "target ?cfg = 0.9999"
    by (simp_all add: jpeg_resolveTarget_def jpeg_setTargetFromPreset_def defaults_def)
  have 1: "0 \<le> attempt (init_state ?cfg)
      \<and> jpeg_score demo_env ?cfg 50 50 (init_state ?cfg) = Some (1 / 2)
      \<and> 1 / 2 < target ?cfg \<and> demo_ppm 48 \<noteq> []
      \<and> length (demo_ppm 48)
          \<le> length (jpeg_candidate demo_env ?cfg 50 (init_state ?cfg)) + metaSizeCOM + 0 + minDelta"
    by (simp add: jpeg_resolveTarget_def jpeg_setTargetFromPreset_def demo_run_defs)
  have 2: "jpeg_score demo_env demo_cfg_once 50 50 (init_state demo_cfg_once) = Some (1 / 2)
      \<and> \<not> 1 / 2 < target demo_cfg_once"
    by (simp add: demo_cfg_once_def demo_run_defs)
  have 3: "webp_score demo_env demo_cfg_once 50 50 (init_state demo_cfg_once) = Some (1 / 2)"
    by (simp add: demo_cfg_once_def demo_run_defs)
  have 4: "(2 :: nat) = 2 \<and> cmp_method demo_cfg_narrow \<noteq> UNKNOWN
      \<and> qMin demo_cfg_narrow \<le> qMax demo_cfg_narrow
      \<and> WebPConfigPreset demo_env \<and> WebPPictureInit demo_env \<and> demo_ppm 0 \<noteq> []
      \<and> decodeFileFromBuffer demo_env (demo_ppm 0)
          (resolveFiletype demo_env demo_cfg_narrow (demo_ppm 0)) = Some 2
      \<and> WebPPictureImportRGB demo_env (applyDefish demo_env demo_cfg_narrow 2)
      \<and> grayscale demo_env (applyDefish demo_env demo_cfg_narrow 2) = Some 2"
    by (simp add: demo_cfg_narrow_def resolveFiletype_def applyDefish_def demo_defs)
  have d: "applyDefish demo_env demo_cfg_narrow 2 = 2"
    by (simp add: demo_cfg_narrow_def applyDefish_def demo_defs)
  have f: "webp_search demo_env (webp_resolveTarget demo_cfg_narrow) 2 2
       (init_state (webp_resolveTarget demo_cfg_narrow)) = Inr ?x"
    by (simp add: webp_search.simps webp_resolveTarget_def demo_cfg_narrow_def demo_run_defs)
  have l: "length (demo_ppm 0) = 2"
    by (simp add: demo_ppm_def)
  note t = size_test_inside_loop
  have a: "jpeg_search demo_env ?cfg 50 50 (demo_ppm 48) 0 (init_state ?cfg)
      = Inl (Exit 0 (Some (demo_ppm 48)))"
    using t [of "init_state ?cfg" demo_env ?cfg 50 50 "1 / 2" "demo_ppm 48" 0,
        THEN conjunct1, THEN mp, OF 1] c
    by simp
  have b: "\<exists>s'. jpeg_body demo_env demo_cfg_once 50 50 (demo_ppm 48) 0 (init_state demo_cfg_once) = Inr s'"
    by (rule t [of "init_state demo_cfg_once" demo_env demo_cfg_once 50 50 "1 / 2" "demo_ppm 48" 0,
        THEN conjunct2, THEN conjunct1, THEN mp, OF 2])
  have e: "\<exists>s'. webp_body demo_env demo_cfg_once 50 50 (init_state demo_cfg_once) = Inr s'"
    by (rule t [of "init_state demo_cfg_once" demo_env demo_cfg_once 50 50 "1 / 2" "demo_ppm 48" 0,
        THEN conjunct2, THEN conjunct2, THEN conjunct1, THEN mp, OF 3])
  have g: "webp_run demo_env demo_cfg_narrow 2 (demo_ppm 0) = Exit 0 (Some [1, 0x57])"
    using t [of _ demo_env demo_cfg_narrow _ _ _ "demo_ppm 0" _ 2 2 2,
        THEN conjunct2, THEN conjunct2, THEN conjunct2, THEN mp, OF 4]
    unfolding d f by simp
  from a b e l f g show ?thesis by (intro conjI)
qed

text \<open>Claim C2 as stated fails. With one attempt and target 0.005 the only candidate
  scores 0.5, at or above the target, so no size test is made in the loop; its
  \<open>totalSize\<close> is 41 and the input has 45 bytes, so \<open>totalSize + 10 >= bufSize\<close> holds and
  copying is enabled, but the run writes the assembled file, not the input.\<close>

theorem size_test_counterexample:
  "copyFiles demo_cfg_once
   \<and> jpeg_search demo_env demo_cfg_once 45 45 (demo_ppm 43) 0 (init_state demo_cfg_once)
     = Inr \<lparr>attempt = - 1, quality = 50, minQ = 1, maxQ = 49, bestDiff = 99 / 200,
            bestQuality = 50, compressed = Some [0xFF, 0xD8, 0xFF, 0xE0, 0, 2, 50, 3],
            totalSize = 41\<rparr>
   \<and> length (demo_ppm 43) \<le> 41 + minDelta
   \<and> jpeg_run demo_env demo_cfg_once 2 (demo_ppm 43)
     = Exit 0 (Some ([0xFF, 0xD8, 0xFF, 0xE0, 0, 2] @ comment_segment @ [50, 3]))
   \<and> [0xFF, 0xD8, 0xFF, 0xE0, 0, 2] @ comment_segment @ [50, 3] \<noteq> demo_ppm 43"
proof -
  have "jpeg_search demo_env demo_cfg_once 45 45 (demo_ppm 43) 0 (init_state demo_cfg_once)
     = Inr \<lparr>attempt = - 1, quality = 50, minQ = 1, maxQ = 49, bestDiff = 99 / 200,
            bestQuality = 50, compressed = Some [0xFF, 0xD8, 0xFF, 0xE0, 0, 2, 50, 3],
            totalSize = 41\<rparr>"
    by (simp add: jpeg_search.simps demo_cfg_once_def demo_run_defs)
  moreover have "jpeg_run demo_env demo_cfg_once 2 (demo_ppm 43)
     = Exit 0 (Some ([0xFF, 0xD8, 0xFF, 0xE0, 0, 2] @ comment_segment @ [50, 3]))"
    by (simp add: demo_main_defs jpeg_search.simps demo_cfg_once_def demo_run_defs)
  moreover have "copyFiles demo_cfg_once" "length (demo_ppm 43) \<le> 41 + minDelta"
    "[0xFF, 0xD8, 0xFF, 0xE0, 0, 2] @ comment_segment @ [50, 3] \<noteq> demo_ppm 43"
    by (simp_all add: demo_cfg_once_def defaults_def demo_ppm_def minDelta_def)
  ultimately show ?thesis by simp
qed

section \<open>The assembled file\<close>

text \<open>
  Claim C8, as amended. Every file that jpeg-recompress.c writes in a run that ends with
  exit status 0 and that is not a copy of the input has this layout: the start marker and
  the header segment, which are the first \<open>app0_lenP4\<close> bytes of the candidate encoded in
  the last iteration of the search on the decoded input, a candidate that
  \<open>checkJpegMagic\<close> accepts; then the comment segment FF FE 00 1F with the signature text;
  then the kept metadata; then the rest of the candidate. The kept metadata is what
  \<open>getMetadata\<close> delivered for a JPEG input, and nothing in strip mode or for another
  input. With \<open>getMetadata\<close> as modelled from the spec, it is every byte of the tag
  blocks of the input, which are consecutive ranges of the input, in their order.
\<close>

theorem assembled_file_layout:
  fixes env :: "('img, 'gray) collaborators"
  assumes "jpeg_run env cfg nargs buf = Exit 0 (Some out)" and "out \<noteq> buf"
  shows "\<exists>decoded originalGray s c.
      decodeFileFromBuffer env buf (resolveFiletype env cfg buf) = Some decoded
      \<and> grayscale env (applyDefish env cfg decoded) = Some originalGray
      \<and> jpeg_search env (jpeg_resolveTarget cfg) (applyDefish env cfg decoded) originalGray buf
          (length (jpeg_preserved env cfg buf)) (init_state (jpeg_resolveTarget cfg)) = Inr s
      \<and> compressed s = Some c
      \<and> c = jpeg_candidate env (jpeg_resolveTarget cfg) (applyDefish env cfg decoded)
            (jpeg_lastHead env (jpeg_resolveTarget cfg) (applyDefish env cfg decoded)
               originalGray buf (length (jpeg_preserved env cfg buf))
               (init_state (jpeg_resolveTarget cfg)))
      \<and> jpeg_layout env c (jpeg_preserved env cfg buf) out
      \<and> (getMetadata env = getMetadata_spec nullWhenEmpty \<longrightarrow>
           jpeg_preserved env cfg buf
             = (if strip cfg \<or> resolveFiletype env cfg buf \<noteq> FILETYPE_JPEG then []
                else concat (filter isTagBlock (segmentsOf (drop 2 buf))))
           \<and> (\<exists>rest. drop 2 buf = concat (segmentsOf (drop 2 buf)) @ rest))"
proof -
  from jpeg_run_assembled [OF assms] obtain decoded originalGray s c where
    a: "decodeFileFromBuffer env buf (resolveFiletype env cfg buf) = Some decoded"
    "grayscale env (applyDefish env cfg decoded) = Some originalGray"
    "jpeg_search env (jpeg_resolveTarget cfg) (applyDefish env cfg decoded) originalGray buf
          (length (jpeg_preserved env cfg buf)) (init_state (jpeg_resolveTarget cfg)) = Inr s"
    "compressed s = Some c"
    "c = jpeg_candidate env (jpeg_resolveTarget cfg) (applyDefish env cfg decoded)
            (jpeg_lastHead env (jpeg_resolveTarget cfg) (applyDefish env cfg decoded)
               originalGray buf (length (jpeg_preserved env cfg buf))
               (init_state (jpeg_resolveTarget cfg)))"
    "jpeg_layout env c (jpeg_preserved env cfg buf) out"
    by blast
  have m: "getMetadata env = getMetadata_spec nullWhenEmpty \<longrightarrow>
           jpeg_preserved env cfg buf
             = (if strip cfg \<or> resolveFiletype env cfg buf \<noteq> FILETYPE_JPEG then []
                else concat (filter isTagBlock (segmentsOf (drop 2 buf))))
           \<and> (\<exists>rest. drop 2 buf = concat (segmentsOf (drop 2 buf)) @ rest)"
    using jpeg_preserved_spec [of env nullWhenEmpty cfg buf] segmentsOf_pieces [of "drop 2 buf"]
    by (simp add: auxiliaryData_def)
  from a m show ?thesis by blast
qed

text \<open>The theorem at work on the JPEG input \<open>demo_jpeg 86\<close> of 100 bytes under
  \<open>demo_cfg_narrow\<close>: the file written holds the header of the candidate of quality 1,
  the comment segment, the tag block of the input and the two bytes of the candidate's
  body.\<close>

theorem assembled_file_layout_witness:
  "jpeg_run demo_env_spec demo_cfg_narrow 2 (demo_jpeg 86) = Exit 0 (Some demo_assembled)
   \<and> demo_assembled \<noteq> demo_jpeg 86
   \<and> jpeg_preserved demo_env_spec demo_cfg_narrow (demo_jpeg 86)
       = [0xFF, 0xE1, 0x00, 0x04, 0xAA, 0xBB]
   \<and> jpeg_layout demo_env_spec [0xFF, 0xD8, 0xFF, 0xE0, 0, 2, 1, 3]
       [0xFF, 0xE1, 0x00, 0x04, 0xAA, 0xBB] demo_assembled
   \<and> concat (filter isTagBlock (segmentsOf (drop 2 (demo_jpeg 86))))
       = [0xFF, 0xE1, 0x00, 0x04, 0xAA, 0xBB]"
proof -
  note md = demo_jpeg_metadata(1) [unfolded demo_jpeg_def COMMENT_jpeg_def, simplified]
  have r: "jpeg_run demo_env_spec demo_cfg_narrow 2 (demo_jpeg 86) = Exit 0 (Some demo_assembled)"
    by (simp add: demo_main_defs demo_env_spec_def md jpeg_search.simps demo_cfg_narrow_def
        demo_assembled_def demo_run_defs)
  have "length demo_assembled \<noteq> length (demo_jpeg 86)"
    by (simp add: demo_assembled_def demo_jpeg_def comment_segment_def bytes_of_def
        COMMENT_jpeg_def)
  then have n: "demo_assembled \<noteq> demo_jpeg 86"
    by auto
  have g: "getMetadata demo_env_spec = getMetadata_spec False"
    by (simp add: demo_env_spec_def)
  have ft: "resolveFiletype demo_env_spec demo_cfg_narrow (demo_jpeg 86) = FILETYPE_JPEG"
    "\<not> strip demo_cfg_narrow"
    by (simp_all add: resolveFiletype_def demo_env_spec_def demo_cfg_narrow_def demo_defs)
  have tb: "concat (filter isTagBlock (segmentsOf (drop 2 (demo_jpeg 86))))
       = [0xFF, 0xE1, 0x00, 0x04, 0xAA, 0xBB]"
    by (simp add: demo_jpeg_segments isTagBlock_def)
  have dec: "decodeFileFromBuffer demo_env_spec (demo_jpeg 86) FILETYPE_JPEG = Some 100"
    by (simp add: demo_env_spec_def demo_defs)
  have df: "applyDefish demo_env_spec demo_cfg_narrow 100 = 100"
    by (simp add: applyDefish_def demo_cfg_narrow_def demo_defs)
  have f: "jpeg_search demo_env_spec (jpeg_resolveTarget demo_cfg_narrow) 100 originalGray
        (demo_jpeg 86) 6 (init_state (jpeg_resolveTarget demo_cfg_narrow))
      = Inr \<lparr>attempt = - 1, quality = 1, minQ = 1, maxQ = 1, bestDiff = 0, bestQuality = 2,
             compressed = Some [0xFF, 0xD8, 0xFF, 0xE0, 0, 2, 1, 3], totalSize = 47\<rparr>"
    for originalGray
    by (simp add: jpeg_search.simps jpeg_resolveTarget_def demo_env_spec_def demo_cfg_narrow_def
        demo_run_defs)
  from assembled_file_layout [OF r n, of False] obtain decoded originalGray s c where
    a1: "decodeFileFromBuffer demo_env_spec (demo_jpeg 86)
          (resolveFiletype demo_env_spec demo_cfg_narrow (demo_jpeg 86)) = Some decoded"
    and a3: "jpeg_search demo_env_spec (jpeg_resolveTarget demo_cfg_narrow)
          (applyDefish demo_env_spec demo_cfg_narrow decoded) originalGray (demo_jpeg 86)
          (length (jpeg_preserved demo_env_spec demo_cfg_narrow (demo_jpeg 86)))
          (init_state (jpeg_resolveTarget demo_cfg_narrow)) = Inr s"
    and a4: "compressed s = Some c"
    and a6: "jpeg_layout demo_env_spec c
          (jpeg_preserved demo_env_spec demo_cfg_narrow (demo_jpeg 86)) demo_assembled"
    and a7: "getMetadata demo_env_spec = getMetadata_spec False \<longrightarrow>
           jpeg_preserved demo_env_spec demo_cfg_narrow (demo_jpeg 86)
             = (if strip demo_cfg_narrow
                   \<or> resolveFiletype demo_env_spec demo_cfg_narrow (demo_jpeg 86) \<noteq> FILETYPE_JPEG
                then [] else concat (filter isTagBlock (segmentsOf (drop 2 (demo_jpeg 86)))))
           \<and> (\<exists>rest. drop 2 (demo_jpeg 86) = concat (segmentsOf (drop 2 (demo_jpeg 86))) @ rest)"
    by (elim exE conjE)
  from a7 g ft tb
  have p: "jpeg_preserved demo_env_spec demo_cfg_narrow (demo_jpeg 86)
      = [0xFF, 0xE1, 0x00, 0x04, 0xAA, 0xBB]"
    by simp
  from a1 ft dec have d: "decoded = 100" by simp
  have len: "length [0xFF, 0xE1, 0x00, 0x04, 0xAA, 0xBB :: byte] = 6" by simp
  from a3 have "s = \<lparr>attempt = - 1, quality = 1, minQ = 1, maxQ = 1, bestDiff = 0,
       bestQuality = 2, compressed = Some [0xFF, 0xD8, 0xFF, 0xE0, 0, 2, 1, 3], totalSize = 47\<rparr>"
    unfolding d df p len by (simp add: f)
  with a4 have c: "c = [0xFF, 0xD8, 0xFF, 0xE0, 0, 2, 1, 3]" by simp
  from a6 have l: "jpeg_layout demo_env_spec [0xFF, 0xD8, 0xFF, 0xE0, 0, 2, 1, 3]
       [0xFF, 0xE1, 0x00, 0x04, 0xAA, 0xBB] demo_assembled"
    unfolding c p .
  from r n p l tb show ?thesis by (intro conjI)
qed

text \<open>Claim C8 as stated fails for a file written by copying. A PPM input of 50 bytes
  under the default options is copied to the output by the size test of the first
  iteration: the file written starts with \<open>P6\<close>, not with the start marker, and does not
  have the layout over the candidate of that iteration.\<close>

theorem assembled_file_counterexample:
  "jpeg_run demo_env defaults 2 (demo_ppm 48) = Exit 0 (Some (demo_ppm 48))
   \<and> \<not> checkJpegMagic demo_env (demo_ppm 48)
   \<and> \<not> jpeg_layout demo_env
         (jpeg_candidate demo_env (jpeg_resolveTarget defaults) 50
            (init_state (jpeg_resolveTarget defaults)))
         (jpeg_preserved demo_env defaults (demo_ppm 48)) (demo_ppm 48)"
proof -
  have "jpeg_run demo_env defaults 2 (demo_ppm 48) = Exit 0 (Some (demo_ppm 48))"
    by (simp add: demo_main_defs jpeg_search.simps jpeg_setTargetFromPreset_def demo_run_defs)
  moreover have "\<not> checkJpegMagic demo_env (demo_ppm 48)"
    by (simp add: demo_env_def demo_ppm_def)
  moreover have "\<not> jpeg_layout demo_env
         (jpeg_candidate demo_env (jpeg_resolveTarget defaults) 50
            (init_state (jpeg_resolveTarget defaults)))
         (jpeg_preserved demo_env defaults (demo_ppm 48)) (demo_ppm 48)"
    by (simp add: jpeg_layout_def jpeg_candidate_def jpeg_resolveTarget_def
        jpeg_setTargetFromPreset_def app0_lenP4_def demo_defs)
  ultimately show ?thesis by simp
qed

section \<open>A file that carries the signature is not processed again\<close>

text \<open>
  Claim C7, as amended. Let \<open>out\<close> be a file that jpeg-recompress.c assembled (exit
  status 0, not a copy of its input), with an encoder whose header segment states a
  length of at least 2, and let \<open>getMetadata\<close> be as modelled from the spec. When \<open>out\<close>
  is given as input to a run with valid options that takes it as a JPEG file and decodes
  it, \<open>getMetadata\<close> finds the signature comment and the run does not search: it copies
  \<open>out\<close> to the output and exits with status 0 when copying is enabled, and exits with
  status 2 when it is disabled.
\<close>

theorem signed_output_is_detected:
  fixes env :: "('img, 'gray) collaborators"
  assumes "jpeg_run env cfg nargs buf = Exit 0 (Some out)" and "out \<noteq> buf"
    and "getMetadata env = getMetadata_spec nullWhenEmpty"
    and "\<And>img q progressive optimize sub.
           6 \<le> app0_lenP4 (encodeJpeg env img q progressive optimize sub)"
    and "cmp_method cfg2 \<noteq> UNKNOWN" and "qMin cfg2 \<le> qMax cfg2"
    and "resolveFiletype env cfg2 out = FILETYPE_JPEG"
    and "decodeFileFromBuffer env out FILETYPE_JPEG = Some decoded"
    and "grayscale env (applyDefish env cfg2 decoded) = Some originalGray"
  shows "fst (getMetadata env out COMMENT_jpeg)
     \<and> jpeg_run env cfg2 2 out = (if copyFiles cfg2 then Exit 0 (Some out) else Exit 2 None)"
proof -
  from jpeg_run_assembled [OF assms(1,2)] obtain decoded' originalGray' c where
    c: "c = jpeg_candidate env (jpeg_resolveTarget cfg) (applyDefish env cfg decoded')
            (jpeg_lastHead env (jpeg_resolveTarget cfg) (applyDefish env cfg decoded')
               originalGray' buf (length (jpeg_preserved env cfg buf))
               (init_state (jpeg_resolveTarget cfg)))"
    and l: "jpeg_layout env c (jpeg_preserved env cfg buf) out"
    by blast
  have n6: "6 \<le> app0_lenP4 c"
    unfolding c using assms(4) by (simp add: jpeg_candidate_def Let_def)
  have "list_ex (isSignatureComment (bytes_of COMMENT_jpeg)) (segmentsOf (drop 2 out))"
    by (rule layout_signature [OF l n6])
  then have found: "fst (getMetadata env out COMMENT_jpeg)"
    by (simp add: assms(3) getMetadata_spec_def)
  have ne: "out \<noteq> []"
    using l by (auto simp: jpeg_layout_def)
  have "jpeg_run env cfg2 2 out = (if copyFiles cfg2 then Exit 0 (Some out) else Exit 2 None)"
    by (rule jpeg_run_found [OF assms(5,6) ne assms(7,8,9) found])
  with found show ?thesis by simp
qed

text \<open>The theorem at work: the file assembled from \<open>demo_jpeg 86\<close> under \<open>demo_cfg_narrow\<close>
  is copied by a second run, and refused with status 2 by a second run with \<open>--no-copy\<close>.\<close>

theorem signed_output_is_detected_witness:
  "jpeg_run demo_env_spec demo_cfg_narrow 2 (demo_jpeg 86) = Exit 0 (Some demo_assembled)
   \<and> fst (getMetadata demo_env_spec demo_assembled COMMENT_jpeg)
   \<and> jpeg_run demo_env_spec demo_cfg_narrow 2 demo_assembled = Exit 0 (Some demo_assembled)
   \<and> jpeg_run demo_env_spec (demo_cfg_narrow\<lparr>copyFiles := False\<rparr>) 2 demo_assembled = Exit 2 None"
proof -
  note md = demo_jpeg_metadata(1) [unfolded demo_jpeg_def COMMENT_jpeg_def, simplified]
  have r: "jpeg_run demo_env_spec demo_cfg_narrow 2 (demo_jpeg 86) = Exit 0 (Some demo_assembled)"
    by (simp add: demo_main_defs demo_env_spec_def md jpeg_search.simps demo_cfg_narrow_def
        demo_assembled_def demo_run_defs)
  have "length demo_assembled \<noteq> length (demo_jpeg 86)"
    by (simp add: demo_assembled_def demo_jpeg_def comment_segment_def bytes_of_def
        COMMENT_jpeg_def)
  then have n: "demo_assembled \<noteq> demo_jpeg 86"
    by auto
  have g: "getMetadata demo_env_spec = getMetadata_spec False"
    by (simp add: demo_env_spec_def)
  have e: "6 \<le> app0_lenP4 (encodeJpeg demo_env_spec img q progressive optimize sub)"
    for img q progressive optimize sub
    by (simp add: demo_env_spec_def demo_env_def demo_encodeJpeg_def app0_lenP4_def)
  have m: "cmp_method demo_cfg_narrow \<noteq> UNKNOWN" "qMin demo_cfg_narrow \<le> qMax demo_cfg_narrow"
    "cmp_method (demo_cfg_narrow\<lparr>copyFiles := False\<rparr>) \<noteq> UNKNOWN"
    "qMin (demo_cfg_narrow\<lparr>copyFiles := False\<rparr>) \<le> qMax (demo_cfg_narrow\<lparr>copyFiles := False\<rparr>)"
    by (simp_all add: demo_cfg_narrow_def defaults_def)
  have t: "resolveFiletype demo_env_spec demo_cfg_narrow demo_assembled = FILETYPE_JPEG"
    "resolveFiletype demo_env_spec (demo_cfg_narrow\<lparr>copyFiles := False\<rparr>) demo_assembled
       = FILETYPE_JPEG"
    by (simp_all add: resolveFiletype_def demo_env_spec_def demo_env_def demo_cfg_narrow_def
        defaults_def demo_assembled_def)
  have d: "decodeFileFromBuffer demo_env_spec demo_assembled FILETYPE_JPEG
             = Some (length demo_assembled)"
    by (simp add: demo_env_spec_def demo_env_def demo_decodeFile_def demo_assembled_def)
  have y: "grayscale demo_env_spec (applyDefish demo_env_spec demo_cfg_narrow (length demo_assembled))
             = Some (int (length demo_assembled))"
    "grayscale demo_env_spec
       (applyDefish demo_env_spec (demo_cfg_narrow\<lparr>copyFiles := False\<rparr>) (length demo_assembled))
             = Some (int (length demo_assembled))"
    by (simp_all add: applyDefish_def demo_env_spec_def demo_env_def demo_cfg_narrow_def
        defaults_def)
  have c: "copyFiles demo_cfg_narrow" "\<not> copyFiles (demo_cfg_narrow\<lparr>copyFiles := False\<rparr>)"
    by (simp_all add: demo_cfg_narrow_def defaults_def)
  from signed_output_is_detected [OF r n g e m(1,2) t(1) d y(1)]
    signed_output_is_detected [OF r n g e m(3,4) t(2) d y(2)] r c
  show ?thesis by simp
qed

text \<open>Claim C7 as stated fails in two ways. First, an output file may be a copy of the
  input, which carries no signature. The JPEG input \<open>demo_jpeg 36\<close> of 50 bytes under the
  default options is copied to the output by the size test (47 + 10 is not below 50).
  Given back as input, the file is not found to be signed: with \<open>--no-copy\<close> the run ends
  in the size test with status 1, not 2, and with a target of 0.005 and one attempt the
  file is compressed again and a different file is written. Second, with an encoder whose
  header segment states the length 0 the assembled file holds the comment segment at its
  fifth byte; the modelled scan reads the header segment as reaching to the end of the
  file and does not find the signature, and a second run with \<open>--no-copy\<close> ends with
  status 1, not 2.\<close>

theorem signed_output_counterexample:
  "jpeg_run demo_env_spec defaults 2 (demo_jpeg 36) = Exit 0 (Some (demo_jpeg 36))
   \<and> \<not> fst (getMetadata demo_env_spec (demo_jpeg 36) COMMENT_jpeg)
   \<and> jpeg_run demo_env_spec (defaults\<lparr>copyFiles := False\<rparr>) 2 (demo_jpeg 36) = Exit 1 None
   \<and> jpeg_run demo_env_spec demo_cfg_once 2 (demo_jpeg 36)
       = Exit 0 (Some ([0xFF, 0xD8, 0xFF, 0xE0, 0x00, 0x02] @ comment_segment
                       @ [0xFF, 0xE1, 0x00, 0x04, 0xAA, 0xBB] @ [50, 3]))
   \<and> [0xFF, 0xD8, 0xFF, 0xE0, 0x00, 0x02] @ comment_segment
       @ [0xFF, 0xE1, 0x00, 0x04, 0xAA, 0xBB] @ [50, 3] \<noteq> demo_jpeg 36
   \<and> jpeg_run demo_env_short demo_cfg_narrow 2 (demo_jpeg 86)
       = Exit 0 (Some demo_assembled_short)
   \<and> demo_assembled_short \<noteq> demo_jpeg 86
   \<and> \<not> fst (getMetadata demo_env_short demo_assembled_short COMMENT_jpeg)
   \<and> jpeg_run demo_env_short (demo_cfg_narrow\<lparr>copyFiles := False\<rparr>) 2 demo_assembled_short
       = Exit 1 None"
proof -
  note md = demo_jpeg_metadata [unfolded demo_jpeg_def COMMENT_jpeg_def, simplified]
  have a: "jpeg_run demo_env_spec defaults 2 (demo_jpeg 36) = Exit 0 (Some (demo_jpeg 36))"
    by (simp add: demo_main_defs demo_env_spec_def md jpeg_search.simps
        jpeg_setTargetFromPreset_def demo_run_defs)
  have b: "\<not> fst (getMetadata demo_env_spec (demo_jpeg 36) COMMENT_jpeg)"
    by (simp add: demo_env_spec_def demo_jpeg_metadata)
  have c: "jpeg_run demo_env_spec (defaults\<lparr>copyFiles := False\<rparr>) 2 (demo_jpeg 36) = Exit 1 None"
    by (simp add: demo_main_defs demo_env_spec_def md jpeg_search.simps
        jpeg_setTargetFromPreset_def demo_run_defs)
  have d: "jpeg_run demo_env_spec demo_cfg_once 2 (demo_jpeg 36)
       = Exit 0 (Some ([0xFF, 0xD8, 0xFF, 0xE0, 0x00, 0x02] @ comment_segment
                       @ [0xFF, 0xE1, 0x00, 0x04, 0xAA, 0xBB] @ [50, 3]))"
    by (simp add: demo_main_defs demo_env_spec_def md jpeg_search.simps demo_cfg_once_def
        demo_run_defs)
  have "length ([0xFF, 0xD8, 0xFF, 0xE0, 0x00, 0x02] @ comment_segment
       @ [0xFF, 0xE1, 0x00, 0x04, 0xAA, 0xBB] @ [50, 3 :: byte]) \<noteq> length (demo_jpeg 36)"
    by (simp add: demo_jpeg_def comment_segment_def bytes_of_def COMMENT_jpeg_def)
  then have e: "[0xFF, 0xD8, 0xFF, 0xE0, 0x00, 0x02] @ comment_segment
       @ [0xFF, 0xE1, 0x00, 0x04, 0xAA, 0xBB] @ [50, 3] \<noteq> demo_jpeg 36"
    by (rule contrapos_nn) (erule arg_cong)
  have f: "jpeg_run demo_env_short demo_cfg_narrow 2 (demo_jpeg 86)
       = Exit 0 (Some demo_assembled_short)"
    by (simp add: demo_main_defs demo_env_short_def demo_env_spec_def md jpeg_search.simps
        demo_cfg_narrow_def demo_assembled_short_def demo_run_defs)
  have "length demo_assembled_short \<noteq> length (demo_jpeg 86)"
    by (simp add: demo_assembled_short_def demo_jpeg_def comment_segment_def bytes_of_def
        COMMENT_jpeg_def)
  then have g: "demo_assembled_short \<noteq> demo_jpeg 86"
    by auto
  have sg: "segmentsOf (drop 2 demo_assembled_short) = [drop 2 demo_assembled_short]"
    by (simp add: demo_assembled_short_def comment_segment_def bytes_of_def COMMENT_jpeg_def
        segmentsOf.simps segmentSize_def)
  have ms: "getMetadata_spec False demo_assembled_short COMMENT_jpeg = (False, Some [])"
    by (simp add: getMetadata_spec_def auxiliaryData_def sg isSignatureComment_def
        isTagBlock_def)
       (simp add: demo_assembled_short_def comment_segment_def)
  have h: "\<not> fst (getMetadata demo_env_short demo_assembled_short COMMENT_jpeg)"
    by (simp add: demo_env_short_def demo_env_spec_def ms)
  note ms' = ms [unfolded demo_assembled_short_def comment_segment_def bytes_of_def
      COMMENT_jpeg_def, simplified]
  have i: "jpeg_run demo_env_short (demo_cfg_narrow\<lparr>copyFiles := False\<rparr>) 2 demo_assembled_short
       = Exit 1 None"
    by (simp add: demo_main_defs demo_env_short_def demo_env_spec_def ms' jpeg_search.simps
        demo_cfg_narrow_def demo_assembled_short_def demo_run_defs)
  from a b c d e f g h i show ?thesis by (intro conjI)
qed

section \<open>A target of zero\<close>



end
